theory Spec2Isabelle
  imports Complex_Main
begin

section \<open>Data model of the debate engine\<close>

text \<open>
  The embedding follows \<^verbatim>\<open>server/lib/debate-engine.ts\<close>, the mock adapter, the MCP client
  and the HTTP handler \<^verbatim>\<open>handleRun\<close>.

  Conventions of the model:
  \<^item> a JavaScript \<^verbatim>\<open>number\<close> that holds a probability, weight, confidence or reliability is
    a \<^typ>\<open>real\<close>: arithmetic is exact, so a tolerance of the text (``within 1e-9'') is met
    by exact equality;
  \<^item> a timestamp is the number of milliseconds that \<^verbatim>\<open>Date.getTime()\<close> returns, an
    \<^typ>\<open>int\<close>; \<^verbatim>\<open>toISOString()\<close>, which renders it, is left out;
  \<^item> a thrown \<^verbatim>\<open>Error\<close> is \<open>Inl message\<close>;
  \<^item> an optional field is an \<^typ>\<open>'a option\<close>;
  \<^item> record fields keep the source's names; where two types of the source share a field
    name the later one carries a prefix.
\<close>

datatype AgentRole = Planner | Skeptic | Security | Cost | Synthesizer

record ProbabilityEntry =
  planId :: string
  probability :: real
  updatedBy :: AgentRole
  rationale :: string
  timestamp :: int

record ProbabilitySnapshot =
  snap_timestamp :: int
  snap_note :: string
  entries :: "ProbabilityEntry list"

text \<open>The \<^verbatim>\<open>update\<close> argument of \<^verbatim>\<open>applyWeightedUpdate\<close>.\<close>

record BeliefUpdate =
  upd_planId :: string
  upd_probability :: real
  upd_updatedBy :: AgentRole
  upd_rationale :: string

section \<open>Belief revision\<close>

definition DAMPING_FACTOR :: real where
  "DAMPING_FACTOR = 0.08"

definition clampUnit :: "real \<Rightarrow> real" where
  "clampUnit v = min 1 (max 0 v)"

definition clampWeight :: "real \<Rightarrow> real" where
  "clampWeight v = min 1 (max 0 v)"

text \<open>
  \<^verbatim>\<open>entries.reduce((sum, entry) => sum + entry.probability, 0)\<close> is the left fold.
  On the empty list \<^verbatim>\<open>1 / entries.length\<close> is \<^verbatim>\<open>Infinity\<close> in the source and \<open>0\<close> here;
  the value is not used there, since the map runs over no entry.
\<close>

definition normalizeEntries :: "ProbabilityEntry list \<Rightarrow> ProbabilityEntry list" where
  "normalizeEntries es =
     (let total = foldl (\<lambda>sum entry. sum + probability entry) 0 es in
      if total = 0 then
        (let uniform = 1 / real (length es) in
         map (\<lambda>entry. entry\<lparr>probability := uniform\<rparr>) es)
      else map (\<lambda>entry. entry\<lparr>probability := probability entry / total\<rparr>) es)"

definition dampAndNormalize :: "ProbabilityEntry list \<Rightarrow> ProbabilityEntry list" where
  "dampAndNormalize es =
     (let normalized = normalizeEntries es;
          uniform = 1 / real (length normalized) in
      map (\<lambda>entry. entry\<lparr>probability :=
             (1 - DAMPING_FACTOR) * probability entry + DAMPING_FACTOR * uniform\<rparr>)
          normalized)"

definition toTimestamp :: "int \<Rightarrow> int \<Rightarrow> int" where
  "toTimestamp base offsetMinutes = base + offsetMinutes * 60000"

definition recordSnapshot :: "int \<Rightarrow> string \<Rightarrow> ProbabilityEntry list \<Rightarrow> ProbabilitySnapshot" where
  "recordSnapshot ts nt es = \<lparr>snap_timestamp = ts, snap_note = nt, entries = es\<rparr>"

definition applyWeightedUpdate ::
  "ProbabilityEntry list \<Rightarrow> BeliefUpdate \<Rightarrow> int \<Rightarrow> real \<Rightarrow> ProbabilityEntry list" where
  "applyWeightedUpdate previous update ts weight =
     map (\<lambda>entry.
            if planId entry \<noteq> upd_planId update then entry
            else
              (let weighted = probability entry * (1 - weight) + upd_probability update * weight in
               entry\<lparr>probability := clampUnit weighted,
                     updatedBy := upd_updatedBy update,
                     rationale := upd_rationale update,
                     timestamp := ts\<rparr>))
         previous"


text \<open>The sum of the probabilities of a list of entries, the quantity the invariants speak of.\<close>

definition total_probability :: "ProbabilityEntry list \<Rightarrow> real" where
  "total_probability es = sum_list (map probability es)"

text \<open>
  \<^verbatim>\<open>updates\<close> of \<^verbatim>\<open>reviseFromAgent\<close> are \<^verbatim>\<open>{planId, probability, rationale}\<close>: a triple.
  \<^verbatim>\<open>updates.forEach\<close> with the reassigned \<^verbatim>\<open>result\<close> is a left fold.
\<close>

definition reviseFromAgent ::
  "ProbabilityEntry list \<Rightarrow> AgentRole \<Rightarrow> (string \<times> real \<times> string) list \<Rightarrow> int \<Rightarrow> int \<Rightarrow> real
     \<Rightarrow> ProbabilityEntry list" where
  "reviseFromAgent previous agent updates baseTime offset weight =
     (let ts = toTimestamp baseTime offset;
          result = foldl (\<lambda>result (pid, prob, rat).
                      applyWeightedUpdate result
                        \<lparr>upd_planId = pid, upd_probability = prob,
                         upd_updatedBy = agent, upd_rationale = rat\<rparr> ts weight)
                    previous updates in
      dampAndNormalize (map (\<lambda>entry. entry\<lparr>timestamp := ts\<rparr>) result))"

section \<open>Plans, proposals and verification results\<close>

record DebatePlan =
  plan_id :: string
  plan_title :: string
  plan_summary :: string
  plan_steps :: "string list"
  plan_risks :: "string list"

text \<open>What \<^verbatim>\<open>generateAgentProposal\<close> returns, and the element of \<^verbatim>\<open>proposals\<close>.\<close>

record AgentProposalDraft =
  draft_proposal :: string
  draft_summary :: string
  draft_risk :: string
  draft_riskSeverity :: real
  draft_rationale :: "string list"
  draft_confidence :: real

record Proposal =
  agent :: AgentRole
  proposal :: string
  prop_summary :: string
  risk :: string
  riskSeverity :: real
  prop_rationale :: "string list"
  confidence :: real

record FinalSolution =
  fs_summary :: string
  fs_steps :: "string list"
  fs_risks :: "string list"
  fs_assumptions :: "string list"

record VerificationResult =
  passed :: bool
  vr_output :: string
  durationMs :: int
  vr_summary :: string
  reliability :: "real option"
  warning :: "string option"
  adapterName :: "string option"
  startedAt :: "int option"
  finishedAt :: "int option"

datatype McpStatus = StatusPass | StatusFail | StatusSkipped | StatusError

text \<open>
  \<^verbatim>\<open>McpToolResult\<close>, parsed from the JSON of the response. The type declares
  \<^verbatim>\<open>reliability: number\<close>; the payload is not validated, so a missing field is \<open>None\<close>.
  \<^verbatim>\<open>startedAt\<close> and \<^verbatim>\<open>finishedAt\<close> are the times that \<^verbatim>\<open>new Date(...).getTime()\<close> reads.
\<close>

record McpToolResult =
  evidenceId :: string
  status :: McpStatus
  mcp_summary :: string
  logs :: "string list"
  exitCode :: "int option"
  mcp_startedAt :: int
  mcp_finishedAt :: int
  mcp_reliability :: "real option"

text \<open>The arguments of the \<^verbatim>\<open>verify_plan\<close> call.\<close>

record McpArgs =
  arg_sessionId :: string
  arg_planId :: string
  arg_mode :: string
  arg_fixturePath :: "string option"
  arg_command :: "string option"

datatype EvidenceType = Test | Log | Analysis | Patch

record EvidenceLedgerEntry =
  ev_id :: string
  ev_planId :: string
  ev_agent :: AgentRole
  ev_type :: EvidenceType
  ev_summary :: string
  ev_details :: string
  ev_reliability :: real
  ev_timestamp :: int

record DebateTimelineEvent =
  tl_id :: string
  tl_label :: string
  tl_timestamp :: int
  tl_details :: string

datatype Variance = Low | Medium | High

datatype LlmProvider = Groq | Ollama

text \<open>
  \<^verbatim>\<open>DebateWeights\<close> is an object indexed by role (\<^verbatim>\<open>weights[role]\<close>): a function of the role.
  The overrides of a request come from JSON, where every key may be missing.
\<close>

type_synonym DebateWeights = "AgentRole \<Rightarrow> real"
type_synonym WeightOverrides = "AgentRole \<Rightarrow> real option"

text \<open>
  The session that \<^verbatim>\<open>runDebate\<close> returns. Left out are the fields that only render text
  or repeat constants: \<^verbatim>\<open>agents\<close>, \<^verbatim>\<open>transcript\<close>, \<^verbatim>\<open>finalDiff\<close>, \<^verbatim>\<open>uncertaintySummary\<close>,
  \<^verbatim>\<open>model\<close>, \<^verbatim>\<open>promptVersion\<close>, \<^verbatim>\<open>belief.statement\<close>, \<^verbatim>\<open>action.recommendation\<close> and
  \<^verbatim>\<open>action.assumptions\<close>.
\<close>

record DebateSession =
  s_id :: string
  s_scenario :: string
  s_createdAt :: int
  s_plans :: "DebatePlan list"
  s_probabilities :: "ProbabilitySnapshot list"
  s_evidenceLedger :: "EvidenceLedgerEntry list"
  s_timeline :: "DebateTimelineEvent list"
  s_finalPlanId :: string
  s_adapter :: string
  s_weights :: DebateWeights
  s_runVerification :: bool
  s_generationWarnings :: "string list"
  s_proposals :: "Proposal list"
  s_finalSolution :: "FinalSolution option"
  s_promptCategory :: string
  s_winningAgent :: "AgentRole option"
  s_codeScenario :: bool
  s_daytonaOutput :: "string option"
  s_belief_probability :: real
  s_belief_variance :: Variance
  s_action_response :: string

text \<open>
  The collaborators of one run: the clock, the process environment and the external
  capabilities, each as the answer it gives to the call the run makes.
\<close>

record World =
  now :: int
  llmEnabled :: "LlmProvider option \<Rightarrow> bool"
  classifyPrompt :: "string \<Rightarrow> string + string"
  generateAgentProposal :: "AgentRole \<Rightarrow> string \<Rightarrow> DebateWeights \<Rightarrow> string \<Rightarrow> string + AgentProposalDraft"
  callMcpTool :: "McpArgs \<Rightarrow> string + McpToolResult"
  mockDurationMs :: int
  generateFinalSolution ::
    "string \<Rightarrow> Proposal list \<Rightarrow> (string \<times> string) option \<Rightarrow> string + FinalSolution"
  generateFinalResponse ::
    "string \<Rightarrow> string \<Rightarrow> FinalSolution \<Rightarrow> Proposal list \<Rightarrow> (string \<times> string) option \<Rightarrow> bool
       \<Rightarrow> string + string"
  env_VERIFICATION_MODE :: "string option"
  env_VERIFICATION_FIXTURE_PATH :: "string option"
  env_VERIFICATION_COMMAND :: "string option"

record RunOptions =
  opt_weights :: "WeightOverrides option"
  opt_runVerification :: "bool option"
  opt_llmProvider :: "LlmProvider option"

section \<open>Strings\<close>

text \<open>Decimal rendering of a number inside a template string.\<close>

fun digitsOf :: "nat \<Rightarrow> string" where
  "digitsOf n =
     (if n < 10 then [''0123456789'' ! n]
      else digitsOf (n div 10) @ [''0123456789'' ! (n mod 10)])"

definition showInt :: "int \<Rightarrow> string" where
  "showInt i = (if i < 0 then ''-'' @ digitsOf (nat (- i)) else digitsOf (nat i))"

fun joinWith :: "string \<Rightarrow> string list \<Rightarrow> string" where
  "joinWith sep [] = []"
| "joinWith sep [x] = x"
| "joinWith sep (x # y # ys) = x @ sep @ joinWith sep (y # ys)"

definition roleName :: "AgentRole \<Rightarrow> string" where
  "roleName r = (case r of Planner \<Rightarrow> ''planner'' | Skeptic \<Rightarrow> ''skeptic''
     | Security \<Rightarrow> ''security'' | Cost \<Rightarrow> ''cost'' | Synthesizer \<Rightarrow> ''synthesizer'')"

text \<open>
  \<^verbatim>\<open>toLowerCase\<close> on the letters A to Z; the scenario text is a list of 8-bit characters,
  and the keywords below are ASCII.
\<close>

definition toLowerChar :: "char \<Rightarrow> char" where
  "toLowerChar c =
     (case map_of (zip ''ABCDEFGHIJKLMNOPQRSTUVWXYZ'' ''abcdefghijklmnopqrstuvwxyz'') c of
        Some l \<Rightarrow> l | None \<Rightarrow> c)"

definition toLowerCase :: "string \<Rightarrow> string" where
  "toLowerCase text = map toLowerChar text"

fun startsWith :: "string \<Rightarrow> string \<Rightarrow> bool" where
  "startsWith cs [] = True"
| "startsWith [] (w # ws) = False"
| "startsWith (c # cs) (w # ws) = (c = w \<and> startsWith cs ws)"

fun str_includes :: "string \<Rightarrow> string \<Rightarrow> bool" where
  "str_includes [] word = (word = [])"
| "str_includes (c # cs) word = (startsWith (c # cs) word \<or> str_includes cs word)"

definition codeKeywords :: "string list" where
  "codeKeywords = [''code'', ''bug'', ''error'', ''stack'', ''test'', ''build'', ''deploy'',
     ''api'', ''repo'', ''typescript'', ''javascript'', ''python'', ''rust'', ''java'',
     ''compile'', ''runtime'', ''exception'']"

definition isCodeScenario :: "string \<Rightarrow> bool" where
  "isCodeScenario text =
     (let lowered = toLowerCase text in list_ex (\<lambda>word. str_includes lowered word) codeKeywords)"

definition truncateText :: "string \<Rightarrow> nat \<Rightarrow> string" where
  "truncateText v mx = (if length v > mx then take mx v @ ''...'' else v)"


section \<open>Weights, plans and priors\<close>

text \<open>The roster, by role; the display name and the goal text of an agent are not read.\<close>

definition agents :: "AgentRole list" where
  "agents = [Planner, Skeptic, Security, Cost, Synthesizer]"

definition defaultScenario :: string where
  "defaultScenario = ''Fix failing test''"

definition defaultWeights :: DebateWeights where
  "defaultWeights r = (case r of Planner \<Rightarrow> 0.35 | Skeptic \<Rightarrow> 0.45 | Security \<Rightarrow> 0.5
     | Cost \<Rightarrow> 0.4 | Synthesizer \<Rightarrow> 0.6)"

definition resolveWeights :: "WeightOverrides option \<Rightarrow> DebateWeights" where
  "resolveWeights overrides r =
     clampWeight (case (case overrides of None \<Rightarrow> None | Some ov \<Rightarrow> ov r) of
                    None \<Rightarrow> defaultWeights r | Some v \<Rightarrow> v)"

definition basePlans :: "DebatePlan list" where
  \<open>basePlans =
     [\<lparr>plan_id = ''plan-a'', plan_title = ''Backfill role default in userService'',
       plan_summary = ''Add a default role when user role is missing.'',
       plan_steps = [''Inspect userService mapping for undefined role cases.'',
                     ''Add fallback to "viewer" when role is undefined.'',
                     ''Update unit tests to reflect default role behavior.''],
       plan_risks = [''May mask upstream data issues if role is missing.'']\<rparr>,
      \<lparr>plan_id = ''plan-b'', plan_title = ''Fix role mapping from auth payload'',
       plan_summary = ''Ensure auth payload is normalized before mapping roles.'',
       plan_steps = [''Normalize auth payload into consistent structure.'',
                     ''Map missing roles to default values in mapper.'',
                     ''Add regression test for empty role list.''],
       plan_risks = [''Requires touching shared auth parsing logic.'']\<rparr>,
      \<lparr>plan_id = ''plan-c'', plan_title = ''Update mocks to include role fixture'',
       plan_summary = ''Adjust fixtures so tests include expected role values.'',
       plan_steps = [''Inspect failing test fixtures for role omissions.'',
                     ''Update mock payloads to include role field.'',
                     ''Re-run test suite to confirm stability.''],
       plan_risks = [''If production code is wrong, mocks may hide issue.'']\<rparr>,
      \<lparr>plan_id = ''plan-d'', plan_title = ''Adjust validation for legacy role values'',
       plan_summary = ''Allow legacy role values in validation logic.'',
       plan_steps = [''Check validation rules for role enum.'',
                     ''Add legacy alias mapping for "guest" role.'',
                     ''Update snapshot tests for legacy role support.''],
       plan_risks = [''Could introduce inconsistent role semantics.'']\<rparr>]\<close>

text \<open>\<^verbatim>\<open>xs[i]\<close>, which is \<^verbatim>\<open>undefined\<close> out of range.\<close>

definition elemAt :: "'a list \<Rightarrow> nat \<Rightarrow> 'a option" where
  "elemAt xs i = (if i < length xs then Some (xs ! i) else None)"

definition proposalOrder :: "AgentRole list" where
  "proposalOrder = [Planner, Skeptic, Security, Cost]"

definition proposalPlanMap :: "AgentRole \<Rightarrow> string option" where
  "proposalPlanMap r = (case r of Planner \<Rightarrow> Some ''plan-a'' | Skeptic \<Rightarrow> Some ''plan-b''
     | Security \<Rightarrow> Some ''plan-c'' | Cost \<Rightarrow> Some ''plan-d'' | Synthesizer \<Rightarrow> None)"

text \<open>\<^verbatim>\<open>String.fromCharCode(97 + index)\<close> is \<open>char_of (97 + index)\<close>.\<close>

definition plansFromProposals :: "Proposal list \<Rightarrow> DebatePlan list" where
  "plansFromProposals proposals =
     map (\<lambda>(index, role).
            let found = find (\<lambda>item. agent item = role) proposals in
            \<lparr>plan_id = ''plan-'' @ [char_of (97 + index)],
             plan_title = (case found of Some p \<Rightarrow> roleName role @ '' proposal''
                                        | None \<Rightarrow> ''Plan '' @ digitsOf (index + 1)),
             plan_summary = (case found of Some p \<Rightarrow> proposal p
                                          | None \<Rightarrow> ''No proposal available.''),
             plan_steps = (case found of
                             Some p \<Rightarrow> if length (prop_rationale p) \<noteq> 0 then prop_rationale p
                                       else [''Gather details'', ''Draft approach'', ''Validate outcome'']
                           | None \<Rightarrow> [''Gather details'', ''Draft approach'', ''Validate outcome'']),
             plan_risks = [''Requires validation against real-world constraints.'']\<rparr>)
         (enumerate 0 [Planner, Skeptic, Security, Cost])"

definition initialProbabilitiesForPlans :: "int \<Rightarrow> DebatePlan list \<Rightarrow> ProbabilityEntry list" where
  "initialProbabilitiesForPlans baseTime plans =
     (let ts = toTimestamp baseTime 1 in
      map (\<lambda>plan. \<lparr>planId = plan_id plan, probability = 0.25, updatedBy = Planner,
                    rationale = ''Initial prior assigned by Planner.'', timestamp = ts\<rparr>) plans)"

section \<open>Verification\<close>

definition evaluateVerification ::
  "ProbabilityEntry list \<Rightarrow> VerificationResult \<Rightarrow> string \<Rightarrow> int \<Rightarrow> real \<Rightarrow> ProbabilityEntry list" where
  "evaluateVerification previous verification pid baseTime weight =
     (let ts = toTimestamp baseTime 16;
          rel = (case reliability verification of
                   Some r \<Rightarrow> r | None \<Rightarrow> (if passed verification then 0.9 else 0.75));
          effectiveWeight = clampWeight (weight * rel);
          targetProbability = (if passed verification then 0.82 else 0.18);
          updated = applyWeightedUpdate previous
                      \<lparr>upd_planId = pid, upd_probability = targetProbability,
                       upd_updatedBy = Synthesizer,
                       upd_rationale = (if passed verification
                          then ''Verification passed; confidence boosted with damping.''
                          else ''Verification failed; confidence reduced with damping.'')\<rparr>
                      ts effectiveWeight in
      dampAndNormalize (map (\<lambda>entry. entry\<lparr>timestamp := ts\<rparr>) updated))"

text \<open>
  The table of the mock adapter. In the sample test output the two typographic marks
  outside ASCII (a bullet and an angle quotation mark) are written \<open>*\<close> and \<open>>\<close>, and the
  apostrophes around \<^verbatim>\<open>role\<close> are dropped.
\<close>

record MockOutput =
  mo_planId :: string
  mo_passed :: bool
  mo_summary :: string
  mo_output :: string

definition outputs :: "MockOutput list" where
  \<open>outputs =
     [\<lparr>mo_planId = ''plan-a'', mo_passed = False,
       mo_summary = ''Two tests still failing after change.'',
       mo_output = joinWith ''\<newline>''
         ['' RUNS  test/userService.test.ts'', '' FAIL  test/userService.test.ts'',
          ''  * UserService > returns default role'', ''    Expected: "viewer"'',
          ''    Received: undefined'', ''  * UserService > maps roles'',
          ''    TypeError: cannot read properties of undefined (reading role)'', [],
          ''Test Suites: 1 failed, 4 passed, 5 total'',
          ''Tests:       2 failed, 18 passed, 20 total'', ''Snapshots:   0 total'',
          ''Time:        4.21 s'']\<rparr>,
      \<lparr>mo_planId = ''plan-b'', mo_passed = True,
       mo_summary = ''All tests passing after role fallback fix.'',
       mo_output = joinWith ''\<newline>''
         ['' RUNS  test/userService.test.ts'', '' PASS  test/userService.test.ts'',
          '' PASS  test/roles.test.ts'', [], ''Test Suites: 5 passed, 5 total'',
          ''Tests:       20 passed, 20 total'', ''Snapshots:   0 total'',
          ''Time:        3.97 s'']\<rparr>,
      \<lparr>mo_planId = ''plan-c'', mo_passed = False,
       mo_summary = ''Mocks updated but integration still failing.'',
       mo_output = joinWith ''\<newline>''
         ['' RUNS  test/userService.test.ts'', '' FAIL  test/userService.test.ts'',
          ''  * UserService > maps roles'', ''    Expected: "admin"'',
          ''    Received: "viewer"'', [], ''Test Suites: 1 failed, 4 passed, 5 total'',
          ''Tests:       1 failed, 19 passed, 20 total'', ''Snapshots:   0 total'',
          ''Time:        4.02 s'']\<rparr>,
      \<lparr>mo_planId = ''plan-d'', mo_passed = False,
       mo_summary = ''Input validation changed but tests still failing.'',
       mo_output = joinWith ''\<newline>''
         ['' RUNS  test/userService.test.ts'', '' FAIL  test/userService.test.ts'',
          ''  * UserService > returns default role'', ''    Expected: "viewer"'',
          ''    Received: "guest"'', [], ''Test Suites: 1 failed, 4 passed, 5 total'',
          ''Tests:       1 failed, 19 passed, 20 total'', ''Snapshots:   0 total'',
          ''Time:        4.08 s'']\<rparr>]\<close>

text \<open>
  \<^verbatim>\<open>selectOutput\<close>; the request's scenario is not read. \<^verbatim>\<open>durationMs\<close> is
  \<^verbatim>\<open>3500 + Math.floor(Math.random() * 900)\<close>, the number the world draws.
\<close>

definition selectOutput :: "int \<Rightarrow> DebatePlan \<Rightarrow> VerificationResult" where
  "selectOutput duration plan =
     (let match = (case find (\<lambda>item. mo_planId item = plan_id plan) outputs of
                     Some m \<Rightarrow> m | None \<Rightarrow> outputs ! 0) in
      \<lparr>passed = mo_passed match, vr_output = mo_output match, durationMs = duration,
       vr_summary = mo_summary match,
       reliability = Some (if mo_passed match then 0.9 else 0.75),
       warning = None, adapterName = Some ''mock'', startedAt = None, finishedAt = None\<rparr>)"

definition mockAdapter_name :: string where
  "mockAdapter_name = ''mock''"

text \<open>
  The verification target of lines 598 to 611: the proposals ranked by confidence. The
  comparator \<^verbatim>\<open>(a, b) => b.confidence - a.confidence\<close> of the stable \<^verbatim>\<open>Array.prototype.sort\<close>
  orders by descending confidence and keeps the order of equal elements, as the stable
  insertion sort \<open>sort_key\<close> does on the negated key.
\<close>

definition rankedProposals :: "Proposal list \<Rightarrow> (string \<times> real) list" where
  "rankedProposals proposals =
     sort_key (\<lambda>r. - snd r)
       (map (\<lambda>p. (case proposalPlanMap (agent p) of Some pid \<Rightarrow> pid | None \<Rightarrow> ''plan-a'',
                   confidence p)) proposals)"

definition verificationTargetPlanId :: "Proposal list \<Rightarrow> DebatePlan list \<Rightarrow> string" where
  "verificationTargetPlanId proposals plans =
     (case rankedProposals proposals of
        r # _ \<Rightarrow> fst r
      | [] \<Rightarrow> (case plans of p # _ \<Rightarrow> plan_id p | [] \<Rightarrow> ''plan-a''))"

definition verificationMode :: "World \<Rightarrow> bool \<Rightarrow> string" where
  "verificationMode world codeScenario =
     (let verificationMode = toLowerCase (case env_VERIFICATION_MODE world of
                                            Some m \<Rightarrow> m | None \<Rightarrow> ''auto'') in
      if verificationMode = ''real'' then ''real''
      else if verificationMode = ''mock'' then ''mock''
      else if codeScenario then ''real'' else ''mock'')"

definition verifyPlanArgs :: "World \<Rightarrow> int \<Rightarrow> bool \<Rightarrow> Proposal list \<Rightarrow> DebatePlan list \<Rightarrow> McpArgs" where
  "verifyPlanArgs world baseTime codeScenario proposals plans =
     \<lparr>arg_sessionId = ''session-'' @ showInt baseTime,
      arg_planId = verificationTargetPlanId proposals plans,
      arg_mode = verificationMode world codeScenario,
      arg_fixturePath = env_VERIFICATION_FIXTURE_PATH world,
      arg_command = env_VERIFICATION_COMMAND world\<rparr>"

text \<open>
  The \<^verbatim>\<open>try\<close>/\<^verbatim>\<open>catch\<close> of lines 597 to 664. A throw of \<^verbatim>\<open>callMcpTool\<close> (endpoint not
  configured or unreachable, aborted call, error payload) is \<open>Inl message\<close> and enters the
  \<^verbatim>\<open>catch\<close> branch. Reading \<^verbatim>\<open>plan.id\<close> of an \<^verbatim>\<open>undefined\<close> plan throws a
  \<^verbatim>\<open>TypeError\<close>: inside \<^verbatim>\<open>try\<close> it enters the \<^verbatim>\<open>catch\<close> branch, inside \<^verbatim>\<open>catch\<close> it ends
  the run.
\<close>

definition verificationCatch ::
  "World \<Rightarrow> DebatePlan list \<Rightarrow> string list \<Rightarrow> string \<Rightarrow> string + (VerificationResult \<times> string list)" where
  "verificationCatch world plans warnings message =
     (let warnings' = warnings @ [''MCP verification failed; fell back to mock. '' @ message] in
      case elemAt plans 1 of
        None \<Rightarrow> Inl ''Cannot read properties of undefined (reading id)''
      | Some plan \<Rightarrow>
          Inr ((selectOutput (mockDurationMs world) plan)
                 \<lparr>warning := Some ''MCP verification failed; fell back to mock.'',
                  adapterName := Some ''mock''\<rparr>, warnings'))"

definition verificationStage ::
  "World \<Rightarrow> int \<Rightarrow> bool \<Rightarrow> Proposal list \<Rightarrow> DebatePlan list \<Rightarrow> string list
     \<Rightarrow> string + (VerificationResult \<times> string list)" where
  "verificationStage world baseTime codeScenario proposals plans warnings =
     (let targetPlanId = verificationTargetPlanId proposals plans;
          targetPlan = (case find (\<lambda>plan. plan_id plan = targetPlanId) plans of
                          Some plan \<Rightarrow> Some plan | None \<Rightarrow> elemAt plans 0) in
      case callMcpTool world (verifyPlanArgs world baseTime codeScenario proposals plans) of
        Inl message \<Rightarrow> verificationCatch world plans warnings message
      | Inr result \<Rightarrow>
          if status result = StatusError then
            (case (case targetPlan of Some plan \<Rightarrow> Some plan | None \<Rightarrow> elemAt plans 1) of
               None \<Rightarrow> verificationCatch world plans warnings
                         ''Cannot read properties of undefined (reading id)''
             | Some plan \<Rightarrow>
                 Inr ((selectOutput (mockDurationMs world) plan)
                        \<lparr>warning := Some ''MCP verification failed; fell back to mock.'',
                         adapterName := Some ''mock''\<rparr>, warnings))
          else
            Inr (\<lparr>passed = (status result = StatusPass),
                  vr_output = joinWith ''\<newline>'' (logs result),
                  durationMs = mcp_finishedAt result - mcp_startedAt result,
                  vr_summary = mcp_summary result,
                  reliability = mcp_reliability result,
                  warning = None, adapterName = Some ''mcp'',
                  startedAt = Some (mcp_startedAt result),
                  finishedAt = Some (mcp_finishedAt result)\<rparr>, warnings))"

section \<open>Timeline and evidence\<close>

definition buildDiff_diff :: string where
  \<open>buildDiff_diff = joinWith ''\<newline>''
     [''diff --git a/src/services/userService.ts b/src/services/userService.ts'',
      ''index 1b233d1..56c92fa 100644'',
      ''--- a/src/services/userService.ts'',
      ''+++ b/src/services/userService.ts'',
      ''@@ -14,7 +14,12 @@ export const mapUser = (payload: AuthPayload): User => {'',
      ''-  const role = payload.role;'',
      ''+  const role = payload.role ?? "viewer";'',
      ''   return {'',
      ''     id: payload.id,'',
      ''-    role,'',
      ''+    role,'',
      ''     name: payload.name,'',
      ''   };'',
      '' };'']\<close>

definition buildTimeline :: "int \<Rightarrow> string \<Rightarrow> bool \<Rightarrow> DebateTimelineEvent list" where
  "buildTimeline baseTime adapter runVerification =
     [\<lparr>tl_id = ''timeline-plans'', tl_label = ''Plans proposed'',
       tl_timestamp = toTimestamp baseTime 0,
       tl_details = ''Planner proposed four candidate plans.''\<rparr>,
      \<lparr>tl_id = ''timeline-debate'', tl_label = ''Debate round'',
       tl_timestamp = toTimestamp baseTime 9,
       tl_details = ''Skeptic, Security, and Cost reviewed the plan set.''\<rparr>,
      \<lparr>tl_id = ''timeline-verification'', tl_label = ''Verification run'',
       tl_timestamp = toTimestamp baseTime 15,
       tl_details = (if runVerification
          then ''Verification run executed via '' @ adapter @ '' adapter.''
          else ''Verification skipped for this run; evidence based on debate only.'')\<rparr>,
      \<lparr>tl_id = ''timeline-synthesis'', tl_label = ''Synthesized outcome'',
       tl_timestamp = toTimestamp baseTime 18,
       tl_details = ''Synthesizer produced final recommendation and patch.''\<rparr>]"

definition buildEvidence ::
  "int \<Rightarrow> VerificationResult \<Rightarrow> string \<Rightarrow> bool \<Rightarrow> string list \<Rightarrow> DebatePlan list \<Rightarrow> bool
     \<Rightarrow> EvidenceLedgerEntry list" where
  "buildEvidence baseTime verification pid runVerification generationWarnings plans includePatch =
     (let selectedPlan = find (\<lambda>plan. plan_id plan = pid) plans;
          selectedSummary = (case selectedPlan of Some plan \<Rightarrow> plan_summary plan
                             | None \<Rightarrow> ''Selected plan summary unavailable.'');
          selectedRisk = (case selectedPlan of
                            Some plan \<Rightarrow> (case plan_risks plan of r # _ \<Rightarrow> r
                                          | [] \<Rightarrow> ''Primary risk not specified.'')
                          | None \<Rightarrow> ''Primary risk not specified.'');
          verificationEntry =
            (if runVerification then
               \<lparr>ev_id = ''evidence-verification'', ev_planId = pid, ev_agent = Synthesizer,
                ev_type = Test, ev_summary = vr_summary verification,
                ev_details = vr_output verification,
                ev_reliability = (case reliability verification of
                                    Some r \<Rightarrow> r
                                  | None \<Rightarrow> (if passed verification then 0.9 else 0.75)),
                ev_timestamp = toTimestamp baseTime 16\<rparr>
             else
               \<lparr>ev_id = ''evidence-verification'', ev_planId = pid, ev_agent = Synthesizer,
                ev_type = Analysis, ev_summary = ''Verification skipped.'',
                ev_details = ''Verification was skipped for this run; evidence relies on agent debate.'',
                ev_reliability = 0.55,
                ev_timestamp = toTimestamp baseTime 16\<rparr>);
          warningEntries =
            map (\<lambda>(index, w).
                   \<lparr>ev_id = ''evidence-generation-warning-'' @ digitsOf index, ev_planId = pid,
                    ev_agent = Synthesizer, ev_type = Log, ev_summary = ''Generation warning'',
                    ev_details = w, ev_reliability = 0.35,
                    ev_timestamp = toTimestamp baseTime (5 + int index)\<rparr>)
                (enumerate 0 generationWarnings);
          entries0 =
            [\<lparr>ev_id = ''evidence-planner'', ev_planId = pid, ev_agent = Planner,
              ev_type = Analysis, ev_summary = ''Planner rationale captured for selected plan.'',
              ev_details = selectedSummary, ev_reliability = 0.62,
              ev_timestamp = toTimestamp baseTime 2\<rparr>,
             \<lparr>ev_id = ''evidence-security'', ev_planId = pid, ev_agent = Security,
              ev_type = Analysis, ev_summary = ''Security flagged key risk for selected plan.'',
              ev_details = selectedRisk, ev_reliability = 0.7,
              ev_timestamp = toTimestamp baseTime 7\<rparr>]
            @ warningEntries @ [verificationEntry]
            @ (case warning verification of
                 None \<Rightarrow> []
               | Some w \<Rightarrow>
                   if w = [] then []
                   else [\<lparr>ev_id = ''evidence-warning'', ev_planId = pid, ev_agent = Synthesizer,
                          ev_type = Log, ev_summary = ''Verification warning'', ev_details = w,
                          ev_reliability = 0.4, ev_timestamp = toTimestamp baseTime 17\<rparr>]) in
      if includePatch then
        entries0 @ [\<lparr>ev_id = ''evidence-patch'', ev_planId = pid, ev_agent = Synthesizer,
                     ev_type = Patch, ev_summary = ''Example patch output.'',
                     ev_details = buildDiff_diff, ev_reliability = 0.8,
                     ev_timestamp = toTimestamp baseTime 18\<rparr>]
      else entries0)"

section \<open>The run\<close>

text \<open>
  \<^verbatim>\<open>[...verified].sort((a, b) => b.probability - a.probability)[0]?.planId ?? "plan-a"\<close>:
  the stable sort by descending probability, then the first entry.
\<close>

definition pickFinalPlanId :: "ProbabilityEntry list \<Rightarrow> string" where
  "pickFinalPlanId verified =
     (case sort_key (\<lambda>e. - probability e) verified of
        e # _ \<Rightarrow> planId e | [] \<Rightarrow> ''plan-a'')"

definition classifyStage :: "World \<Rightarrow> string \<Rightarrow> string list \<Rightarrow> string \<times> string list" where
  "classifyStage world scenarioText warnings =
     (case classifyPrompt world scenarioText of
        Inr category \<Rightarrow> (category, warnings)
      | Inl message \<Rightarrow>
          (''reasoning-analysis'',
           warnings @ [''Prompt classification failed; defaulting to reasoning-analysis. '' @ message]))"

text \<open>The loop over \<^verbatim>\<open>agents\<close> of lines 559 to 583; the state is \<^verbatim>\<open>(proposals, generationWarnings)\<close>.\<close>

definition proposalStep ::
  "World \<Rightarrow> string \<Rightarrow> DebateWeights \<Rightarrow> string \<Rightarrow> Proposal list \<times> string list \<Rightarrow> AgentRole
     \<Rightarrow> Proposal list \<times> string list" where
  "proposalStep world scenarioText weights promptCategory state role =
     (case state of (proposals, warnings) \<Rightarrow>
        if role = Synthesizer then (proposals, warnings)
        else
          (case generateAgentProposal world role scenarioText weights promptCategory of
             Inr draft \<Rightarrow>
               (proposals @ [\<lparr>agent = role, proposal = draft_proposal draft,
                               prop_summary = draft_summary draft, risk = draft_risk draft,
                               riskSeverity = draft_riskSeverity draft,
                               prop_rationale = draft_rationale draft,
                               confidence = draft_confidence draft\<rparr>], warnings)
           | Inl message \<Rightarrow>
               (proposals,
                warnings @ [''['' @ roleName role @ ''] Proposal generation failed. '' @ message])))"

definition collectProposals ::
  "World \<Rightarrow> string \<Rightarrow> DebateWeights \<Rightarrow> string \<Rightarrow> string list \<Rightarrow> Proposal list \<times> string list" where
  "collectProposals world scenarioText weights promptCategory warnings =
     foldl (proposalStep world scenarioText weights promptCategory) ([], warnings) agents"

text \<open>
  The body of \<^verbatim>\<open>proposalOrder.forEach((role, index) => ...)\<close> of lines 740 to 766; the state
  is \<^verbatim>\<open>(current, probabilities)\<close>.
\<close>

definition agentRevisionStep ::
  "int \<Rightarrow> DebateWeights \<Rightarrow> Proposal list \<Rightarrow> ProbabilityEntry list \<times> ProbabilitySnapshot list
     \<Rightarrow> nat \<times> AgentRole \<Rightarrow> ProbabilityEntry list \<times> ProbabilitySnapshot list" where
  "agentRevisionStep baseTime weights proposals state ir =
     (case state of (current, probabilities) \<Rightarrow>
      case ir of (index, role) \<Rightarrow>
        (case find (\<lambda>item. agent item = role) proposals of
           None \<Rightarrow> (current, probabilities)
         | Some p \<Rightarrow>
             (let pid = (case proposalPlanMap role of Some i \<Rightarrow> i | None \<Rightarrow> ''plan-a'');
                  agentWeight = weights role;
                  current' = reviseFromAgent current role
                               [(pid, confidence p,
                                 case prop_rationale p of r # _ \<Rightarrow> r
                                 | [] \<Rightarrow> ''Agent proposal applied.'')]
                               baseTime (2 + int index * 2) agentWeight in
              (current',
               probabilities @ [recordSnapshot (toTimestamp baseTime (2 + int index * 2))
                                  (roleName role @ '' proposal applied.'') current']))))"

text \<open>
  Lines 725 to 767: the initial snapshot and the revisions of the roles. The result is
  \<^verbatim>\<open>(current, probabilities)\<close> after the loop.
\<close>

definition agentRevisions ::
  "int \<Rightarrow> DebateWeights \<Rightarrow> Proposal list \<Rightarrow> DebatePlan list
     \<Rightarrow> ProbabilityEntry list \<times> ProbabilitySnapshot list" where
  "agentRevisions baseTime weights proposals plans =
     (let initial = dampAndNormalize (initialProbabilitiesForPlans baseTime plans);
          probabilities0 = [recordSnapshot (toTimestamp baseTime 1) ''Initial priors.'' initial] in
      if length proposals > 0
      then foldl (agentRevisionStep baseTime weights proposals)
             (initial, probabilities0) (enumerate 0 proposalOrder)
      else (initial, probabilities0))"

text \<open>Lines 769 to 815: the last revision; the result is \<^verbatim>\<open>(verified, probabilities)\<close>.\<close>

definition beliefRevision ::
  "int \<Rightarrow> DebateWeights \<Rightarrow> Proposal list \<Rightarrow> DebatePlan list \<Rightarrow> bool \<Rightarrow> VerificationResult
     \<Rightarrow> ProbabilityEntry list \<times> ProbabilitySnapshot list" where
  "beliefRevision baseTime weights proposals plans runVerification verification =
     (let state = agentRevisions baseTime weights proposals plans;
          current = fst state;
          probabilities = snd state in
      if runVerification then
        (let targetPlanId = pickFinalPlanId current;
             verified = evaluateVerification current verification targetPlanId baseTime
                          (weights Synthesizer) in
         (verified,
          probabilities @ [recordSnapshot (toTimestamp baseTime 16)
                             ''Verification results applied.'' verified]))
      else if length proposals > 0 then
        (let targetPlanId = pickFinalPlanId current;
             skipped = reviseFromAgent current Synthesizer
                         [(targetPlanId,
                           min 0.7 ((case find (\<lambda>entry. planId entry = targetPlanId) current of
                                       Some entry \<Rightarrow> probability entry | None \<Rightarrow> 0.5) + 0.05),
                           ''Synthesizer tempered confidence without verification.'')]
                         baseTime 16 (weights Synthesizer) in
         (skipped,
          probabilities @ [recordSnapshot (toTimestamp baseTime 16)
                             ''Verification skipped; synthesizer adjusted confidence.'' skipped]))
      else (current, probabilities))"

definition skippedVerification :: VerificationResult where
  "skippedVerification =
     \<lparr>passed = True, vr_output = ''Verification skipped.'', durationMs = 0,
      vr_summary = ''Verification skipped.'', reliability = None, warning = None,
      adapterName = Some mockAdapter_name, startedAt = None, finishedAt = None\<rparr>"

text \<open>Lines 675 to 724: the final solution and the final response, with their fallbacks.\<close>

definition finalSolutionStage ::
  "World \<Rightarrow> string \<Rightarrow> Proposal list \<Rightarrow> (string \<times> string) option \<Rightarrow> string list
     \<Rightarrow> FinalSolution option \<times> string list" where
  "finalSolutionStage world scenarioText proposals evidenceForAgents warnings =
     (if length proposals > 0 then
        (case generateFinalSolution world scenarioText proposals evidenceForAgents of
           Inr fs \<Rightarrow> (Some fs, warnings)
         | Inl message \<Rightarrow> (None, warnings @ [''Final solution generation failed. '' @ message]))
      else (None, warnings))"

definition finalResponseStage ::
  "World \<Rightarrow> string \<Rightarrow> string \<Rightarrow> FinalSolution option \<Rightarrow> Proposal list \<Rightarrow> (string \<times> string) option
     \<Rightarrow> bool \<Rightarrow> string list \<Rightarrow> string option \<times> string list" where
  "finalResponseStage world scenarioText promptCategory finalSolution proposals evidenceForAgents
     codeScenario warnings =
     (case finalSolution of
        None \<Rightarrow> (None, warnings)
      | Some fs \<Rightarrow>
          if length proposals > 0 then
            (case generateFinalResponse world scenarioText promptCategory fs proposals
                    evidenceForAgents codeScenario of
               Inr r \<Rightarrow> (Some r, warnings)
             | Inl message \<Rightarrow> (None, warnings @ [''Final response generation failed. '' @ message]))
          else (None, warnings))"

definition fallbackFinalSolution :: "FinalSolution option \<Rightarrow> DebatePlan list \<Rightarrow> FinalSolution option" where
  "fallbackFinalSolution finalSolution plans =
     (case finalSolution of
        Some fs \<Rightarrow> Some fs
      | None \<Rightarrow>
          (case elemAt plans 1 of
             None \<Rightarrow> None
           | Some plan \<Rightarrow>
               Some \<lparr>fs_summary = plan_summary plan, fs_steps = plan_steps plan,
                     fs_risks = plan_risks plan,
                     fs_assumptions = [''Assumptions not explicitly generated; use caution.'']\<rparr>))"

text \<open>\<^verbatim>\<open>if (!finalResponse)\<close> also holds of the empty string.\<close>

definition fallbackFinalResponse ::
  "string option \<Rightarrow> FinalSolution option \<Rightarrow> DebatePlan list \<Rightarrow> string" where
  "fallbackFinalResponse finalResponse finalSolution plans =
     (let fallback = (case finalSolution of
                        Some fs \<Rightarrow> fs_summary fs
                      | None \<Rightarrow> (case elemAt plans 1 of Some plan \<Rightarrow> plan_summary plan
                                 | None \<Rightarrow> ''No response generated.'')) in
      case finalResponse of
        None \<Rightarrow> fallback
      | Some r \<Rightarrow> if r = [] then fallback else r)"

text \<open>
  \<^verbatim>\<open>runDebate\<close> is split at its four points of control: the proposals (lines 529 to 590),
  the verification (lines 596 to 665), the assembly of the session (lines 667 to 893) and
  the function itself, which chains them and carries the two \<^verbatim>\<open>throw\<close>s.
\<close>

text \<open>
  Lines 529 to 586: the category, the warning of the auto-enabled verification and the
  proposals. The result is \<^verbatim>\<open>(promptCategory, proposals, generationWarnings)\<close>.
\<close>

definition proposalStage ::
  "World \<Rightarrow> string \<Rightarrow> DebateWeights \<Rightarrow> bool \<Rightarrow> bool \<Rightarrow> string \<times> Proposal list \<times> string list" where
  "proposalStage world scenarioText weights codeScenario runVerificationRequested =
     (let classified = classifyStage world scenarioText [];
          promptCategory = fst classified;
          warnings1 = snd classified;
          warnings2 = (if codeScenario \<and> \<not> runVerificationRequested
                       then warnings1 @ [''Verification was auto-enabled for code-related scenarios.'']
                       else warnings1);
          collected = collectProposals world scenarioText weights promptCategory warnings2 in
      (promptCategory, fst collected, snd collected))"

text \<open>Lines 538 to 544 and 596 to 665: the verification result of the run and the warnings.\<close>

definition verificationOrSkip ::
  "World \<Rightarrow> int \<Rightarrow> bool \<Rightarrow> bool \<Rightarrow> Proposal list \<Rightarrow> DebatePlan list \<Rightarrow> string list
     \<Rightarrow> string + (VerificationResult \<times> string list)" where
  "verificationOrSkip world baseTime codeScenario runVerification proposals plans warnings =
     (if runVerification
      then verificationStage world baseTime codeScenario proposals plans warnings
      else Inr (skippedVerification, warnings))"

text \<open>Lines 667 to 893.\<close>

definition assembleSession ::
  "World \<Rightarrow> int \<Rightarrow> DebateWeights \<Rightarrow> string \<Rightarrow> bool \<Rightarrow> bool \<Rightarrow> string \<Rightarrow> Proposal list
     \<Rightarrow> DebatePlan list \<Rightarrow> VerificationResult \<Rightarrow> string list \<Rightarrow> DebateSession" where
  "assembleSession world baseTime weights scenarioText codeScenario runVerification promptCategory
     proposals plans verification warnings4 =
     (let evidenceForAgents =
            (if runVerification \<and> codeScenario
             then Some (vr_summary verification, vr_output verification) else None);
          solved = finalSolutionStage world scenarioText proposals evidenceForAgents warnings4;
          responded = finalResponseStage world scenarioText promptCategory (fst solved)
                        proposals evidenceForAgents codeScenario (snd solved);
          generationWarnings = snd responded;
          finalSolution = fallbackFinalSolution (fst solved) plans;
          finalResponse = fallbackFinalResponse (fst responded) finalSolution plans;
          revised = beliefRevision baseTime weights proposals plans runVerification verification;
          verified = fst revised;
          probabilities = snd revised;
          adapter = (case adapterName verification of Some n \<Rightarrow> n | None \<Rightarrow> mockAdapter_name);
          finalPlanId = pickFinalPlanId verified;
          timeline = buildTimeline baseTime adapter runVerification;
          evidenceLedger =
            (if runVerification \<and> codeScenario
             then buildEvidence baseTime verification finalPlanId runVerification
                    generationWarnings plans True
             else []);
          finalEntry = find (\<lambda>entry. planId entry = finalPlanId) verified;
          prob = (case finalEntry of Some entry \<Rightarrow> probability entry | None \<Rightarrow> 0);
          variance = (if prob \<ge> 0.66 then Low else if prob \<ge> 0.5 then Medium else High) in
      \<lparr>s_id = ''session-'' @ showInt baseTime,
       s_scenario = scenarioText,
       s_createdAt = baseTime,
       s_plans = plans,
       s_probabilities = probabilities,
       s_evidenceLedger = evidenceLedger,
       s_timeline = timeline,
       s_finalPlanId = finalPlanId,
       s_adapter = adapter,
       s_weights = weights,
       s_runVerification = runVerification,
       s_generationWarnings = generationWarnings,
       s_proposals = proposals,
       s_finalSolution = finalSolution,
       s_promptCategory = promptCategory,
       s_winningAgent = find (\<lambda>role. proposalPlanMap role = Some finalPlanId) proposalOrder,
       s_codeScenario = codeScenario,
       s_daytonaOutput = (if runVerification \<and> codeScenario
                          then Some (vr_output verification) else None),
       s_belief_probability = prob,
       s_belief_variance = variance,
       s_action_response = finalResponse\<rparr>)"

text \<open>The values that \<^verbatim>\<open>runDebate\<close> reads from its arguments (lines 493 to 496).\<close>

definition scenarioTextOf :: "string option \<Rightarrow> string" where
  "scenarioTextOf scenario = (case scenario of None \<Rightarrow> defaultScenario | Some text \<Rightarrow> text)"

definition weightsOf :: "RunOptions option \<Rightarrow> DebateWeights" where
  "weightsOf options =
     resolveWeights (case options of None \<Rightarrow> None | Some opts \<Rightarrow> opt_weights opts)"

definition runVerificationRequestedOf :: "RunOptions option \<Rightarrow> bool" where
  "runVerificationRequestedOf options =
     (case (case options of None \<Rightarrow> None | Some opts \<Rightarrow> opt_runVerification opts) of
        None \<Rightarrow> True | Some b \<Rightarrow> b)"

definition providerOverrideOf :: "RunOptions option \<Rightarrow> LlmProvider option" where
  "providerOverrideOf options = (case options of None \<Rightarrow> None | Some opts \<Rightarrow> opt_llmProvider opts)"

definition runDebate :: "World \<Rightarrow> string option \<Rightarrow> RunOptions option \<Rightarrow> string + DebateSession" where
  "runDebate world scenario options =
     (let baseTime = now world;
          weights = weightsOf options;
          scenarioText = scenarioTextOf scenario;
          runVerificationRequested = runVerificationRequestedOf options;
          providerOverride = providerOverrideOf options;
          codeScenario = isCodeScenario scenarioText;
          runVerification =
            (if codeScenario then (runVerificationRequested \<or> codeScenario) else False) in
      if \<not> llmEnabled world providerOverride then
        Inl ''LLM provider is not configured. Check GROQ_API_KEY/GROQ_MODEL or OLLAMA_URL/OLLAMA_MODEL.''
      else
        (case proposalStage world scenarioText weights codeScenario runVerificationRequested of
           (promptCategory, proposals, warnings3) \<Rightarrow>
             if length proposals = 0 then Inl ''LLM proposal generation failed for all agents.''
             else
               (let plans = (if length proposals > 0 then plansFromProposals proposals
                             else basePlans) in
                case verificationOrSkip world baseTime codeScenario runVerification proposals
                       plans warnings3 of
                  Inl message \<Rightarrow> Inl message
                | Inr (verification, warnings4) \<Rightarrow>
                    Inr (assembleSession world baseTime weights scenarioText codeScenario
                           runVerification promptCategory proposals plans verification
                           warnings4))))"

section \<open>The HTTP handler and the persisted session list\<close>

record DebateRunRequest =
  req_scenario :: "string option"
  req_weights :: "WeightOverrides option"
  req_runVerification :: "bool option"
  req_llmProvider :: "LlmProvider option"

text \<open>
  The raw body of a request: empty (the handler keeps \<^verbatim>\<open>body = {}\<close>), text that
  \<^verbatim>\<open>JSON.parse\<close> rejects, or a parsed request.
\<close>

datatype RequestBody = EmptyBody | InvalidJson | JsonBody DebateRunRequest

datatype HttpResponse = Json200 DebateSession | Error400 string

text \<open>
  \<^verbatim>\<open>server/data/sessions.json\<close>: absent, holding text that \<^verbatim>\<open>JSON.parse\<close> rejects, or
  holding a list of sessions.
\<close>

datatype SessionFile = NoFile | Unparsable | Stored "DebateSession list"

definition ensureDataFile :: "SessionFile \<Rightarrow> SessionFile" where
  "ensureDataFile file = (case file of NoFile \<Rightarrow> Stored [] | _ \<Rightarrow> file)"

definition readSessions :: "SessionFile \<Rightarrow> DebateSession list \<times> SessionFile" where
  "readSessions file =
     (let file' = ensureDataFile file in
      case file' of Stored sessions \<Rightarrow> (sessions, file') | _ \<Rightarrow> ([], file'))"

definition writeSessions :: "DebateSession list \<Rightarrow> SessionFile \<Rightarrow> SessionFile" where
  "writeSessions sessions file = (case ensureDataFile file of _ \<Rightarrow> Stored sessions)"

definition trimSession :: "DebateSession \<Rightarrow> DebateSession" where
  "trimSession session =
     session\<lparr>s_generationWarnings := map (\<lambda>w. truncateText w 1000) (s_generationWarnings session),
             s_evidenceLedger := map (\<lambda>entry. entry\<lparr>ev_details := truncateText (ev_details entry) 1000\<rparr>)
                                   (s_evidenceLedger session)\<rparr>"

text \<open>
  While a run with \<^verbatim>\<open>body.llmProvider\<close> is in progress \<^verbatim>\<open>process.env.LLM_PROVIDER\<close> holds
  that provider, which \<^verbatim>\<open>getLlmConfig\<close> reads when it is given no override.
\<close>

definition withLlmProvider :: "LlmProvider option \<Rightarrow> World \<Rightarrow> World" where
  "withLlmProvider provider world =
     (case provider of
        None \<Rightarrow> world
      | Some p \<Rightarrow>
          world\<lparr>llmEnabled := (\<lambda>override. llmEnabled world
                                  (case override of None \<Rightarrow> Some p | Some q \<Rightarrow> Some q))\<rparr>)"

definition emptyRequest :: DebateRunRequest where
  "emptyRequest = \<lparr>req_scenario = None, req_weights = None, req_runVerification = None,
                    req_llmProvider = None\<rparr>"

text \<open>\<^verbatim>\<open>body\<close>: the parsed request, or \<^verbatim>\<open>{}\<close> when the raw body is empty.\<close>

definition parsedBody :: "RequestBody \<Rightarrow> DebateRunRequest" where
  "parsedBody raw = (case raw of JsonBody b \<Rightarrow> b | _ \<Rightarrow> emptyRequest)"

text \<open>The options and the call of \<^verbatim>\<open>runDebate\<close> that the handler makes for a request.\<close>

definition requestOptions :: "DebateRunRequest \<Rightarrow> RunOptions" where
  "requestOptions body =
     \<lparr>opt_weights = req_weights body, opt_runVerification = req_runVerification body,
      opt_llmProvider = None\<rparr>"

definition runOfRequest :: "World \<Rightarrow> DebateRunRequest \<Rightarrow> string + DebateSession" where
  "runOfRequest world body =
     runDebate (withLlmProvider (req_llmProvider body) world) (req_scenario body)
       (Some (requestOptions body))"

definition handleRun :: "World \<Rightarrow> SessionFile \<Rightarrow> RequestBody \<Rightarrow> HttpResponse \<times> SessionFile" where
  "handleRun world file raw =
     (case raw of
        InvalidJson \<Rightarrow> (Error400 ''Invalid JSON payload.'', file)
      | _ \<Rightarrow>
          (case runOfRequest world (parsedBody raw) of
             Inl message \<Rightarrow> (Error400 message, file)
           | Inr session \<Rightarrow>
               (case readSessions file of
                  (sessions, file1) \<Rightarrow>
                    (Json200 session,
                     writeSessions (take 25 (trimSession session # sessions)) file1))))"

text \<open>A sequence of requests served one after the other, each with the world it meets.\<close>

fun serve :: "SessionFile \<Rightarrow> (World \<times> RequestBody) list \<Rightarrow> SessionFile" where
  "serve file [] = file"
| "serve file ((world, raw) # rest) = serve (snd (handleRun world file raw)) rest"

text \<open>The sessions of the runs that completed, in the order of the requests.\<close>

fun completedSessions :: "(World \<times> RequestBody) list \<Rightarrow> DebateSession list" where
  "completedSessions [] = []"
| "completedSessions ((world, raw) # rest) =
     (case fst (handleRun world NoFile raw) of
        Json200 session \<Rightarrow> session # completedSessions rest
      | Error400 _ \<Rightarrow> completedSessions rest)"

section \<open>Vocabulary of the invariants\<close>

text \<open>
  A snapshot is well formed for a list of plan ids when its entries carry exactly these
  ids, in this order, and their probabilities sum to one.
\<close>

definition snapshotWellFormed :: "string list \<Rightarrow> ProbabilitySnapshot \<Rightarrow> bool" where
  "snapshotWellFormed ids snap =
     (map planId (entries snap) = ids \<and> total_probability (entries snap) = 1)"

text \<open>
  The invariant of the pair \<^verbatim>\<open>(current, probabilities)\<close>: \<^verbatim>\<open>current\<close> is the distribution
  of the last snapshot, every snapshot is well formed, the timestamps increase strictly
  and lie before the offset \<open>bound\<close> (in minutes after the start of the run).
\<close>

definition revisionInvariant ::
  "int \<Rightarrow> string list \<Rightarrow> int \<Rightarrow> ProbabilityEntry list \<times> ProbabilitySnapshot list \<Rightarrow> bool" where
  "revisionInvariant baseTime ids bound state =
     (snd state \<noteq> [] \<and> fst state = entries (last (snd state))
      \<and> list_all (snapshotWellFormed ids) (snd state)
      \<and> sorted_wrt (<) (map snap_timestamp (snd state))
      \<and> list_all (\<lambda>s. snap_timestamp s < toTimestamp baseTime bound) (snd state))"

text \<open>
  All four proposal calls of a run fail: the calls are the ones that \<^verbatim>\<open>runDebate\<close> makes,
  with the scenario text, the resolved weights and the category of the run.
\<close>

definition allProposalsFail :: "World \<Rightarrow> string option \<Rightarrow> RunOptions option \<Rightarrow> bool" where
  "allProposalsFail world scenario options =
     list_all (\<lambda>role. isl (generateAgentProposal world role (scenarioTextOf scenario)
                              (weightsOf options)
                              (fst (classifyStage world (scenarioTextOf scenario) []))))
       proposalOrder"

text \<open>The reliability that the belief update and the evidence ledger read from a result.\<close>

definition effectiveReliability :: "VerificationResult \<Rightarrow> real" where
  "effectiveReliability verification =
     (case reliability verification of
        Some r \<Rightarrow> r | None \<Rightarrow> (if passed verification then 0.9 else 0.75))"

text \<open>The sessions that the file holds, as \<^verbatim>\<open>readSessions\<close> returns them.\<close>

definition storedSessions :: "SessionFile \<Rightarrow> DebateSession list" where
  "storedSessions file = fst (readSessions file)"

text \<open>
  The result that lines 629 to 639 build from the answer of the verification tool, and the
  result that lines 646 to 650 and 659 to 663 build from the answer of the mock for a plan.
\<close>

definition toolResult :: "McpToolResult \<Rightarrow> VerificationResult" where
  "toolResult result =
     \<lparr>passed = (status result = StatusPass),
      vr_output = joinWith ''\<newline>'' (logs result),
      durationMs = mcp_finishedAt result - mcp_startedAt result,
      vr_summary = mcp_summary result,
      reliability = mcp_reliability result,
      warning = (if status result = StatusError
                 then Some ''MCP verification error; falling back to mock.'' else None),
      adapterName = Some ''mcp'',
      startedAt = Some (mcp_startedAt result),
      finishedAt = Some (mcp_finishedAt result)\<rparr>"

definition fallbackResult :: "World \<Rightarrow> DebatePlan \<Rightarrow> VerificationResult" where
  "fallbackResult world plan =
     (selectOutput (mockDurationMs world) plan)
       \<lparr>warning := Some ''MCP verification failed; fell back to mock.'',
        adapterName := Some ''mock''\<rparr>"

text \<open>
  The warnings that speak of the verification: the one of line 548 and the ones of line 654.
\<close>

definition verificationWarning :: "string \<Rightarrow> bool" where
  "verificationWarning w =
     (w = ''Verification was auto-enabled for code-related scenarios.''
      \<or> startsWith w ''MCP verification failed; fell back to mock. '')"

section \<open>Sample inputs\<close>

text \<open>Concrete inputs on which the theorems below are instantiated.\<close>

definition sampleEntries :: "ProbabilityEntry list" where
  "sampleEntries =
     [\<lparr>planId = ''plan-a'', probability = 0.5, updatedBy = Planner, rationale = ''r'', timestamp = 0\<rparr>,
      \<lparr>planId = ''plan-b'', probability = 0.25, updatedBy = Planner, rationale = ''r'', timestamp = 0\<rparr>,
      \<lparr>planId = ''plan-c'', probability = 0.25, updatedBy = Planner, rationale = ''r'', timestamp = 0\<rparr>,
      \<lparr>planId = ''plan-d'', probability = 0, updatedBy = Planner, rationale = ''r'', timestamp = 0\<rparr>]"

definition sampleUpdate :: BeliefUpdate where
  "sampleUpdate = \<lparr>upd_planId = ''plan-b'', upd_probability = 0.8, upd_updatedBy = Skeptic,
                    upd_rationale = ''evidence''\<rparr>"

definition sampleDraft :: "real \<Rightarrow> AgentProposalDraft" where
  "sampleDraft c = \<lparr>draft_proposal = ''Pin the dependency.'', draft_summary = ''Pin it.'',
     draft_risk = ''Drift.'', draft_riskSeverity = 3, draft_rationale = [''It is the cause.''],
     draft_confidence = c\<rparr>"

definition sampleSolution :: FinalSolution where
  "sampleSolution = \<lparr>fs_summary = ''Pin the dependency and rerun.'',
     fs_steps = [''Pin'', ''Rerun''], fs_risks = [''Drift''], fs_assumptions = [''CI is green'']\<rparr>"

definition sampleMcpResult :: McpToolResult where
  "sampleMcpResult = \<lparr>evidenceId = ''evidence-1'', status = StatusPass,
     mcp_summary = ''Verification passed.'', logs = [''ok''], exitCode = Some 0,
     mcp_startedAt = 0, mcp_finishedAt = 5, mcp_reliability = Some 0.9\<rparr>"

text \<open>
  A world in which every capability answers: the planner is the most confident (0.9),
  then the cost role (0.8), the others give 0.5; the verification passes.
\<close>

definition sampleWorld :: World where
  "sampleWorld =
     \<lparr>now = 0, llmEnabled = (\<lambda>_. True), classifyPrompt = (\<lambda>_. Inr ''debugging''),
      generateAgentProposal =
        (\<lambda>role _ _ _. Inr (sampleDraft (case role of Planner \<Rightarrow> 0.9 | Cost \<Rightarrow> 0.8 | _ \<Rightarrow> 0.5))),
      callMcpTool = (\<lambda>_. Inr sampleMcpResult),
      mockDurationMs = 3500,
      generateFinalSolution = (\<lambda>_ _ _. Inr sampleSolution),
      generateFinalResponse = (\<lambda>_ _ _ _ _ _. Inr ''Pin the dependency.''),
      env_VERIFICATION_MODE = None, env_VERIFICATION_FIXTURE_PATH = None,
      env_VERIFICATION_COMMAND = None\<rparr>"

definition sampleOptions :: "bool option \<Rightarrow> RunOptions" where
  "sampleOptions rv = \<lparr>opt_weights = None, opt_runVerification = rv, opt_llmProvider = None\<rparr>"

text \<open>
  The proposals that the sample world yields, and a world whose verification tool answers
  with the plan id that it was asked about.
\<close>

definition sampleProposals :: "Proposal list" where
  "sampleProposals =
     map (\<lambda>(r, c). \<lparr>agent = r, proposal = ''Pin the dependency.'', prop_summary = ''Pin it.'',
                     risk = ''Drift.'', riskSeverity = 3,
                     prop_rationale = [''It is the cause.''], confidence = c\<rparr>)
       [(Planner, 0.9), (Skeptic, 0.5), (Security, 0.5), (Cost, 0.8)]"

definition echoWorld :: World where
  "echoWorld = sampleWorld\<lparr>callMcpTool :=
     (\<lambda>args. Inr (sampleMcpResult\<lparr>logs := [arg_planId args]\<rparr>))\<rparr>"

text \<open>
  Worlds in which the verification endpoint is unreachable, in which the tool answers
  with an error status and the reliability 0.2, and in which every proposal call fails.
\<close>

definition unreachableWorld :: World where
  "unreachableWorld = sampleWorld\<lparr>callMcpTool := (\<lambda>_. Inl ''fetch failed'')\<rparr>"

definition errorStatusWorld :: World where
  "errorStatusWorld =
     sampleWorld\<lparr>callMcpTool :=
       (\<lambda>_. Inr (sampleMcpResult\<lparr>status := StatusError, mcp_reliability := Some 0.2\<rparr>))\<rparr>"

definition failingWorld :: World where
  "failingWorld = sampleWorld\<lparr>generateAgentProposal := (\<lambda>_ _ _ _. Inl ''timeout'')\<rparr>"

text \<open>A scenario without any of the keywords, and a request for it that asks for verification.\<close>

definition plainScenario :: string where
  "plainScenario = ''Plan a team offsite''"

definition sampleRequest :: DebateRunRequest where
  "sampleRequest = \<lparr>req_scenario = Some plainScenario, req_weights = None,
                      req_runVerification = Some True, req_llmProvider = None\<rparr>"

text \<open>Twenty-six requests with an empty body, served at the times 1 to 26.\<close>

definition sampleRequests :: "(World \<times> RequestBody) list" where
  "sampleRequests = map (\<lambda>k. (sampleWorld\<lparr>now := int k\<rparr>, EmptyBody)) [1..<27]"
section \<open>Normalisation and damping\<close>

lemma foldl_probability_from:
  "foldl (\<lambda>sum entry. sum + probability entry) a es = a + sum_list (map probability es)"
  by (induction es arbitrary: a) simp_all

lemma foldl_probability:
  "foldl (\<lambda>sum entry. sum + probability entry) 0 es = total_probability es"
  by (simp add: foldl_probability_from total_probability_def)

lemma length_normalizeEntries [simp]: "length (normalizeEntries es) = length es"
  by (simp add: normalizeEntries_def Let_def)

lemma length_dampAndNormalize [simp]: "length (dampAndNormalize es) = length es"
  by (simp add: dampAndNormalize_def Let_def)

lemma planId_normalizeEntries [simp]: "map planId (normalizeEntries es) = map planId es"
  by (simp add: normalizeEntries_def Let_def)

lemma planId_dampAndNormalize [simp]: "map planId (dampAndNormalize es) = map planId es"
proof -
  have "map planId (dampAndNormalize es) = map planId (normalizeEntries es)"
    by (simp add: dampAndNormalize_def Let_def comp_def)
  then show ?thesis by simp
qed

lemma sum_list_const_real: "sum_list (map (\<lambda>_. c) xs) = real (length xs) * (c::real)"
  by (induction xs) (simp_all add: algebra_simps)

lemma sum_list_div_real: "sum_list (map (\<lambda>x. f x / (t::real)) xs) = sum_list (map f xs) / t"
  by (induction xs) (simp_all add: add_divide_distrib)

lemma sum_list_affine_real:
  "sum_list (map (\<lambda>x. a * f x + (b::real)) xs) = a * sum_list (map f xs) + real (length xs) * b"
  by (induction xs) (simp_all add: algebra_simps)

lemma total_normalizeEntries:
  assumes "es \<noteq> []"
  shows "total_probability (normalizeEntries es) = 1"
proof (cases "total_probability es = 0")
  case True
  have "real (length es) \<noteq> 0" using assms by simp
  with True show ?thesis
    by (simp add: normalizeEntries_def foldl_probability total_probability_def
        comp_def sum_list_const_real)
next
  case False
  then show ?thesis
    by (simp add: normalizeEntries_def foldl_probability total_probability_def
        comp_def sum_list_div_real)
qed

lemma total_dampAndNormalize:
  assumes "es \<noteq> []"
  shows "total_probability (dampAndNormalize es) = 1"
proof -
  have n: "real (length es) \<noteq> 0" using assms by simp
  have "total_probability (dampAndNormalize es) =
        (1 - DAMPING_FACTOR) * total_probability (normalizeEntries es)
        + real (length es) * (DAMPING_FACTOR * (1 / real (length es)))"
    by (simp add: dampAndNormalize_def Let_def total_probability_def comp_def
        sum_list_affine_real)
  also have "\<dots> = 1"
    using n by (simp add: total_normalizeEntries [OF assms])
  finally show ?thesis .
qed

lemma sum_list_nonneg_real:
  "\<forall>x \<in> set xs. 0 \<le> f x \<Longrightarrow> 0 \<le> sum_list (map f xs :: real list)"
  by (induction xs) simp_all

lemma member_le_sum_list_real:
  "\<forall>x \<in> set xs. 0 \<le> f x \<Longrightarrow> y \<in> set xs \<Longrightarrow> f y \<le> sum_list (map f xs :: real list)"
proof (induction xs)
  case Nil
  then show ?case by simp
next
  case (Cons x xs)
  have rest: "0 \<le> sum_list (map f xs)"
    using Cons.prems(1) by (simp add: sum_list_nonneg_real)
  show ?case
  proof (cases "y = x")
    case True
    with rest show ?thesis by simp
  next
    case False
    with Cons have "f y \<le> sum_list (map f xs)" by simp
    moreover have "0 \<le> f x" using Cons.prems(1) by simp
    ultimately show ?thesis by simp
  qed
qed

lemma normalizeEntries_unit_range:
  assumes nonneg: "\<forall>e \<in> set es. 0 \<le> probability e"
    and mem: "e' \<in> set (normalizeEntries es)"
  shows "0 \<le> probability e' \<and> probability e' \<le> 1"
proof (cases "total_probability es = 0")
  case True
  from mem have "es \<noteq> []" by (auto simp: normalizeEntries_def Let_def)
  then have "1 \<le> real (length es)" by (cases es) simp_all
  with mem True show ?thesis
    by (auto simp: normalizeEntries_def foldl_probability Let_def divide_le_eq)
next
  case False
  have tot: "0 \<le> total_probability es"
    using nonneg by (simp add: total_probability_def sum_list_nonneg_real)
  with False have pos: "0 < total_probability es" by simp
  from mem False obtain e where e: "e \<in> set es"
    and e': "probability e' = probability e / total_probability es"
    by (auto simp: normalizeEntries_def foldl_probability Let_def)
  have "probability e \<le> total_probability es"
    using nonneg e by (simp add: total_probability_def member_le_sum_list_real)
  moreover have "0 \<le> probability e" using nonneg e by simp
  ultimately show ?thesis using pos e' by (simp add: divide_le_eq)
qed

section \<open>Leaders of a ranking\<close>


lemma hd_insort_key:
  "hd (insort_key f x ys) = (if ys = [] \<or> f x \<le> f (hd ys) then x else hd ys)"
  by (cases ys) simp_all

lemma sort_key_Nil_iff: "sort_key f xs = [] \<longleftrightarrow> xs = []"
  by (metis length_sort length_0_conv)

lemma sort_key_first:
  fixes f :: "'a \<Rightarrow> real"
  assumes "xs \<noteq> []"
  shows "\<exists>i<length xs. hd (sort_key f xs) = xs ! i
           \<and> (\<forall>j<length xs. f (xs ! i) \<le> f (xs ! j))
           \<and> (\<forall>j<i. f (xs ! i) < f (xs ! j))"
  using assms
proof (induction xs)
  case Nil
  then show ?case by simp
next
  case (Cons x xs)
  show ?case
  proof (cases "xs = []")
    case True
    then show ?thesis by simp
  next
    case False
    with Cons.IH obtain i where i: "i < length xs" "hd (sort_key f xs) = xs ! i"
      "\<forall>j<length xs. f (xs ! i) \<le> f (xs ! j)" "\<forall>j<i. f (xs ! i) < f (xs ! j)"
      by blast
    have ne: "sort_key f xs \<noteq> []" using False by (simp add: sort_key_Nil_iff)
    have hd: "hd (sort_key f (x # xs)) = (if f x \<le> f (xs ! i) then x else xs ! i)"
      using ne i(2) by (simp add: hd_insort_key)
    show ?thesis
    proof (cases "f x \<le> f (xs ! i)")
      case True
      have "\<forall>j<length (x # xs). f ((x # xs) ! 0) \<le> f ((x # xs) ! j)"
      proof (intro allI impI)
        fix j assume "j < length (x # xs)"
        then show "f ((x # xs) ! 0) \<le> f ((x # xs) ! j)"
          using True i(3) by (cases j) (auto intro: order_trans)
      qed
      with True hd show ?thesis
        by (intro exI [of _ 0]) simp
    next
      case False
      have a: "\<forall>j<length (x # xs). f ((x # xs) ! Suc i) \<le> f ((x # xs) ! j)"
      proof (intro allI impI)
        fix j assume "j < length (x # xs)"
        then show "f ((x # xs) ! Suc i) \<le> f ((x # xs) ! j)"
          using False i(3) by (cases j) auto
      qed
      have b: "\<forall>j<Suc i. f ((x # xs) ! Suc i) < f ((x # xs) ! j)"
      proof (intro allI impI)
        fix j assume "j < Suc i"
        then show "f ((x # xs) ! Suc i) < f ((x # xs) ! j)"
          using False i(4) by (cases j) auto
      qed
      from False hd i(1) a b show ?thesis
        by (intro exI [of _ "Suc i"]) simp
    qed
  qed
qed

lemma pickFinalPlanId_leader:
  assumes "es \<noteq> []"
  shows "\<exists>i<length es. pickFinalPlanId es = planId (es ! i)
           \<and> (\<forall>j<length es. probability (es ! j) \<le> probability (es ! i))
           \<and> (\<forall>j<i. probability (es ! j) < probability (es ! i))"
proof -
  from sort_key_first [OF assms, of "\<lambda>e. - probability e"]
  obtain i where i: "i < length es" "hd (sort_key (\<lambda>e. - probability e) es) = es ! i"
    "\<forall>j<length es. - probability (es ! i) \<le> - probability (es ! j)"
    "\<forall>j<i. - probability (es ! i) < - probability (es ! j)"
    by blast
  have "sort_key (\<lambda>e. - probability e) es \<noteq> []" using assms by (simp add: sort_key_Nil_iff)
  then have "pickFinalPlanId es = planId (hd (sort_key (\<lambda>e. - probability e) es))"
    by (cases "sort_key (\<lambda>e. - probability e) es") (simp_all add: pickFinalPlanId_def)
  with i show ?thesis by (intro exI [of _ i]) simp
qed

lemma verificationTargetPlanId_leader:
  assumes "proposals \<noteq> []"
  shows "\<exists>i<length proposals.
           verificationTargetPlanId proposals plans =
             (case proposalPlanMap (agent (proposals ! i)) of Some pid \<Rightarrow> pid | None \<Rightarrow> ''plan-a'')
           \<and> (\<forall>j<length proposals. confidence (proposals ! j) \<le> confidence (proposals ! i))
           \<and> (\<forall>j<i. confidence (proposals ! j) < confidence (proposals ! i))"
proof -
  let ?g = "\<lambda>p. (case proposalPlanMap (agent p) of Some pid \<Rightarrow> pid | None \<Rightarrow> ''plan-a'', confidence p)"
  let ?rs = "map ?g proposals"
  have ne: "?rs \<noteq> []" using assms by simp
  from sort_key_first [OF ne, of "\<lambda>r. - snd r"]
  obtain i where i: "i < length ?rs" "hd (sort_key (\<lambda>r. - snd r) ?rs) = ?rs ! i"
    "\<forall>j<length ?rs. - snd (?rs ! i) \<le> - snd (?rs ! j)"
    "\<forall>j<i. - snd (?rs ! i) < - snd (?rs ! j)"
    by blast
  have "sort_key (\<lambda>r. - snd r) ?rs \<noteq> []" using ne by (simp add: sort_key_Nil_iff)
  then have "verificationTargetPlanId proposals plans = fst (hd (sort_key (\<lambda>r. - snd r) ?rs))"
    by (cases "sort_key (\<lambda>r. - snd r) ?rs")
       (simp_all add: verificationTargetPlanId_def rankedProposals_def)
  with i show ?thesis by (intro exI [of _ i]) simp
qed

lemma char_of_letters:
  "char_of (97::nat) = CHR ''a''" "char_of (98::nat) = CHR ''b''"
  "char_of (99::nat) = CHR ''c''" "char_of (100::nat) = CHR ''d''"
  by code_simp+

lemma plan_ids: "map plan_id (plansFromProposals ps) = [''plan-a'', ''plan-b'', ''plan-c'', ''plan-d'']"
  by (simp add: plansFromProposals_def enumerate_eq_zip Let_def char_of_letters upt_rec)

section \<open>Invariants of the belief revision\<close>

lemma planId_applyWeightedUpdate [simp]:
  "map planId (applyWeightedUpdate previous update ts w) = map planId previous"
  by (induction previous) (simp_all add: applyWeightedUpdate_def Let_def)

lemma planId_timestamp_update [simp]: "planId \<circ> timestamp_update f = planId"
  by (simp add: fun_eq_iff)

lemma planId_set_timestamp [simp]:
  "map planId (map (\<lambda>entry. entry\<lparr>timestamp := ts\<rparr>) es) = map planId es"
  by (induction es) simp_all

lemma planId_initialProbabilities [simp]:
  "map planId (initialProbabilitiesForPlans baseTime plans) = map plan_id plans"
  by (simp add: initialProbabilitiesForPlans_def Let_def comp_def)

lemma planId_reviseFromAgent_single [simp]:
  "map planId (reviseFromAgent previous a [u] baseTime offset w) = map planId previous"
  by (cases u) (simp add: reviseFromAgent_def Let_def split: prod.splits)

lemma planId_evaluateVerification [simp]:
  "map planId (evaluateVerification previous v pid baseTime w) = map planId previous"
  by (simp add: evaluateVerification_def Let_def)

lemma map_planId_Nil_iff: "map planId es = ids \<Longrightarrow> ids \<noteq> [] \<Longrightarrow> es \<noteq> []"
  by auto

lemma total_reviseFromAgent_single:
  "previous \<noteq> [] \<Longrightarrow> total_probability (reviseFromAgent previous a [u] baseTime offset w) = 1"
  by (cases u) (simp add: reviseFromAgent_def Let_def applyWeightedUpdate_def total_dampAndNormalize)

lemma total_evaluateVerification:
  "previous \<noteq> [] \<Longrightarrow> total_probability (evaluateVerification previous v pid baseTime w) = 1"
  by (simp add: evaluateVerification_def Let_def applyWeightedUpdate_def total_dampAndNormalize)

lemma planId_initial:
  "map planId (dampAndNormalize (initialProbabilitiesForPlans baseTime plans)) = map plan_id plans"
  by simp

lemma total_initial:
  "plans \<noteq> [] \<Longrightarrow> total_probability (dampAndNormalize (initialProbabilitiesForPlans baseTime plans)) = 1"
  by (simp add: total_dampAndNormalize initialProbabilitiesForPlans_def Let_def)

lemma revisionInvariant_initial:
  assumes "plans \<noteq> []"
  shows "revisionInvariant baseTime (map plan_id plans) 2
           (dampAndNormalize (initialProbabilitiesForPlans baseTime plans),
            [recordSnapshot (toTimestamp baseTime 1) ''Initial priors.''
               (dampAndNormalize (initialProbabilitiesForPlans baseTime plans))])"
  using assms
  by (simp add: revisionInvariant_def recordSnapshot_def snapshotWellFormed_def total_initial
      toTimestamp_def)

lemma revisionInvariant_append:
  assumes inv: "revisionInvariant baseTime ids bound (current, probabilities)"
    and ids: "ids \<noteq> []"
    and wf: "map planId es = ids" "total_probability es = 1"
    and bound: "bound \<le> offset" "offset < bound'"
  shows "revisionInvariant baseTime ids bound'
           (es, probabilities @ [recordSnapshot (toTimestamp baseTime offset) nt es])"
proof -
  have lt: "\<forall>s \<in> set probabilities. snap_timestamp s < toTimestamp baseTime offset"
    using inv bound(1) by (auto simp: revisionInvariant_def list_all_iff toTimestamp_def)
  have lt': "\<forall>s \<in> set probabilities. snap_timestamp s < toTimestamp baseTime bound'"
    using lt bound(2) by (auto simp: toTimestamp_def)
  show ?thesis
    using inv wf lt lt' bound(2)
    by (auto simp: revisionInvariant_def recordSnapshot_def snapshotWellFormed_def
        sorted_wrt_append list_all_iff toTimestamp_def)
qed

lemma revisionInvariant_mono:
  "revisionInvariant baseTime ids bound state \<Longrightarrow> bound \<le> bound'
     \<Longrightarrow> revisionInvariant baseTime ids bound' state"
  by (auto simp: revisionInvariant_def list_all_iff toTimestamp_def)

lemma revisionInvariant_current:
  "revisionInvariant baseTime ids bound state \<Longrightarrow> ids \<noteq> []
     \<Longrightarrow> map planId (fst state) = ids \<and> fst state \<noteq> []"
  by (auto simp: revisionInvariant_def list_all_iff snapshotWellFormed_def)

lemma agentRevisionStep_invariant:
  assumes inv: "revisionInvariant baseTime ids (2 + 2 * int k) state" and ids: "ids \<noteq> []"
  shows "revisionInvariant baseTime ids (2 + 2 * int (Suc k))
           (agentRevisionStep baseTime weights proposals state (k, role))"
proof (cases "find (\<lambda>item. agent item = role) proposals")
  case None
  then have "agentRevisionStep baseTime weights proposals state (k, role) = state"
    by (cases state) (simp add: agentRevisionStep_def)
  with inv show ?thesis by (auto intro: revisionInvariant_mono)
next
  case (Some p)
  obtain current probabilities where st: "state = (current, probabilities)" by (cases state)
  from revisionInvariant_current [OF inv ids] st
  have cur: "map planId current = ids" "current \<noteq> []" by simp_all
  let ?u = "(case proposalPlanMap role of Some i \<Rightarrow> i | None \<Rightarrow> ''plan-a'', confidence p,
             case prop_rationale p of r # _ \<Rightarrow> r | [] \<Rightarrow> ''Agent proposal applied.'')"
  let ?es = "reviseFromAgent current role [?u] baseTime (2 + int k * 2) (weights role)"
  have step: "agentRevisionStep baseTime weights proposals state (k, role) =
      (?es, probabilities @ [recordSnapshot (toTimestamp baseTime (2 + int k * 2))
                               (roleName role @ '' proposal applied.'') ?es])"
    using Some st by (simp add: agentRevisionStep_def Let_def)
  have "revisionInvariant baseTime ids (2 + 2 * int (Suc k))
      (?es, probabilities @ [recordSnapshot (toTimestamp baseTime (2 + int k * 2))
                               (roleName role @ '' proposal applied.'') ?es])"
  proof (rule revisionInvariant_append [where bound = "2 + 2 * int k"])
    show "revisionInvariant baseTime ids (2 + 2 * int k) (current, probabilities)"
      using inv st by simp
    show "ids \<noteq> []" by (rule ids)
    show "map planId ?es = ids" using cur by simp
    show "total_probability ?es = 1" using cur(2) by (rule total_reviseFromAgent_single)
  qed simp_all
  with step show ?thesis by simp
qed

lemma agentRevisionStep_extends:
  "\<exists>ext. snd (agentRevisionStep baseTime weights proposals state ir) = snd state @ ext"
  by (cases state; cases ir)
     (simp add: agentRevisionStep_def Let_def split: option.splits)

lemma agentRevision_fold_invariant:
  assumes "revisionInvariant baseTime ids (2 + 2 * int k) state" and "ids \<noteq> []"
  shows "revisionInvariant baseTime ids (2 + 2 * int (k + length roles))
           (foldl (agentRevisionStep baseTime weights proposals) state (enumerate k roles))"
  using assms
proof (induction roles arbitrary: k state)
  case Nil
  then show ?case by simp
next
  case (Cons r roles)
  from agentRevisionStep_invariant [OF Cons.prems]
  have "revisionInvariant baseTime ids (2 + 2 * int (Suc k))
          (agentRevisionStep baseTime weights proposals state (k, r))" .
  from Cons.IH [OF this Cons.prems(2)] show ?case by simp
qed

lemma agentRevision_fold_extends:
  "\<exists>ext. snd (foldl (agentRevisionStep baseTime weights proposals) state irs) = snd state @ ext"
proof (induction irs arbitrary: state)
  case Nil
  then show ?case by simp
next
  case (Cons ir irs)
  from agentRevisionStep_extends [of baseTime weights proposals state ir]
  obtain e1 where e1: "snd (agentRevisionStep baseTime weights proposals state ir) = snd state @ e1"
    by blast
  from Cons.IH [of "agentRevisionStep baseTime weights proposals state ir"]
  obtain e2 where "snd (foldl (agentRevisionStep baseTime weights proposals)
                          (agentRevisionStep baseTime weights proposals state ir) irs)
                   = snd (agentRevisionStep baseTime weights proposals state ir) @ e2"
    by blast
  with e1 show ?case by simp
qed

section \<open>The snapshots of a run\<close>


lemma agentRevisions_invariant:
  assumes "plans \<noteq> []"
  shows "revisionInvariant baseTime (map plan_id plans) 10
           (agentRevisions baseTime weights proposals plans)"
proof -
  have ids: "map plan_id plans \<noteq> []" using assms by simp
  have init: "revisionInvariant baseTime (map plan_id plans) (2 + 2 * int 0)
           (dampAndNormalize (initialProbabilitiesForPlans baseTime plans),
            [recordSnapshot (toTimestamp baseTime 1) ''Initial priors.''
               (dampAndNormalize (initialProbabilitiesForPlans baseTime plans))])"
    using revisionInvariant_initial [OF assms] by simp
  from agentRevision_fold_invariant [OF init ids, of proposalOrder weights proposals]
  have fold: "revisionInvariant baseTime (map plan_id plans) 10
      (foldl (agentRevisionStep baseTime weights proposals)
         (dampAndNormalize (initialProbabilitiesForPlans baseTime plans),
          [recordSnapshot (toTimestamp baseTime 1) ''Initial priors.''
             (dampAndNormalize (initialProbabilitiesForPlans baseTime plans))])
         (enumerate 0 proposalOrder))"
    by (simp add: proposalOrder_def)
  have "revisionInvariant baseTime (map plan_id plans) 10
           (dampAndNormalize (initialProbabilitiesForPlans baseTime plans),
            [recordSnapshot (toTimestamp baseTime 1) ''Initial priors.''
               (dampAndNormalize (initialProbabilitiesForPlans baseTime plans))])"
    using revisionInvariant_initial [OF assms] by (rule revisionInvariant_mono) simp
  with fold show ?thesis by (simp add: agentRevisions_def Let_def)
qed

lemma agentRevisions_initial:
  "\<exists>ext. snd (agentRevisions baseTime weights proposals plans) =
     recordSnapshot (toTimestamp baseTime 1) ''Initial priors.''
       (dampAndNormalize (initialProbabilitiesForPlans baseTime plans)) # ext"
  using agentRevision_fold_extends [of baseTime weights proposals
      "(dampAndNormalize (initialProbabilitiesForPlans baseTime plans),
        [recordSnapshot (toTimestamp baseTime 1) ''Initial priors.''
           (dampAndNormalize (initialProbabilitiesForPlans baseTime plans))])"
      "enumerate 0 proposalOrder"]
  by (auto simp: agentRevisions_def Let_def)

lemma beliefRevision_extends:
  "\<exists>ext. snd (beliefRevision baseTime weights proposals plans rv v) =
     snd (agentRevisions baseTime weights proposals plans) @ ext"
  by (simp add: beliefRevision_def Let_def)

lemma beliefRevision_invariant:
  assumes "plans \<noteq> []"
  shows "revisionInvariant baseTime (map plan_id plans) 17
           (beliefRevision baseTime weights proposals plans rv v)"
proof -
  let ?st = "agentRevisions baseTime weights proposals plans"
  have ids: "map plan_id plans \<noteq> []" using assms by simp
  have inv: "revisionInvariant baseTime (map plan_id plans) 10 (fst ?st, snd ?st)"
    using agentRevisions_invariant [OF assms] by simp
  from revisionInvariant_current [OF agentRevisions_invariant [OF assms] ids]
  have cur: "map planId (fst ?st) = map plan_id plans" "fst ?st \<noteq> []" by simp_all
  have app: "revisionInvariant baseTime (map plan_id plans) 17
            (es, snd ?st @ [recordSnapshot (toTimestamp baseTime 16) nt es])"
    if "map planId es = map plan_id plans" "total_probability es = 1" for es nt
    by (rule revisionInvariant_append [OF inv ids that]) simp_all
  have keep: "revisionInvariant baseTime (map plan_id plans) 17 ?st"
    using agentRevisions_invariant [OF assms] by (rule revisionInvariant_mono) simp
  show ?thesis
  proof (cases rv)
    case True
    let ?es = "evaluateVerification (fst ?st) v (pickFinalPlanId (fst ?st)) baseTime
                 (weights Synthesizer)"
    have "beliefRevision baseTime weights proposals plans rv v =
            (?es, snd ?st @ [recordSnapshot (toTimestamp baseTime 16)
                               ''Verification results applied.'' ?es])"
      using True by (simp add: beliefRevision_def Let_def)
    moreover have "map planId ?es = map plan_id plans" using cur by simp
    moreover have "total_probability ?es = 1" using cur(2) by (rule total_evaluateVerification)
    ultimately show ?thesis using app by simp
  next
    case False
    show ?thesis
    proof (cases "length proposals > 0")
      case True
      let ?u = "(pickFinalPlanId (fst ?st),
                 min 0.7 ((case find (\<lambda>entry. planId entry = pickFinalPlanId (fst ?st)) (fst ?st) of
                             Some entry \<Rightarrow> probability entry | None \<Rightarrow> 0.5) + 0.05),
                 ''Synthesizer tempered confidence without verification.'')"
      let ?es = "reviseFromAgent (fst ?st) Synthesizer [?u] baseTime 16 (weights Synthesizer)"
      have "beliefRevision baseTime weights proposals plans rv v =
              (?es, snd ?st @ [recordSnapshot (toTimestamp baseTime 16)
                 ''Verification skipped; synthesizer adjusted confidence.'' ?es])"
        using True \<open>\<not> rv\<close> by (simp add: beliefRevision_def Let_def)
      moreover have "map planId ?es = map plan_id plans" using cur by simp
      moreover have "total_probability ?es = 1" using cur(2) by (rule total_reviseFromAgent_single)
      ultimately show ?thesis using app by simp
    next
      case False
      then have "beliefRevision baseTime weights proposals plans rv v = ?st"
        using \<open>\<not> rv\<close> by (simp add: beliefRevision_def Let_def)
      with keep show ?thesis by simp
    qed
  qed
qed

lemma beliefRevision_verification:
  "\<exists>earlier previous.
     snd (agentRevisions baseTime weights proposals plans) = earlier @ [previous]
     \<and> snd (beliefRevision baseTime weights proposals plans True v) =
         earlier @ [previous,
           recordSnapshot (toTimestamp baseTime 16) ''Verification results applied.''
             (evaluateVerification (entries previous) v (pickFinalPlanId (entries previous))
                baseTime (weights Synthesizer))]"
  if "plans \<noteq> []"
proof -
  let ?st = "agentRevisions baseTime weights proposals plans"
  from agentRevisions_invariant [OF that, of baseTime weights proposals]
  have ne: "snd ?st \<noteq> []" and cur: "fst ?st = entries (last (snd ?st))"
    by (simp_all add: revisionInvariant_def)
  have split: "snd ?st = butlast (snd ?st) @ [last (snd ?st)]" using ne by simp
  show ?thesis
    apply (rule exI [of _ "butlast (snd ?st)"])
    apply (rule exI [of _ "last (snd ?st)"])
    using ne cur by (simp add: beliefRevision_def Let_def)
qed

lemma runVerification_decision: "(if c then r \<or> c else False) = c"
  by auto

lemma runDebate_Inr:
  assumes "runDebate world scenario options = Inr session"
  shows "\<exists>promptCategory proposals warnings3 verification warnings4.
     llmEnabled world (providerOverrideOf options)
     \<and> proposalStage world (scenarioTextOf scenario) (weightsOf options)
          (isCodeScenario (scenarioTextOf scenario)) (runVerificationRequestedOf options)
         = (promptCategory, proposals, warnings3)
     \<and> proposals \<noteq> []
     \<and> verificationOrSkip world (now world) (isCodeScenario (scenarioTextOf scenario))
          (isCodeScenario (scenarioTextOf scenario)) proposals (plansFromProposals proposals)
          warnings3 = Inr (verification, warnings4)
     \<and> session = assembleSession world (now world) (weightsOf options) (scenarioTextOf scenario)
          (isCodeScenario (scenarioTextOf scenario)) (isCodeScenario (scenarioTextOf scenario))
          promptCategory proposals (plansFromProposals proposals) verification warnings4"
proof -
  obtain promptCategory proposals warnings3 where ps:
    "proposalStage world (scenarioTextOf scenario) (weightsOf options)
       (isCodeScenario (scenarioTextOf scenario)) (runVerificationRequestedOf options)
     = (promptCategory, proposals, warnings3)"
    by (cases "proposalStage world (scenarioTextOf scenario) (weightsOf options)
       (isCodeScenario (scenarioTextOf scenario)) (runVerificationRequestedOf options)") auto
  have en: "llmEnabled world (providerOverrideOf options)"
    using assms by (auto simp: runDebate_def Let_def split: if_splits)
  have ne: "proposals \<noteq> []"
    using assms en ps by (auto simp: runDebate_def Let_def split: if_splits)
  let ?v = "verificationOrSkip world (now world) (isCodeScenario (scenarioTextOf scenario))
          (isCodeScenario (scenarioTextOf scenario)) proposals (plansFromProposals proposals)
          warnings3"
  have run: "(case ?v of Inl message \<Rightarrow> Inl message
             | Inr (verification, warnings4) \<Rightarrow>
                 Inr (assembleSession world (now world) (weightsOf options)
                        (scenarioTextOf scenario) (isCodeScenario (scenarioTextOf scenario))
                        (isCodeScenario (scenarioTextOf scenario)) promptCategory proposals
                        (plansFromProposals proposals) verification warnings4)) = Inr session"
    using assms en ps ne by (simp add: runDebate_def Let_def runVerification_decision)
  then obtain verification warnings4 where v: "?v = Inr (verification, warnings4)"
    by (cases ?v) auto
  with run have "session = assembleSession world (now world) (weightsOf options)
          (scenarioTextOf scenario) (isCodeScenario (scenarioTextOf scenario))
          (isCodeScenario (scenarioTextOf scenario)) promptCategory proposals
          (plansFromProposals proposals) verification warnings4"
    by simp
  with en ps ne v show ?thesis by blast
qed

lemma assembleSession_fields [simp]:
  "s_probabilities (assembleSession world baseTime weights scenarioText codeScenario rv
      promptCategory proposals plans verification warnings4)
    = snd (beliefRevision baseTime weights proposals plans rv verification)"
  "s_plans (assembleSession world baseTime weights scenarioText codeScenario rv
      promptCategory proposals plans verification warnings4) = plans"
  "s_proposals (assembleSession world baseTime weights scenarioText codeScenario rv
      promptCategory proposals plans verification warnings4) = proposals"
  "s_runVerification (assembleSession world baseTime weights scenarioText codeScenario rv
      promptCategory proposals plans verification warnings4) = rv"
  "s_codeScenario (assembleSession world baseTime weights scenarioText codeScenario rv
      promptCategory proposals plans verification warnings4) = codeScenario"
  "s_weights (assembleSession world baseTime weights scenarioText codeScenario rv
      promptCategory proposals plans verification warnings4) = weights"
  "s_scenario (assembleSession world baseTime weights scenarioText codeScenario rv
      promptCategory proposals plans verification warnings4) = scenarioText"
  "s_createdAt (assembleSession world baseTime weights scenarioText codeScenario rv
      promptCategory proposals plans verification warnings4) = baseTime"
  "s_finalPlanId (assembleSession world baseTime weights scenarioText codeScenario rv
      promptCategory proposals plans verification warnings4)
    = pickFinalPlanId (fst (beliefRevision baseTime weights proposals plans rv verification))"
  by (simp_all add: assembleSession_def Let_def)
section \<open>The verification of a run\<close>

lemma isCodeScenario_default: "isCodeScenario defaultScenario"
  by (simp add: isCodeScenario_def defaultScenario_def toLowerCase_def toLowerChar_def
      codeKeywords_def)

lemmas stage_defs =
  proposalStage_def classifyStage_def collectProposals_def agents_def proposalStep_def
  verificationOrSkip_def verificationStage_def verificationCatch_def verifyPlanArgs_def
  scenarioTextOf_def weightsOf_def runVerificationRequestedOf_def providerOverrideOf_def

lemma assembleSession_more_fields [simp]:
  "s_generationWarnings (assembleSession world baseTime weights scenarioText codeScenario rv
      promptCategory proposals plans verification warnings4)
    = snd (finalResponseStage world scenarioText promptCategory
             (fst (finalSolutionStage world scenarioText proposals
                     (if rv \<and> codeScenario
                      then Some (vr_summary verification, vr_output verification) else None)
                     warnings4))
             proposals
             (if rv \<and> codeScenario
              then Some (vr_summary verification, vr_output verification) else None)
             codeScenario
             (snd (finalSolutionStage world scenarioText proposals
                     (if rv \<and> codeScenario
                      then Some (vr_summary verification, vr_output verification) else None)
                     warnings4)))"
  "s_evidenceLedger (assembleSession world baseTime weights scenarioText codeScenario rv
      promptCategory proposals plans verification warnings4)
    = (if rv \<and> codeScenario
       then buildEvidence baseTime verification
              (pickFinalPlanId (fst (beliefRevision baseTime weights proposals plans rv verification)))
              rv
              (s_generationWarnings (assembleSession world baseTime weights scenarioText
                 codeScenario rv promptCategory proposals plans verification warnings4))
              plans True
       else [])"
  by (simp_all add: assembleSession_def Let_def)

lemma length_plansFromProposals [simp]: "length (plansFromProposals ps) = 4"
  using arg_cong [OF plan_ids [of ps], of length] by simp

lemma plansFromProposals_nonempty [simp]: "plansFromProposals ps \<noteq> []"
  using length_plansFromProposals [of ps] by (cases "plansFromProposals ps") simp_all

lemma assembleSession_output_fields [simp]:
  "s_daytonaOutput (assembleSession world baseTime weights scenarioText codeScenario rv
      promptCategory proposals plans verification warnings4)
    = (if rv \<and> codeScenario then Some (vr_output verification) else None)"
  "s_adapter (assembleSession world baseTime weights scenarioText codeScenario rv
      promptCategory proposals plans verification warnings4)
    = (case adapterName verification of Some n \<Rightarrow> n | None \<Rightarrow> mockAdapter_name)"
  "s_timeline (assembleSession world baseTime weights scenarioText codeScenario rv
      promptCategory proposals plans verification warnings4)
    = buildTimeline baseTime
        (case adapterName verification of Some n \<Rightarrow> n | None \<Rightarrow> mockAdapter_name) rv"
  by (simp_all add: assembleSession_def Let_def)

lemma second_plan:
  "\<exists>p. elemAt (plansFromProposals ps) 1 = Some p \<and> plan_id p = ''plan-b''"
proof -
  have "map plan_id (plansFromProposals ps) ! 1 = ''plan-b''" by (simp add: plan_ids)
  then have "plan_id (plansFromProposals ps ! 1) = ''plan-b''" by simp
  then show ?thesis by (simp add: elemAt_def)
qed

lemma verificationTargetPlanId_range:
  "verificationTargetPlanId proposals (plansFromProposals ps)
     \<in> {''plan-a'', ''plan-b'', ''plan-c'', ''plan-d''}"
proof (cases "proposals = []")
  case True
  have "map plan_id (plansFromProposals ps) = [''plan-a'', ''plan-b'', ''plan-c'', ''plan-d'']"
    by (rule plan_ids)
  then obtain p rest where "plansFromProposals ps = p # rest" "plan_id p = ''plan-a''"
    by (cases "plansFromProposals ps") auto
  with True show ?thesis
    by (simp add: verificationTargetPlanId_def rankedProposals_def)
next
  case False
  from verificationTargetPlanId_leader [OF False, of "plansFromProposals ps"]
  obtain i where "verificationTargetPlanId proposals (plansFromProposals ps) =
      (case proposalPlanMap (agent (proposals ! i)) of Some pid \<Rightarrow> pid | None \<Rightarrow> ''plan-a'')"
    by blast
  then show ?thesis
    by (cases "agent (proposals ! i)") (simp_all add: proposalPlanMap_def)
qed

lemma verificationTarget_plan:
  "\<exists>plan. find (\<lambda>plan. plan_id plan = verificationTargetPlanId proposals (plansFromProposals ps))
            (plansFromProposals ps) = Some plan
        \<and> plan_id plan = verificationTargetPlanId proposals (plansFromProposals ps)"
proof -
  let ?t = "verificationTargetPlanId proposals (plansFromProposals ps)"
  have "?t \<in> set (map plan_id (plansFromProposals ps))"
    using verificationTargetPlanId_range [of proposals ps] by (simp add: plan_ids)
  then have "\<exists>x. x \<in> set (plansFromProposals ps) \<and> plan_id x = ?t" by auto
  then have "find (\<lambda>plan. plan_id plan = ?t) (plansFromProposals ps) \<noteq> None"
    by (simp add: find_None_iff)
  then obtain plan where f: "find (\<lambda>plan. plan_id plan = ?t) (plansFromProposals ps) = Some plan"
    by auto
  then have "plan_id plan = ?t" by (auto simp: find_Some_iff)
  with f show ?thesis by blast
qed

lemma verificationStage_answer:
  assumes "verificationStage world baseTime cs proposals (plansFromProposals proposals) warnings
           = Inr (v, warnings')"
  shows "(case callMcpTool world
                 (verifyPlanArgs world baseTime cs proposals (plansFromProposals proposals)) of
            Inl message \<Rightarrow>
              (\<exists>plan. elemAt (plansFromProposals proposals) 1 = Some plan
                    \<and> plan_id plan = ''plan-b'' \<and> v = fallbackResult world plan)
              \<and> warnings' = warnings @ [''MCP verification failed; fell back to mock. '' @ message]
          | Inr result \<Rightarrow>
              if status result = StatusError
              then (\<exists>plan. find (\<lambda>plan. plan_id plan
                               = verificationTargetPlanId proposals (plansFromProposals proposals))
                             (plansFromProposals proposals) = Some plan
                         \<and> v = fallbackResult world plan)
                   \<and> warnings' = warnings
              else v = toolResult result \<and> warnings' = warnings)"
proof (cases "callMcpTool world
                 (verifyPlanArgs world baseTime cs proposals (plansFromProposals proposals))")
  case (Inl message)
  from second_plan [of proposals] obtain p where
    p: "elemAt (plansFromProposals proposals) 1 = Some p" "plan_id p = ''plan-b''" by blast
  from assms Inl p(1) have "v = fallbackResult world p"
    "warnings' = warnings @ [''MCP verification failed; fell back to mock. '' @ message]"
    by (auto simp: verificationStage_def verificationCatch_def Let_def fallbackResult_def)
  with p Inl show ?thesis by auto
next
  case (Inr result)
  show ?thesis
  proof (cases "status result = StatusError")
    case False
    with assms Inr show ?thesis by (auto simp: verificationStage_def Let_def toolResult_def)
  next
    case True
    from verificationTarget_plan [of proposals proposals] obtain plan where
      plan: "find (\<lambda>plan. plan_id plan
                     = verificationTargetPlanId proposals (plansFromProposals proposals))
               (plansFromProposals proposals) = Some plan" by blast
    with assms Inr True have "v = fallbackResult world plan" "warnings' = warnings"
      by (auto simp: verificationStage_def Let_def fallbackResult_def)
    with plan Inr True show ?thesis by auto
  qed
qed

lemma fallbackResult_reliability:
  "reliability (fallbackResult world plan)
   = Some (if passed (fallbackResult world plan) then 0.9 else 0.75)"
  by (simp add: fallbackResult_def selectOutput_def Let_def)

lemma fallbackResult_plan_b:
  "plan_id plan = ''plan-b'' \<Longrightarrow> passed (fallbackResult world plan)"
  by (simp add: fallbackResult_def selectOutput_def outputs_def Let_def)

lemma runDebate_session:
  assumes "runDebate world scenario options = Inr session"
  obtains verification warnings3 warnings4 where
    "s_proposals session \<noteq> []"
    "s_plans session = plansFromProposals (s_proposals session)"
    "s_weights session = weightsOf options"
    "s_scenario session = scenarioTextOf scenario"
    "s_createdAt session = now world"
    "s_codeScenario session = isCodeScenario (scenarioTextOf scenario)"
    "s_runVerification session = isCodeScenario (scenarioTextOf scenario)"
    "verificationOrSkip world (now world) (s_codeScenario session) (s_runVerification session)
       (s_proposals session) (s_plans session) warnings3 = Inr (verification, warnings4)"
    "s_probabilities session =
       snd (beliefRevision (now world) (s_weights session) (s_proposals session)
              (s_plans session) (s_runVerification session) verification)"
    "s_finalPlanId session =
       pickFinalPlanId (fst (beliefRevision (now world) (s_weights session) (s_proposals session)
              (s_plans session) (s_runVerification session) verification))"
    "s_evidenceLedger session =
       (if s_runVerification session \<and> s_codeScenario session
        then buildEvidence (now world) verification (s_finalPlanId session)
               (s_runVerification session) (s_generationWarnings session) (s_plans session) True
        else [])"
proof -
  from runDebate_Inr [OF assms] obtain promptCategory proposals warnings3 verification warnings4
    where ne: "proposals \<noteq> []"
      and v: "verificationOrSkip world (now world) (isCodeScenario (scenarioTextOf scenario))
          (isCodeScenario (scenarioTextOf scenario)) proposals (plansFromProposals proposals)
          warnings3 = Inr (verification, warnings4)"
      and session: "session = assembleSession world (now world) (weightsOf options)
          (scenarioTextOf scenario) (isCodeScenario (scenarioTextOf scenario))
          (isCodeScenario (scenarioTextOf scenario)) promptCategory proposals
          (plansFromProposals proposals) verification warnings4"
    by blast
  show thesis
  proof (rule that [of warnings3 verification warnings4])
    show "s_evidenceLedger session =
       (if s_runVerification session \<and> s_codeScenario session
        then buildEvidence (now world) verification (s_finalPlanId session)
               (s_runVerification session) (s_generationWarnings session) (s_plans session) True
        else [])"
      unfolding session by (simp only: assembleSession_more_fields assembleSession_fields)
  qed (simp_all add: session ne v)
qed

lemma runDebate_executed:
  assumes run: "runDebate world scenario options = Inr session"
    and executed: "s_runVerification session"
  obtains verification warnings3 warnings4 where
    "s_plans session = plansFromProposals (s_proposals session)"
    "s_codeScenario session"
    "verificationStage world (now world) (s_codeScenario session) (s_proposals session)
       (s_plans session) warnings3 = Inr (verification, warnings4)"
    "s_daytonaOutput session = Some (vr_output verification)"
    "s_adapter session = (case adapterName verification of Some n \<Rightarrow> n | None \<Rightarrow> mockAdapter_name)"
    "s_evidenceLedger session =
       buildEvidence (now world) verification (s_finalPlanId session) True
         (s_generationWarnings session) (s_plans session) True"
    "s_probabilities session =
       snd (beliefRevision (now world) (s_weights session) (s_proposals session)
              (s_plans session) True verification)"
proof -
  from runDebate_Inr [OF run] obtain promptCategory proposals warnings3 verification warnings4
    where v: "verificationOrSkip world (now world) (isCodeScenario (scenarioTextOf scenario))
          (isCodeScenario (scenarioTextOf scenario)) proposals (plansFromProposals proposals)
          warnings3 = Inr (verification, warnings4)"
      and session: "session = assembleSession world (now world) (weightsOf options)
          (scenarioTextOf scenario) (isCodeScenario (scenarioTextOf scenario))
          (isCodeScenario (scenarioTextOf scenario)) promptCategory proposals
          (plansFromProposals proposals) verification warnings4"
    by blast
  from executed have code: "isCodeScenario (scenarioTextOf scenario)"
    unfolding session by simp
  show thesis
  proof (rule that [of warnings3 verification warnings4])
    show "s_evidenceLedger session =
       buildEvidence (now world) verification (s_finalPlanId session) True
         (s_generationWarnings session) (s_plans session) True"
      unfolding session using code
      by (simp only: assembleSession_more_fields assembleSession_fields) simp
    show "verificationStage world (now world) (s_codeScenario session) (s_proposals session)
       (s_plans session) warnings3 = Inr (verification, warnings4)"
      using v code unfolding session by (simp add: verificationOrSkip_def)
  qed (simp_all add: session code)
qed

lemma sample_target: "verificationTargetPlanId sampleProposals plans = ''plan-a''"
  by (simp add: verificationTargetPlanId_def rankedProposals_def sampleProposals_def
      proposalPlanMap_def)

section \<open>Damping and weighted updates\<close>


lemma dampAndNormalize_member:
  assumes "e' \<in> set (dampAndNormalize es)"
  shows "\<exists>e \<in> set (normalizeEntries es).
           probability e' = (1 - DAMPING_FACTOR) * probability e
                            + DAMPING_FACTOR * (1 / real (length es))"
  using assms by (auto simp: dampAndNormalize_def Let_def)

text \<open>
  In exact arithmetic: for every non-empty list of entries with non-negative
  probabilities, \<open>dampAndNormalize\<close> returns as many entries, whose probabilities sum to
  one; with \<open>N\<close> entries each output probability is at least \<open>d/N\<close> and at most
  \<open>1 - d (N - 1)/N\<close>, where \<open>d = 0.08\<close>.
\<close>

lemma dampAndNormalize_distribution:
  assumes nonempty: "es \<noteq> []"
    and nonneg: "\<forall>e \<in> set es. 0 \<le> probability e"
  shows "total_probability (dampAndNormalize es) = 1
       \<and> \<bar>total_probability (dampAndNormalize es) - 1\<bar> \<le> 1 / 10 ^ 9
       \<and> length (dampAndNormalize es) = length es
       \<and> (\<forall>e \<in> set (dampAndNormalize es).
             DAMPING_FACTOR / real (length es) \<le> probability e
           \<and> probability e \<le> 1 - DAMPING_FACTOR * (real (length es) - 1) / real (length es))
       \<and> (length es = 4 \<longrightarrow> (\<forall>e \<in> set (dampAndNormalize es). 0.02 \<le> probability e))"
proof -
  have total: "total_probability (dampAndNormalize es) = 1"
    by (rule total_dampAndNormalize [OF nonempty])
  have n: "0 < real (length es)" using nonempty by simp
  have bounds: "DAMPING_FACTOR / real (length es) \<le> probability e'
       \<and> probability e' \<le> 1 - DAMPING_FACTOR * (real (length es) - 1) / real (length es)"
    if mem: "e' \<in> set (dampAndNormalize es)" for e'
  proof -
    from dampAndNormalize_member [OF mem] obtain e where e: "e \<in> set (normalizeEntries es)"
      and eq: "probability e' = (1 - DAMPING_FACTOR) * probability e
                                + DAMPING_FACTOR * (1 / real (length es))"
      by blast
    from normalizeEntries_unit_range [OF nonneg e]
    have range: "0 \<le> probability e" "probability e \<le> 1" by simp_all
    have lo: "0 \<le> (1 - DAMPING_FACTOR) * probability e"
      using range(1) by (simp add: DAMPING_FACTOR_def)
    have hi: "(1 - DAMPING_FACTOR) * probability e \<le> 1 - DAMPING_FACTOR"
      using range(2) by (simp add: DAMPING_FACTOR_def)
    have alg: "1 - DAMPING_FACTOR * (real (length es) - 1) / real (length es)
               = 1 - DAMPING_FACTOR + DAMPING_FACTOR / real (length es)"
      using n by (simp add: field_simps)
    show ?thesis using lo hi eq alg by simp
  qed
  have four: "0.02 \<le> probability e'"
    if len: "length es = 4" and mem: "e' \<in> set (dampAndNormalize es)" for e'
    using bounds [OF mem] len by (simp add: DAMPING_FACTOR_def)
  from total bounds four show ?thesis by simp
qed

text \<open>
  Claim C7. For entries with probabilities in the unit interval and an asserted
  probability in the unit interval, \<open>applyWeightedUpdate\<close> with weight 0 leaves every
  probability unchanged, with weight 1 it sets the probability of the targeted plan to the
  asserted value, and with any weight it returns every entry of another plan as it was.
\<close>

theorem applyWeightedUpdate_weight_zero_one:
  assumes range: "\<forall>e \<in> set previous. 0 \<le> probability e \<and> probability e \<le> 1"
    and asserted: "0 \<le> upd_probability update" "upd_probability update \<le> 1"
  shows "map probability (applyWeightedUpdate previous update ts 0) = map probability previous
       \<and> map probability (applyWeightedUpdate previous update ts 1)
           = map (\<lambda>e. if planId e = upd_planId update then upd_probability update
                       else probability e) previous
       \<and> length (applyWeightedUpdate previous update ts w) = length previous
       \<and> (\<forall>i < length previous. planId (previous ! i) \<noteq> upd_planId update
             \<longrightarrow> applyWeightedUpdate previous update ts w ! i = previous ! i)"
proof -
  have zero: "map probability (applyWeightedUpdate previous update ts 0) = map probability previous"
    using range by (induction previous) (simp_all add: applyWeightedUpdate_def clampUnit_def Let_def)
  have one: "map probability (applyWeightedUpdate previous update ts 1)
           = map (\<lambda>e. if planId e = upd_planId update then upd_probability update
                       else probability e) previous"
    using asserted by (induction previous) (simp_all add: applyWeightedUpdate_def clampUnit_def Let_def)
  have len: "length (applyWeightedUpdate previous update ts w) = length previous"
    by (simp add: applyWeightedUpdate_def)
  have other: "\<forall>i < length previous. planId (previous ! i) \<noteq> upd_planId update
             \<longrightarrow> applyWeightedUpdate previous update ts w ! i = previous ! i"
    by (simp add: applyWeightedUpdate_def)
  from zero one len other show ?thesis by simp
qed

theorem applyWeightedUpdate_weight_zero_one_witness:
  "list_all (\<lambda>e. 0 \<le> probability e \<and> probability e \<le> 1) sampleEntries
   \<and> 0 \<le> upd_probability sampleUpdate \<and> upd_probability sampleUpdate \<le> 1
   \<and> map probability (applyWeightedUpdate sampleEntries sampleUpdate 7 0) = [0.5, 0.25, 0.25, 0]
   \<and> map probability (applyWeightedUpdate sampleEntries sampleUpdate 7 1) = [0.5, 0.8, 0.25, 0]
   \<and> applyWeightedUpdate sampleEntries sampleUpdate 7 0.3 ! 0 = sampleEntries ! 0"
proof -
  have h1: "\<forall>e \<in> set sampleEntries. 0 \<le> probability e \<and> probability e \<le> 1"
    by (simp add: sampleEntries_def)
  have h2: "0 \<le> upd_probability sampleUpdate" and h3: "upd_probability sampleUpdate \<le> 1"
    by (simp_all add: sampleUpdate_def)
  have ids: "planId (sampleEntries ! 0) \<noteq> upd_planId sampleUpdate" "0 < length sampleEntries"
    by (simp_all add: sampleEntries_def sampleUpdate_def)
  from applyWeightedUpdate_weight_zero_one [OF h1 h2 h3, of 7 "0.3"] ids h1 h2 h3
  show ?thesis by (simp add: sampleEntries_def sampleUpdate_def list_all_iff)
qed

section \<open>The uniform prior\<close>


lemma uniform_dampAndNormalize:
  assumes "\<forall>e \<in> set es. probability e = 1 / real (length es)"
  shows "dampAndNormalize es = es"
proof (cases "es = []")
  case True
  then show ?thesis by (simp add: dampAndNormalize_def normalizeEntries_def Let_def)
next
  case False
  then have n: "real (length es) \<noteq> 0" by simp
  have "total_probability es = sum_list (map (\<lambda>_. 1 / real (length es)) es)"
    unfolding total_probability_def using assms by (intro arg_cong [where f = sum_list]) simp
  also have "\<dots> = 1" using n by (simp add: sum_list_const_real)
  finally have total: "total_probability es = 1" .
  have norm: "normalizeEntries es = es"
    by (simp add: normalizeEntries_def foldl_probability total Let_def)
  have "map (\<lambda>entry. entry\<lparr>probability :=
           (1 - DAMPING_FACTOR) * probability entry + DAMPING_FACTOR * (1 / real (length es))\<rparr>) es
        = es"
  proof (rule map_idI)
    fix e assume "e \<in> set es"
    with assms have p: "probability e = 1 / real (length es)" by simp
    have "(1 - DAMPING_FACTOR) * probability e + DAMPING_FACTOR * (1 / real (length es))
          = probability e"
      unfolding p by (simp add: add_divide_distrib [symmetric] del: add_divide_distrib)
    then show "e\<lparr>probability := (1 - DAMPING_FACTOR) * probability e
                   + DAMPING_FACTOR * (1 / real (length es))\<rparr> = e"
      by simp
  qed
  then show ?thesis by (simp add: dampAndNormalize_def Let_def norm)
qed

lemma initial_priors_fixed:
  assumes "length plans = 4"
  shows "dampAndNormalize (initialProbabilitiesForPlans baseTime plans)
         = initialProbabilitiesForPlans baseTime plans"
  by (rule uniform_dampAndNormalize) (auto simp: initialProbabilitiesForPlans_def Let_def assms)

text \<open>
  In exact arithmetic the uniform distribution is a fixed point of \<open>dampAndNormalize\<close>, and
  the first snapshot of every run that returns a session, the one noted
  ``Initial priors.'', gives 0.25 to each of the four plans.
\<close>

lemma uniform_fixed_point:
  "((\<forall>e \<in> set es. probability e = 1 / real (length es)) \<longrightarrow> dampAndNormalize es = es)
   \<and> (runDebate world scenario options = Inr session \<longrightarrow>
        (\<exists>first rest. s_probabilities session = first # rest
           \<and> snap_timestamp first = toTimestamp (now world) 1
           \<and> snap_note first = ''Initial priors.''
           \<and> map (\<lambda>e. (planId e, probability e)) (entries first)
               = [(''plan-a'', 0.25), (''plan-b'', 0.25), (''plan-c'', 0.25), (''plan-d'', 0.25)]))"
proof (intro conjI impI)
  assume "\<forall>e \<in> set es. probability e = 1 / real (length es)"
  then show "dampAndNormalize es = es" by (rule uniform_dampAndNormalize)
next
  assume run: "runDebate world scenario options = Inr session"
  from runDebate_Inr [OF run] obtain promptCategory proposals warnings3 verification warnings4
    where session: "session = assembleSession world (now world) (weightsOf options)
          (scenarioTextOf scenario) (isCodeScenario (scenarioTextOf scenario))
          (isCodeScenario (scenarioTextOf scenario)) promptCategory proposals
          (plansFromProposals proposals) verification warnings4"
    by blast
  let ?plans = "plansFromProposals proposals"
  let ?first = "recordSnapshot (toTimestamp (now world) 1) ''Initial priors.''
                  (dampAndNormalize (initialProbabilitiesForPlans (now world) ?plans))"
  from agentRevisions_initial [of "now world" "weightsOf options" proposals ?plans]
  obtain ext1 where e1: "snd (agentRevisions (now world) (weightsOf options) proposals ?plans)
                         = ?first # ext1" by blast
  from beliefRevision_extends [of "now world" "weightsOf options" proposals ?plans
      "isCodeScenario (scenarioTextOf scenario)" verification]
  obtain ext2 where e2: "snd (beliefRevision (now world) (weightsOf options) proposals ?plans
        (isCodeScenario (scenarioTextOf scenario)) verification)
      = snd (agentRevisions (now world) (weightsOf options) proposals ?plans) @ ext2" by blast
  have probs: "s_probabilities session = ?first # (ext1 @ ext2)"
    using session e1 e2 by simp
  have ents: "entries ?first = initialProbabilitiesForPlans (now world) ?plans"
    by (simp add: recordSnapshot_def initial_priors_fixed)
  have "map (\<lambda>e. (planId e, probability e)) (initialProbabilitiesForPlans (now world) ?plans)
        = map (\<lambda>i. (i, 0.25)) (map plan_id ?plans)"
    by (simp add: initialProbabilitiesForPlans_def Let_def comp_def)
  then have vals: "map (\<lambda>e. (planId e, probability e)) (entries ?first)
        = [(''plan-a'', 0.25), (''plan-b'', 0.25), (''plan-c'', 0.25), (''plan-d'', 0.25)]"
    unfolding ents by (simp add: plan_ids)
  show "\<exists>first rest. s_probabilities session = first # rest
           \<and> snap_timestamp first = toTimestamp (now world) 1
           \<and> snap_note first = ''Initial priors.''
           \<and> map (\<lambda>e. (planId e, probability e)) (entries first)
               = [(''plan-a'', 0.25), (''plan-b'', 0.25), (''plan-c'', 0.25), (''plan-d'', 0.25)]"
    using probs vals by (intro exI [of _ ?first] exI [of _ "ext1 @ ext2"])
      (simp add: recordSnapshot_def)
qed

lemma sample_run: "\<exists>s. runDebate sampleWorld None None = Inr s"
  by (simp add: runDebate_def Let_def stage_defs isCodeScenario_default sampleWorld_def
      sampleMcpResult_def sampleDraft_def)

section \<open>Snapshots of a run and the verification update\<close>


text \<open>
  In exact arithmetic: in every session that a run returns, the plans are the four plans
  \<open>plan-a\<close> to \<open>plan-d\<close>; every recorded snapshot has exactly one entry per plan, in the
  order of the plans, and its probabilities sum to one; the timestamps of the snapshots
  increase strictly; and the list of snapshots only grows: the initial snapshot comes
  first, every revision of a role appends to the list it finds, and the last revision
  appends to the list the roles left.
\<close>

lemma snapshots_well_formed:
  assumes run: "runDebate world scenario options = Inr session"
  shows "map plan_id (s_plans session) = [''plan-a'', ''plan-b'', ''plan-c'', ''plan-d'']
       \<and> (\<forall>snap \<in> set (s_probabilities session).
             map planId (entries snap) = map plan_id (s_plans session)
           \<and> total_probability (entries snap) = 1
           \<and> \<bar>total_probability (entries snap) - 1\<bar> \<le> 1 / 10 ^ 9)
       \<and> sorted_wrt (<) (map snap_timestamp (s_probabilities session))
       \<and> (\<exists>agentSnapshots lastSnapshots.
             snd (agentRevisions (now world) (s_weights session) (s_proposals session)
                    (s_plans session))
               = recordSnapshot (toTimestamp (now world) 1) ''Initial priors.''
                   (dampAndNormalize (initialProbabilitiesForPlans (now world) (s_plans session)))
                 # agentSnapshots
           \<and> s_probabilities session
               = snd (agentRevisions (now world) (s_weights session) (s_proposals session)
                        (s_plans session)) @ lastSnapshots)
       \<and> (\<forall>state ir. \<exists>ext.
             snd (agentRevisionStep (now world) (s_weights session) (s_proposals session) state ir)
               = snd state @ ext)"
proof -
  from runDebate_session [OF run] obtain verification where
    plans: "s_plans session = plansFromProposals (s_proposals session)" and
    probs: "s_probabilities session =
       snd (beliefRevision (now world) (s_weights session) (s_proposals session)
              (s_plans session) (s_runVerification session) verification)"
    by blast
  have ids: "map plan_id (s_plans session) = [''plan-a'', ''plan-b'', ''plan-c'', ''plan-d'']"
    unfolding plans by (rule plan_ids)
  have ne: "s_plans session \<noteq> []" unfolding plans by simp
  from beliefRevision_invariant [OF ne, of "now world" "s_weights session" "s_proposals session"
      "s_runVerification session" verification]
  have inv: "revisionInvariant (now world) (map plan_id (s_plans session)) 17
               (beliefRevision (now world) (s_weights session) (s_proposals session)
                  (s_plans session) (s_runVerification session) verification)" .
  have wf: "\<forall>snap \<in> set (s_probabilities session).
             map planId (entries snap) = map plan_id (s_plans session)
           \<and> total_probability (entries snap) = 1
           \<and> \<bar>total_probability (entries snap) - 1\<bar> \<le> 1 / 10 ^ 9"
    using inv unfolding probs
    by (auto simp: revisionInvariant_def list_all_iff snapshotWellFormed_def)
  have sorted: "sorted_wrt (<) (map snap_timestamp (s_probabilities session))"
    using inv unfolding probs by (simp add: revisionInvariant_def)
  from agentRevisions_initial [of "now world" "s_weights session" "s_proposals session"
      "s_plans session"]
  obtain ext1 where e1: "snd (agentRevisions (now world) (s_weights session)
      (s_proposals session) (s_plans session))
    = recordSnapshot (toTimestamp (now world) 1) ''Initial priors.''
        (dampAndNormalize (initialProbabilitiesForPlans (now world) (s_plans session))) # ext1"
    by blast
  from beliefRevision_extends [of "now world" "s_weights session" "s_proposals session"
      "s_plans session" "s_runVerification session" verification]
  obtain ext2 where e2: "s_probabilities session
     = snd (agentRevisions (now world) (s_weights session) (s_proposals session)
              (s_plans session)) @ ext2"
    unfolding probs by blast
  have steps: "\<forall>state ir. \<exists>ext.
             snd (agentRevisionStep (now world) (s_weights session) (s_proposals session) state ir)
               = snd state @ ext"
    using agentRevisionStep_extends by blast
  from ids wf sorted e1 e2 steps show ?thesis by blast
qed

lemma clampWeight_unit: "0 \<le> x \<Longrightarrow> x \<le> 1 \<Longrightarrow> clampWeight x = x"
  by (simp add: clampWeight_def)

lemma clampWeight_range: "0 \<le> clampWeight x \<and> clampWeight x \<le> 1"
  by (simp add: clampWeight_def)

lemma resolveWeights_range: "0 \<le> resolveWeights ov r \<and> resolveWeights ov r \<le> 1"
  by (simp add: resolveWeights_def clampWeight_range)

lemmas belief_eval =
  beliefRevision_def agentRevisions_def proposalOrder_def agentRevisionStep_def
  recordSnapshot_def reviseFromAgent_def applyWeightedUpdate_def dampAndNormalize_def
  normalizeEntries_def initialProbabilitiesForPlans_def plansFromProposals_def char_of_letters
  evaluateVerification_def pickFinalPlanId_def resolveWeights_def defaultWeights_def
  clampWeight_def clampUnit_def DAMPING_FACTOR_def toTimestamp_def proposalPlanMap_def
  roleName_def

lemmas sample_eval = sampleWorld_def sampleMcpResult_def sampleDraft_def sampleSolution_def

lemma sample_proposalStage:
  "proposalStage sampleWorld defaultScenario (weightsOf None) True True
   = (''debugging'', sampleProposals, [])"
  by (simp add: stage_defs sample_eval sampleProposals_def)

text \<open>
  Claim C2. In every run in which verification executes, the last snapshot is recorded at
  the start of the run plus 16 minutes and holds \<open>dampAndNormalize\<close> of the weighted update
  of the distribution before it; the update targets the first plan of highest probability
  in that distribution and asserts 0.82 if the verification passed and 0.18 if it failed.
  Its weight is the product of the resolved synthesizer weight and the reliability of the
  evidence, passed through \<open>clampWeight\<close>; when the reliability lies in the unit interval,
  the range that the data model gives it, the weight is the product itself.
\<close>

theorem verification_update:
  assumes run: "runDebate world scenario options = Inr session"
    and executed: "s_runVerification session"
  shows "\<exists>earlier previous verification warnings3 warnings4 i.
       verificationStage world (now world) (s_codeScenario session) (s_proposals session)
         (s_plans session) warnings3 = Inr (verification, warnings4)
     \<and> s_probabilities session =
         earlier @ [previous,
           recordSnapshot (toTimestamp (now world) 16) ''Verification results applied.''
             (dampAndNormalize
               (map (\<lambda>entry. entry\<lparr>timestamp := toTimestamp (now world) 16\<rparr>)
                 (applyWeightedUpdate (entries previous)
                    \<lparr>upd_planId = planId (entries previous ! i),
                     upd_probability = (if passed verification then 0.82 else 0.18),
                     upd_updatedBy = Synthesizer,
                     upd_rationale = (if passed verification
                        then ''Verification passed; confidence boosted with damping.''
                        else ''Verification failed; confidence reduced with damping.'')\<rparr>
                    (toTimestamp (now world) 16)
                    (clampWeight (s_weights session Synthesizer
                       * (case reliability verification of
                            Some r \<Rightarrow> r
                          | None \<Rightarrow> (if passed verification then 0.9 else 0.75)))))))]
     \<and> i < length (entries previous)
     \<and> (\<forall>j < length (entries previous).
           probability (entries previous ! j) \<le> probability (entries previous ! i))
     \<and> (\<forall>j < i. probability (entries previous ! j) < probability (entries previous ! i))
     \<and> 0 \<le> s_weights session Synthesizer \<and> s_weights session Synthesizer \<le> 1
     \<and> (0 \<le> effectiveReliability verification \<and> effectiveReliability verification \<le> 1 \<longrightarrow>
         s_probabilities session =
           earlier @ [previous,
             recordSnapshot (toTimestamp (now world) 16) ''Verification results applied.''
               (dampAndNormalize
                 (map (\<lambda>entry. entry\<lparr>timestamp := toTimestamp (now world) 16\<rparr>)
                   (applyWeightedUpdate (entries previous)
                      \<lparr>upd_planId = planId (entries previous ! i),
                       upd_probability = (if passed verification then 0.82 else 0.18),
                       upd_updatedBy = Synthesizer,
                       upd_rationale = (if passed verification
                          then ''Verification passed; confidence boosted with damping.''
                          else ''Verification failed; confidence reduced with damping.'')\<rparr>
                      (toTimestamp (now world) 16)
                      (s_weights session Synthesizer * effectiveReliability verification))))])"
proof -
  from runDebate_session [OF run] obtain verification warnings3 warnings4 where
    plans: "s_plans session = plansFromProposals (s_proposals session)" and
    weights: "s_weights session = weightsOf options" and
    v: "verificationOrSkip world (now world) (s_codeScenario session) (s_runVerification session)
       (s_proposals session) (s_plans session) warnings3 = Inr (verification, warnings4)" and
    probs: "s_probabilities session =
       snd (beliefRevision (now world) (s_weights session) (s_proposals session)
              (s_plans session) (s_runVerification session) verification)"
    by blast
  have stage: "verificationStage world (now world) (s_codeScenario session) (s_proposals session)
         (s_plans session) warnings3 = Inr (verification, warnings4)"
    using v executed by (simp add: verificationOrSkip_def)
  have ne: "s_plans session \<noteq> []" unfolding plans by simp
  from beliefRevision_verification [OF ne, of "now world" "s_weights session"
      "s_proposals session" verification]
  obtain earlier previous where
    agent: "snd (agentRevisions (now world) (s_weights session) (s_proposals session)
                   (s_plans session)) = earlier @ [previous]" and
    final: "snd (beliefRevision (now world) (s_weights session) (s_proposals session)
                   (s_plans session) True verification) =
         earlier @ [previous,
           recordSnapshot (toTimestamp (now world) 16) ''Verification results applied.''
             (evaluateVerification (entries previous) verification
                (pickFinalPlanId (entries previous)) (now world) (s_weights session Synthesizer))]"
    by blast
  from agentRevisions_invariant [OF ne, of "now world" "s_weights session" "s_proposals session"]
  have "list_all (snapshotWellFormed (map plan_id (s_plans session)))
          (snd (agentRevisions (now world) (s_weights session) (s_proposals session)
                  (s_plans session)))"
    by (simp add: revisionInvariant_def)
  with agent have "map planId (entries previous) = map plan_id (s_plans session)"
    by (simp add: snapshotWellFormed_def)
  with ne have prev_ne: "entries previous \<noteq> []" by auto
  from pickFinalPlanId_leader [OF prev_ne] obtain i where
    i: "i < length (entries previous)"
       "pickFinalPlanId (entries previous) = planId (entries previous ! i)"
       "\<forall>j < length (entries previous).
           probability (entries previous ! j) \<le> probability (entries previous ! i)"
       "\<forall>j < i. probability (entries previous ! j) < probability (entries previous ! i)"
    by blast
  have w: "0 \<le> s_weights session Synthesizer \<and> s_weights session Synthesizer \<le> 1"
    unfolding weights weightsOf_def by (rule resolveWeights_range)
  have clamp: "clampWeight (s_weights session Synthesizer * effectiveReliability verification)
               = s_weights session Synthesizer * effectiveReliability verification"
    if rel: "0 \<le> effectiveReliability verification \<and> effectiveReliability verification \<le> 1"
  proof -
    have "0 \<le> s_weights session Synthesizer * effectiveReliability verification"
      using w rel by simp
    moreover have "s_weights session Synthesizer * effectiveReliability verification \<le> 1"
      using w rel by (simp add: mult_le_one)
    ultimately show ?thesis by (rule clampWeight_unit)
  qed
  have probs': "s_probabilities session =
         earlier @ [previous,
           recordSnapshot (toTimestamp (now world) 16) ''Verification results applied.''
             (dampAndNormalize
               (map (\<lambda>entry. entry\<lparr>timestamp := toTimestamp (now world) 16\<rparr>)
                 (applyWeightedUpdate (entries previous)
                    \<lparr>upd_planId = planId (entries previous ! i),
                     upd_probability = (if passed verification then 0.82 else 0.18),
                     upd_updatedBy = Synthesizer,
                     upd_rationale = (if passed verification
                        then ''Verification passed; confidence boosted with damping.''
                        else ''Verification failed; confidence reduced with damping.'')\<rparr>
                    (toTimestamp (now world) 16)
                    (clampWeight (s_weights session Synthesizer
                       * (case reliability verification of
                            Some r \<Rightarrow> r
                          | None \<Rightarrow> (if passed verification then 0.9 else 0.75)))))))]"
    using probs executed final i(2) by (simp add: evaluateVerification_def Let_def)
  have eff: "(case reliability verification of
                Some r \<Rightarrow> r | None \<Rightarrow> (if passed verification then 0.9 else 0.75))
             = effectiveReliability verification"
    by (simp add: effectiveReliability_def)
  from probs' clamp have plain: "0 \<le> effectiveReliability verification
      \<and> effectiveReliability verification \<le> 1 \<longrightarrow>
         s_probabilities session =
           earlier @ [previous,
             recordSnapshot (toTimestamp (now world) 16) ''Verification results applied.''
               (dampAndNormalize
                 (map (\<lambda>entry. entry\<lparr>timestamp := toTimestamp (now world) 16\<rparr>)
                   (applyWeightedUpdate (entries previous)
                      \<lparr>upd_planId = planId (entries previous ! i),
                       upd_probability = (if passed verification then 0.82 else 0.18),
                       upd_updatedBy = Synthesizer,
                       upd_rationale = (if passed verification
                          then ''Verification passed; confidence boosted with damping.''
                          else ''Verification failed; confidence reduced with damping.'')\<rparr>
                      (toTimestamp (now world) 16)
                      (s_weights session Synthesizer * effectiveReliability verification))))]"
    by (simp add: eff)
  from stage probs' i(1,3,4) w plain show ?thesis by blast
qed



theorem verification_update_witness:
  "\<exists>s earlier previous final i. runDebate sampleWorld None None = Inr s \<and> s_runVerification s
     \<and> s_probabilities s = earlier @ [previous, final]
     \<and> snap_timestamp final = 960000
     \<and> snap_note final = ''Verification results applied.''
     \<and> 0 \<le> effectiveReliability (toolResult sampleMcpResult)
     \<and> effectiveReliability (toolResult sampleMcpResult) \<le> 1
     \<and> entries final =
           dampAndNormalize
             (map (\<lambda>entry. entry\<lparr>timestamp := 960000\<rparr>)
                (applyWeightedUpdate (entries previous)
                   \<lparr>upd_planId = planId (entries previous ! i), upd_probability = 0.82,
                    upd_updatedBy = Synthesizer,
                    upd_rationale = ''Verification passed; confidence boosted with damping.''\<rparr>
                   960000 (0.6 * 0.9)))"
proof -
  from sample_run obtain s where run: "runDebate sampleWorld None None = Inr s" by blast
  from runDebate_session [OF run] have rv: "s_runVerification s"
    and weights: "s_weights s = weightsOf None"
    and plans: "s_plans s = plansFromProposals (s_proposals s)"
    by (simp_all add: scenarioTextOf_def isCodeScenario_default)
  have now: "now sampleWorld = 0" by (simp add: sampleWorld_def)
  have w: "s_weights s Synthesizer = 0.6"
    unfolding weights
    by (simp add: weightsOf_def resolveWeights_def defaultWeights_def clampWeight_def)
  have call: "callMcpTool sampleWorld a = Inr sampleMcpResult" for a
    by (simp add: sampleWorld_def)
  have r: "effectiveReliability (toolResult sampleMcpResult) = 0.9"
    "passed (toolResult sampleMcpResult)"
    by (simp_all add: effectiveReliability_def toolResult_def sampleMcpResult_def)
  from verification_update [OF run rv] obtain earlier previous verification warnings3 warnings4 i
    where stage: "verificationStage sampleWorld (now sampleWorld) (s_codeScenario s)
         (s_proposals s) (s_plans s) warnings3 = Inr (verification, warnings4)"
      and plain: "0 \<le> effectiveReliability verification \<and> effectiveReliability verification \<le> 1 \<longrightarrow>
         s_probabilities s =
           earlier @ [previous,
             recordSnapshot (toTimestamp (now sampleWorld) 16) ''Verification results applied.''
               (dampAndNormalize
                 (map (\<lambda>entry. entry\<lparr>timestamp := toTimestamp (now sampleWorld) 16\<rparr>)
                   (applyWeightedUpdate (entries previous)
                      \<lparr>upd_planId = planId (entries previous ! i),
                       upd_probability = (if passed verification then 0.82 else 0.18),
                       upd_updatedBy = Synthesizer,
                       upd_rationale = (if passed verification
                          then ''Verification passed; confidence boosted with damping.''
                          else ''Verification failed; confidence reduced with damping.'')\<rparr>
                      (toTimestamp (now sampleWorld) 16)
                      (s_weights s Synthesizer * effectiveReliability verification))))]"
    by blast
  from verificationStage_answer [OF stage [unfolded plans]] call
  have v: "verification = toolResult sampleMcpResult" by (simp add: sampleMcpResult_def)
  from plain r have "s_probabilities s =
           earlier @ [previous,
             recordSnapshot 960000 ''Verification results applied.''
               (dampAndNormalize
                 (map (\<lambda>entry. entry\<lparr>timestamp := 960000\<rparr>)
                   (applyWeightedUpdate (entries previous)
                      \<lparr>upd_planId = planId (entries previous ! i), upd_probability = 0.82,
                       upd_updatedBy = Synthesizer,
                       upd_rationale = ''Verification passed; confidence boosted with damping.''\<rparr>
                      960000 (0.6 * 0.9))))]"
    unfolding v now w by (simp add: toTimestamp_def)
  with run rv r show ?thesis
    by (intro exI [of _ s] exI [of _ earlier] exI [of _ previous]
          exI [of _ "recordSnapshot 960000 ''Verification results applied.''
               (dampAndNormalize
                 (map (\<lambda>entry. entry\<lparr>timestamp := 960000\<rparr>)
                   (applyWeightedUpdate (entries previous)
                      \<lparr>upd_planId = planId (entries previous ! i), upd_probability = 0.82,
                       upd_updatedBy = Synthesizer,
                       upd_rationale = ''Verification passed; confidence boosted with damping.''\<rparr>
                      960000 (0.6 * 0.9))))"] exI [of _ i])
       (simp add: recordSnapshot_def)
qed

section \<open>The decision to verify\<close>


lemma proposalStep_warnings:
  "\<exists>ext. snd (proposalStep world sc w c state role) = snd state @ ext"
  by (cases state) (simp add: proposalStep_def split: sum.splits)

lemma proposalStep_fold_warnings:
  "\<exists>ext. snd (foldl (proposalStep world sc w c) state roles) = snd state @ ext"
proof (induction roles arbitrary: state)
  case Nil
  then show ?case by simp
next
  case (Cons r roles)
  from proposalStep_warnings [of world sc w c state r]
  obtain e1 where e1: "snd (proposalStep world sc w c state r) = snd state @ e1" by blast
  from Cons.IH [of "proposalStep world sc w c state r"]
  obtain e2 where "snd (foldl (proposalStep world sc w c) (proposalStep world sc w c state r) roles)
      = snd (proposalStep world sc w c state r) @ e2" by blast
  with e1 show ?case by simp
qed

lemma collectProposals_warnings:
  "\<exists>ext. snd (collectProposals world sc w c warnings) = warnings @ ext"
  using proposalStep_fold_warnings [of world sc w c "([], warnings)" agents]
  by (simp add: collectProposals_def)

lemma verificationStage_warnings:
  assumes "verificationStage world baseTime cs proposals plans warnings = Inr (v, warnings')"
  shows "\<exists>ext. warnings' = warnings @ ext"
  using assms
  by (auto simp: verificationStage_def verificationCatch_def Let_def
      split: sum.splits if_splits option.splits)

lemma verificationOrSkip_warnings:
  assumes "verificationOrSkip world baseTime cs rv proposals plans warnings = Inr (v, warnings')"
  shows "\<exists>ext. warnings' = warnings @ ext"
  using assms verificationStage_warnings [of world baseTime cs proposals plans warnings v warnings']
  by (auto simp: verificationOrSkip_def split: if_splits)

lemma finalSolutionStage_warnings:
  "\<exists>ext. snd (finalSolutionStage world sc proposals ev warnings) = warnings @ ext"
  by (simp add: finalSolutionStage_def split: sum.splits)

lemma finalResponseStage_warnings:
  "\<exists>ext. snd (finalResponseStage world sc c fs proposals ev cs warnings) = warnings @ ext"
  by (simp add: finalResponseStage_def split: sum.splits option.splits)

lemma assembleSession_warnings:
  "\<exists>ext. s_generationWarnings (assembleSession world baseTime weights sc cs rv c proposals plans
             v warnings) = warnings @ ext"
proof -
  let ?ev = "if rv \<and> cs then Some (vr_summary v, vr_output v) else None"
  from finalSolutionStage_warnings [of world sc proposals ?ev warnings]
  obtain e1 where e1: "snd (finalSolutionStage world sc proposals ?ev warnings) = warnings @ e1"
    by blast
  from finalResponseStage_warnings [of world sc c
      "fst (finalSolutionStage world sc proposals ?ev warnings)" proposals ?ev cs
      "snd (finalSolutionStage world sc proposals ?ev warnings)"]
  obtain e2 where "snd (finalResponseStage world sc c
      (fst (finalSolutionStage world sc proposals ?ev warnings)) proposals ?ev cs
      (snd (finalSolutionStage world sc proposals ?ev warnings)))
    = snd (finalSolutionStage world sc proposals ?ev warnings) @ e2" by blast
  with e1 show ?thesis by (simp only: assembleSession_more_fields) simp
qed

lemma run_ignores_request_without_code:
  assumes "\<not> isCodeScenario (scenarioTextOf scenario)"
  shows "runDebate world scenario (Some (opts\<lparr>opt_runVerification := requested\<rparr>))
         = runDebate world scenario (Some (opts\<lparr>opt_runVerification := requested'\<rparr>))"
  using assms
  by (simp add: runDebate_def Let_def proposalStage_def weightsOf_def providerOverrideOf_def)

lemma skipped_snapshot:
  assumes "proposals \<noteq> []"
  shows "snd (beliefRevision baseTime weights proposals plans False v)
         = snd (agentRevisions baseTime weights proposals plans)
           @ [recordSnapshot (toTimestamp baseTime 16)
                ''Verification skipped; synthesizer adjusted confidence.''
                (fst (beliefRevision baseTime weights proposals plans False v))]"
  using assms by (simp add: beliefRevision_def Let_def)

lemma proposalStep_ignores_tool [simp]:
  "proposalStep (world\<lparr>callMcpTool := tool\<rparr>) = proposalStep world"
  by (intro ext) (simp add: proposalStep_def split: prod.splits)

lemma proposalStage_ignores_tool [simp]:
  "proposalStage (world\<lparr>callMcpTool := tool\<rparr>) = proposalStage world"
  by (intro ext) (simp add: proposalStage_def classifyStage_def collectProposals_def)

lemma finalSolutionStage_ignores_tool [simp]:
  "finalSolutionStage (world\<lparr>callMcpTool := tool\<rparr>) = finalSolutionStage world"
  by (intro ext) (simp add: finalSolutionStage_def)

lemma finalResponseStage_ignores_tool [simp]:
  "finalResponseStage (world\<lparr>callMcpTool := tool\<rparr>) = finalResponseStage world"
  by (intro ext) (simp add: finalResponseStage_def split: option.splits)

lemma assembleSession_ignores_tool [simp]:
  "assembleSession (world\<lparr>callMcpTool := tool\<rparr>) = assembleSession world"
  by (intro ext) (simp add: assembleSession_def)

lemma run_ignores_tool_without_code:
  assumes "\<not> isCodeScenario (scenarioTextOf scenario)"
  shows "runDebate (world\<lparr>callMcpTool := tool\<rparr>) scenario options
         = runDebate world scenario options"
  using assms
  by (cases "proposalStage world (scenarioTextOf scenario) (weightsOf options) False
               (runVerificationRequestedOf options)")
     (simp add: runDebate_def Let_def verificationOrSkip_def)

lemma proposalStep_no_verificationWarning:
  assumes "list_all (\<lambda>w. \<not> verificationWarning w) (snd state)"
  shows "list_all (\<lambda>w. \<not> verificationWarning w) (snd (proposalStep world sc w c state role))"
  using assms
  by (cases state) (simp add: proposalStep_def verificationWarning_def split: sum.splits)

lemma proposalStep_fold_no_verificationWarning:
  assumes "list_all (\<lambda>w. \<not> verificationWarning w) (snd state)"
  shows "list_all (\<lambda>w. \<not> verificationWarning w)
           (snd (foldl (proposalStep world sc w c) state roles))"
  using assms
proof (induction roles arbitrary: state)
  case Nil
  then show ?case by simp
next
  case (Cons r roles)
  from Cons.IH [OF proposalStep_no_verificationWarning [OF Cons.prems]] show ?case by simp
qed

lemma proposalStage_no_verificationWarning:
  "list_all (\<lambda>w. \<not> verificationWarning w)
     (snd (snd (proposalStage world sc weights False requested)))"
proof -
  have "list_all (\<lambda>w. \<not> verificationWarning w) (snd (classifyStage world sc []))"
    by (simp add: classifyStage_def verificationWarning_def split: sum.splits)
  then show ?thesis
    by (simp add: proposalStage_def Let_def collectProposals_def
        proposalStep_fold_no_verificationWarning)
qed

lemma assembleSession_no_verificationWarning:
  assumes "list_all (\<lambda>w. \<not> verificationWarning w) warnings"
  shows "list_all (\<lambda>w. \<not> verificationWarning w)
           (s_generationWarnings (assembleSession world baseTime weights sc cs rv c proposals
              plans v warnings))"
  using assms
  by (simp only: assembleSession_more_fields)
     (simp add: finalSolutionStage_def finalResponseStage_def verificationWarning_def
        split: sum.splits option.splits)

lemma runDebate_skipped:
  assumes run: "runDebate world scenario options = Inr session"
    and plain: "\<not> isCodeScenario (scenarioTextOf scenario)"
  shows "s_adapter session = ''mock'' \<and> s_daytonaOutput session = None
       \<and> list_all (\<lambda>w. \<not> verificationWarning w) (s_generationWarnings session)"
proof -
  from runDebate_Inr [OF run] obtain promptCategory proposals warnings3 verification warnings4
    where ps: "proposalStage world (scenarioTextOf scenario) (weightsOf options)
          (isCodeScenario (scenarioTextOf scenario)) (runVerificationRequestedOf options)
         = (promptCategory, proposals, warnings3)"
      and v: "verificationOrSkip world (now world) (isCodeScenario (scenarioTextOf scenario))
          (isCodeScenario (scenarioTextOf scenario)) proposals (plansFromProposals proposals)
          warnings3 = Inr (verification, warnings4)"
      and session: "session = assembleSession world (now world) (weightsOf options)
          (scenarioTextOf scenario) (isCodeScenario (scenarioTextOf scenario))
          (isCodeScenario (scenarioTextOf scenario)) promptCategory proposals
          (plansFromProposals proposals) verification warnings4"
    by blast
  from v plain have skip: "verification = skippedVerification" "warnings4 = warnings3"
    by (simp_all add: verificationOrSkip_def)
  from proposalStage_no_verificationWarning [of world "scenarioTextOf scenario"
      "weightsOf options" "runVerificationRequestedOf options"] ps plain
  have "list_all (\<lambda>w. \<not> verificationWarning w) warnings3" by simp
  from assembleSession_no_verificationWarning [OF this]
  have w: "list_all (\<lambda>w. \<not> verificationWarning w) (s_generationWarnings session)"
    unfolding session skip by blast
  have "s_adapter session = ''mock''" "s_daytonaOutput session = None"
    unfolding session skip using plain
    by (simp_all add: skippedVerification_def mockAdapter_name_def)
  with w show ?thesis by simp
qed

text \<open>
  Claim C3, as amended. For a scenario that is not code-related the run depends neither
  on the caller's request for verification nor on the verification tool: the result,
  warnings included, is the same for every value of \<open>runVerification\<close> and for every tool.
  Such a run skips verification: its adapter is the mock's name, it shows no verification
  output, it builds no evidence, it records the ``skipped'' snapshot last, and none of its
  warnings speaks of the verification. The warning of an override is the one of the
  opposite case: when the scenario is code-related and the caller asked for no
  verification, verification executes and the warning that it was auto-enabled is in the
  warning list of the session.
\<close>

theorem verification_skipped_for_non_code:
  "(\<not> isCodeScenario (scenarioTextOf scenario) \<longrightarrow>
      runDebate world scenario (Some (opts\<lparr>opt_runVerification := requested\<rparr>))
      = runDebate world scenario (Some (opts\<lparr>opt_runVerification := requested'\<rparr>))
      \<and> runDebate (world\<lparr>callMcpTool := tool\<rparr>) scenario options
        = runDebate world scenario options)
   \<and> (runDebate world scenario options = Inr session \<and> \<not> isCodeScenario (s_scenario session) \<longrightarrow>
        \<not> s_runVerification session \<and> s_evidenceLedger session = []
        \<and> s_daytonaOutput session = None \<and> s_adapter session = ''mock''
        \<and> list_all (\<lambda>w. \<not> verificationWarning w) (s_generationWarnings session)
        \<and> (\<exists>earlier skipped. s_probabilities session = earlier @ [skipped]
              \<and> snap_note skipped = ''Verification skipped; synthesizer adjusted confidence.''))
   \<and> (runDebate world scenario options = Inr session \<and> isCodeScenario (s_scenario session)
        \<and> \<not> runVerificationRequestedOf options \<longrightarrow>
        s_runVerification session
        \<and> ''Verification was auto-enabled for code-related scenarios.''
             \<in> set (s_generationWarnings session))"
proof (intro conjI impI)
  assume "\<not> isCodeScenario (scenarioTextOf scenario)"
  then show "runDebate world scenario (Some (opts\<lparr>opt_runVerification := requested\<rparr>))
      = runDebate world scenario (Some (opts\<lparr>opt_runVerification := requested'\<rparr>))"
    by (rule run_ignores_request_without_code)
next
  assume "\<not> isCodeScenario (scenarioTextOf scenario)"
  then show "runDebate (world\<lparr>callMcpTool := tool\<rparr>) scenario options
        = runDebate world scenario options"
    by (rule run_ignores_tool_without_code)
next
  assume a: "runDebate world scenario options = Inr session \<and> \<not> isCodeScenario (s_scenario session)"
  then have run: "runDebate world scenario options = Inr session" by simp
  from runDebate_session [OF run] obtain verification where
    s: "s_scenario session = scenarioTextOf scenario"
       "s_runVerification session = isCodeScenario (scenarioTextOf scenario)"
       "s_proposals session \<noteq> []" and
    probs: "s_probabilities session =
       snd (beliefRevision (now world) (s_weights session) (s_proposals session)
              (s_plans session) (s_runVerification session) verification)" and
    ev: "s_evidenceLedger session =
       (if s_runVerification session \<and> s_codeScenario session
        then buildEvidence (now world) verification (s_finalPlanId session)
               (s_runVerification session) (s_generationWarnings session) (s_plans session) True
        else [])"
    by blast
  from a s show "\<not> s_runVerification session" by simp
  with ev show "s_evidenceLedger session = []" by simp
  from a s have plain: "\<not> isCodeScenario (scenarioTextOf scenario)" by simp
  from runDebate_skipped [OF run plain]
  show "s_daytonaOutput session = None" "s_adapter session = ''mock''"
    "list_all (\<lambda>w. \<not> verificationWarning w) (s_generationWarnings session)"
    by simp_all
  from \<open>\<not> s_runVerification session\<close> probs skipped_snapshot [OF s(3)]
  show "\<exists>earlier skipped. s_probabilities session = earlier @ [skipped]
              \<and> snap_note skipped = ''Verification skipped; synthesizer adjusted confidence.''"
    by (simp add: recordSnapshot_def)
next
  assume a: "runDebate world scenario options = Inr session \<and> isCodeScenario (s_scenario session)
        \<and> \<not> runVerificationRequestedOf options"
  then have run: "runDebate world scenario options = Inr session" by simp
  from runDebate_session [OF run] have s: "s_scenario session = scenarioTextOf scenario"
       "s_runVerification session = isCodeScenario (scenarioTextOf scenario)" by blast+
  with a show "s_runVerification session" by simp
  from a s have code: "isCodeScenario (scenarioTextOf scenario)"
    and req: "\<not> runVerificationRequestedOf options" by simp_all
  let ?msg = "''Verification was auto-enabled for code-related scenarios.''"
  from runDebate_Inr [OF run] obtain promptCategory proposals warnings3 verification warnings4
    where ps: "proposalStage world (scenarioTextOf scenario) (weightsOf options)
          (isCodeScenario (scenarioTextOf scenario)) (runVerificationRequestedOf options)
         = (promptCategory, proposals, warnings3)"
      and v: "verificationOrSkip world (now world) (isCodeScenario (scenarioTextOf scenario))
          (isCodeScenario (scenarioTextOf scenario)) proposals (plansFromProposals proposals)
          warnings3 = Inr (verification, warnings4)"
      and session: "session = assembleSession world (now world) (weightsOf options)
          (scenarioTextOf scenario) (isCodeScenario (scenarioTextOf scenario))
          (isCodeScenario (scenarioTextOf scenario)) promptCategory proposals
          (plansFromProposals proposals) verification warnings4"
    by blast
  let ?w1 = "snd (classifyStage world (scenarioTextOf scenario) [])"
  have "warnings3 = snd (collectProposals world (scenarioTextOf scenario) (weightsOf options)
                           (fst (classifyStage world (scenarioTextOf scenario) []))
                           (?w1 @ [?msg]))"
    using ps code req by (auto simp: proposalStage_def Let_def)
  with collectProposals_warnings [of world "scenarioTextOf scenario" "weightsOf options"
      "fst (classifyStage world (scenarioTextOf scenario) [])" "?w1 @ [?msg]"]
  have m3: "?msg \<in> set warnings3" by auto
  from verificationOrSkip_warnings [OF v] m3 have m4: "?msg \<in> set warnings4" by auto
  from assembleSession_warnings [of world "now world" "weightsOf options"
      "scenarioTextOf scenario" "isCodeScenario (scenarioTextOf scenario)"
      "isCodeScenario (scenarioTextOf scenario)" promptCategory proposals
      "plansFromProposals proposals" verification warnings4] m4
  show "?msg \<in> set (s_generationWarnings session)"
    unfolding session by auto
qed

lemma isCodeScenario_plain: "\<not> isCodeScenario plainScenario"
  by (simp add: isCodeScenario_def plainScenario_def toLowerCase_def toLowerChar_def
      codeKeywords_def)

lemma plain_run: "\<exists>s. runDebate sampleWorld (Some plainScenario) options = Inr s"
  by (simp add: runDebate_def Let_def stage_defs isCodeScenario_plain sample_eval)

lemma code_run_not_requested:
  "\<exists>s. runDebate sampleWorld None (Some (sampleOptions (Some False))) = Inr s"
  by (simp add: runDebate_def Let_def stage_defs isCodeScenario_default sample_eval
      sampleOptions_def)

theorem verification_skipped_for_non_code_witness:
  "\<not> isCodeScenario (scenarioTextOf (Some plainScenario))
   \<and> runDebate sampleWorld (Some plainScenario) (Some (sampleOptions (Some True)))
     = runDebate sampleWorld (Some plainScenario) (Some (sampleOptions (Some False)))
   \<and> runDebate (sampleWorld\<lparr>callMcpTool := (\<lambda>_. Inl ''fetch failed'')\<rparr>) (Some plainScenario)
       (Some (sampleOptions (Some True)))
     = runDebate sampleWorld (Some plainScenario) (Some (sampleOptions (Some True)))
   \<and> (\<exists>s. runDebate sampleWorld (Some plainScenario) (Some (sampleOptions (Some True))) = Inr s
         \<and> \<not> isCodeScenario (s_scenario s) \<and> \<not> s_runVerification s \<and> s_evidenceLedger s = []
         \<and> s_daytonaOutput s = None \<and> s_adapter s = ''mock''
         \<and> list_all (\<lambda>w. \<not> verificationWarning w) (s_generationWarnings s))
   \<and> (\<exists>s. runDebate sampleWorld None (Some (sampleOptions (Some False))) = Inr s
         \<and> isCodeScenario (s_scenario s)
         \<and> \<not> runVerificationRequestedOf (Some (sampleOptions (Some False)))
         \<and> s_runVerification s
         \<and> ''Verification was auto-enabled for code-related scenarios.''
              \<in> set (s_generationWarnings s))"
proof -
  have h1: "\<not> isCodeScenario (scenarioTextOf (Some plainScenario))"
    by (simp add: scenarioTextOf_def isCodeScenario_plain)
  from plain_run obtain s where
    run: "runDebate sampleWorld (Some plainScenario) (Some (sampleOptions (Some True))) = Inr s"
    by blast
  from runDebate_session [OF run] have sc: "s_scenario s = plainScenario"
    by (simp add: scenarioTextOf_def)
  then have h2: "\<not> isCodeScenario (s_scenario s)" by (simp add: isCodeScenario_plain)
  from code_run_not_requested obtain t where
    run': "runDebate sampleWorld None (Some (sampleOptions (Some False))) = Inr t" by blast
  from runDebate_session [OF run'] have "s_scenario t = defaultScenario"
    by (simp add: scenarioTextOf_def)
  then have h3: "isCodeScenario (s_scenario t)" by (simp add: isCodeScenario_default)
  have h4: "\<not> runVerificationRequestedOf (Some (sampleOptions (Some False)))"
    by (simp add: runVerificationRequestedOf_def sampleOptions_def)
  have eq: "sampleOptions r = (sampleOptions None)\<lparr>opt_runVerification := r\<rparr>" for r
    by (simp add: sampleOptions_def)
  from verification_skipped_for_non_code [where scenario = "Some plainScenario"
      and world = sampleWorld and opts = "sampleOptions None" and requested = "Some True"
      and requested' = "Some False" and options = "Some (sampleOptions (Some True))"
      and session = s and tool = "\<lambda>_. Inl ''fetch failed''"]
    h1 run h2
  have a: "runDebate sampleWorld (Some plainScenario) (Some (sampleOptions (Some True)))
     = runDebate sampleWorld (Some plainScenario) (Some (sampleOptions (Some False)))"
    "runDebate (sampleWorld\<lparr>callMcpTool := (\<lambda>_. Inl ''fetch failed'')\<rparr>) (Some plainScenario)
       (Some (sampleOptions (Some True)))
     = runDebate sampleWorld (Some plainScenario) (Some (sampleOptions (Some True)))"
    "\<not> s_runVerification s" "s_evidenceLedger s = []"
    "s_daytonaOutput s = None" "s_adapter s = ''mock''"
    "list_all (\<lambda>w. \<not> verificationWarning w) (s_generationWarnings s)"
    by (simp_all add: eq [symmetric])
  from verification_skipped_for_non_code [where scenario = None
      and world = sampleWorld and opts = "sampleOptions None" and requested = None
      and requested' = None and options = "Some (sampleOptions (Some False))"
      and session = t]
    run' h3 h4
  have b: "s_runVerification t"
    "''Verification was auto-enabled for code-related scenarios.'' \<in> set (s_generationWarnings t)"
    by simp_all
  from h1 a run h2 run' h3 h4 b show ?thesis by blast
qed

text \<open>
  Claim C3 as it is written promises a warning when verification was requested for a
  scenario that is not code-related. In the sample world such a run skips verification
  and ends with an empty warning list.
\<close>

theorem no_override_warning_counterexample:
  "\<not> isCodeScenario plainScenario
   \<and> map_sum id s_runVerification
       (runDebate sampleWorld (Some plainScenario) (Some (sampleOptions (Some True))))
     = Inr False
   \<and> map_sum id s_generationWarnings
       (runDebate sampleWorld (Some plainScenario) (Some (sampleOptions (Some True))))
     = Inr []"
  by (simp add: runDebate_def Let_def stage_defs isCodeScenario_plain sample_eval
      sampleOptions_def finalSolutionStage_def finalResponseStage_def)

section \<open>The fatal condition\<close>


lemma collectProposals_all_fail:
  assumes "list_all (\<lambda>role. isl (generateAgentProposal world role sc w c)) proposalOrder"
  shows "fst (collectProposals world sc w c warnings) = []"
  using assms
  by (auto simp: collectProposals_def agents_def proposalStep_def proposalOrder_def isl_def)

lemma all_fail_run:
  assumes "allProposalsFail world scenario options"
  shows "runDebate world scenario options =
           (if llmEnabled world (providerOverrideOf options)
            then Inl ''LLM proposal generation failed for all agents.''
            else Inl ''LLM provider is not configured. Check GROQ_API_KEY/GROQ_MODEL or OLLAMA_URL/OLLAMA_MODEL.'')"
proof -
  have "fst (snd (proposalStage world (scenarioTextOf scenario) (weightsOf options)
          (isCodeScenario (scenarioTextOf scenario)) (runVerificationRequestedOf options))) = []"
    using assms
    by (simp add: proposalStage_def Let_def allProposalsFail_def collectProposals_all_fail)
  then show ?thesis
    by (cases "proposalStage world (scenarioTextOf scenario) (weightsOf options)
          (isCodeScenario (scenarioTextOf scenario)) (runVerificationRequestedOf options)")
       (simp add: runDebate_def Let_def)
qed

lemma handleRun_error:
  assumes "raw \<noteq> InvalidJson" and "runOfRequest world (parsedBody raw) = Inl message"
  shows "handleRun world file raw = (Error400 message, file)"
  using assms by (cases raw) (simp_all add: handleRun_def)

text \<open>
  Claim C5. If all four proposal calls of a run fail, \<open>runDebate\<close> raises an error and
  returns no session (hence no timeline, snapshot or evidence); when the provider is
  configured the error is the one of line 589. The handler answers such a request with an
  error and leaves the file of persisted sessions as it found it.
\<close>

theorem all_proposals_fail_is_fatal:
  "(allProposalsFail world scenario options \<longrightarrow>
      (\<exists>message. runDebate world scenario options = Inl message)
      \<and> (llmEnabled world (providerOverrideOf options) \<longrightarrow>
           runDebate world scenario options = Inl ''LLM proposal generation failed for all agents.''))
   \<and> (raw \<noteq> InvalidJson
       \<and> allProposalsFail (withLlmProvider (req_llmProvider (parsedBody raw)) world)
           (req_scenario (parsedBody raw)) (Some (requestOptions (parsedBody raw))) \<longrightarrow>
       (\<exists>message. handleRun world store raw = (Error400 message, store))
       \<and> serve store [(world, raw)] = store
       \<and> completedSessions [(world, raw)] = [])"
proof (intro conjI impI)
  assume a: "allProposalsFail world scenario options"
  from all_fail_run [OF a] show "\<exists>message. runDebate world scenario options = Inl message"
    by (cases "llmEnabled world (providerOverrideOf options)") simp_all
  assume "llmEnabled world (providerOverrideOf options)"
  with all_fail_run [OF a]
  show "runDebate world scenario options = Inl ''LLM proposal generation failed for all agents.''"
    by simp
next
  assume a: "raw \<noteq> InvalidJson
       \<and> allProposalsFail (withLlmProvider (req_llmProvider (parsedBody raw)) world)
           (req_scenario (parsedBody raw)) (Some (requestOptions (parsedBody raw)))"
  then have raw: "raw \<noteq> InvalidJson" by simp
  from a all_fail_run [of "withLlmProvider (req_llmProvider (parsedBody raw)) world"
      "req_scenario (parsedBody raw)" "Some (requestOptions (parsedBody raw))"]
  obtain message where m: "runOfRequest world (parsedBody raw) = Inl message"
    by (cases "llmEnabled (withLlmProvider (req_llmProvider (parsedBody raw)) world)
                 (providerOverrideOf (Some (requestOptions (parsedBody raw))))")
       (simp_all add: runOfRequest_def)
  have h: "handleRun world f raw = (Error400 message, f)" for f
    using raw m by (rule handleRun_error)
  from h show "\<exists>message. handleRun world store raw = (Error400 message, store)" by blast
  from h show "serve store [(world, raw)] = store" by simp
  from h [of NoFile] show "completedSessions [(world, raw)] = []" by simp
qed

theorem all_proposals_fail_is_fatal_witness:
  "allProposalsFail failingWorld None None
   \<and> runDebate failingWorld None None = Inl ''LLM proposal generation failed for all agents.''
   \<and> EmptyBody \<noteq> InvalidJson
   \<and> allProposalsFail (withLlmProvider (req_llmProvider (parsedBody EmptyBody)) failingWorld)
        (req_scenario (parsedBody EmptyBody)) (Some (requestOptions (parsedBody EmptyBody)))
   \<and> handleRun failingWorld (Stored []) EmptyBody
       = (Error400 ''LLM proposal generation failed for all agents.'', Stored [])
   \<and> serve (Stored []) [(failingWorld, EmptyBody)] = Stored []"
proof -
  have h1: "allProposalsFail failingWorld None None"
    by (simp add: allProposalsFail_def failingWorld_def sample_eval proposalOrder_def)
  have en: "llmEnabled failingWorld (providerOverrideOf None)"
    by (simp add: failingWorld_def sample_eval)
  have h2: "EmptyBody \<noteq> InvalidJson" by simp
  have h3: "allProposalsFail (withLlmProvider (req_llmProvider (parsedBody EmptyBody)) failingWorld)
        (req_scenario (parsedBody EmptyBody)) (Some (requestOptions (parsedBody EmptyBody)))"
    by (simp add: allProposalsFail_def failingWorld_def sample_eval proposalOrder_def
        parsedBody_def emptyRequest_def withLlmProvider_def)
  have run: "runOfRequest failingWorld (parsedBody EmptyBody)
             = Inl ''LLM proposal generation failed for all agents.''"
    using all_fail_run [OF h3]
    by (simp add: runOfRequest_def parsedBody_def emptyRequest_def withLlmProvider_def
        failingWorld_def sample_eval)
  have hr: "handleRun failingWorld (Stored []) EmptyBody
       = (Error400 ''LLM proposal generation failed for all agents.'', Stored [])"
    using run by (simp add: handleRun_def)
  from all_proposals_fail_is_fatal [where world = failingWorld and scenario = None
      and options = None and raw = EmptyBody and store = "Stored []"] h1 en h2 h3 hr
  show ?thesis by simp
qed

section \<open>Reliability of the verification result\<close>


lemma selectOutput_reliability:
  "reliability (selectOutput d p) = Some (if passed (selectOutput d p) then 0.9 else 0.75)"
  by (simp add: selectOutput_def Let_def)

lemma selectOutput_plan_b: "plan_id p = ''plan-b'' \<Longrightarrow> passed (selectOutput d p)"
  by (simp add: selectOutput_def outputs_def Let_def)

lemma buildEvidence_verification_entry:
  "\<exists>e \<in> set (buildEvidence baseTime v pid True warnings plans includePatch).
     ev_id e = ''evidence-verification'' \<and> ev_type e = Test
     \<and> ev_reliability e = effectiveReliability v"
  by (simp add: buildEvidence_def Let_def effectiveReliability_def)

text \<open>
  Claim C6, as amended. In every run in which verification executes, the session shows the
  output of one verification result. When the call of the verification tool returns with
  a status other than \<open>error\<close>, the result is built from the answer: it passes exactly for
  the status \<open>pass\<close> and carries the reliability that the tool reported. When the tool
  reports the status \<open>error\<close>, the result is the one of the local mock for the plan that
  the tool was asked about, and its reliability is 0.9 if the mock passed and 0.75 if it
  failed. When the call throws (timeout, unreachable endpoint), the result is the mock's
  for the second plan, \<open>plan-b\<close>, which passes with reliability 0.9. The belief update and
  the evidence entry of the verification read this reliability, with 0.9 (passed) and 0.75
  (failed) standing in for a missing one.
\<close>

theorem verification_reliability:
  assumes run: "runDebate world scenario options = Inr session"
    and executed: "s_runVerification session"
  shows "\<exists>verification warnings3 warnings4.
       verificationStage world (now world) (s_codeScenario session) (s_proposals session)
         (s_plans session) warnings3 = Inr (verification, warnings4)
     \<and> s_daytonaOutput session = Some (vr_output verification)
     \<and> (case callMcpTool world
               (verifyPlanArgs world (now world) (s_codeScenario session) (s_proposals session)
                  (s_plans session)) of
          Inl message \<Rightarrow>
            (\<exists>plan. elemAt (s_plans session) 1 = Some plan \<and> plan_id plan = ''plan-b''
                  \<and> verification = fallbackResult world plan)
            \<and> passed verification \<and> reliability verification = Some 0.9
        | Inr result \<Rightarrow>
            if status result = StatusError
            then (\<exists>plan. find (\<lambda>plan. plan_id plan
                             = arg_planId (verifyPlanArgs world (now world)
                                 (s_codeScenario session) (s_proposals session) (s_plans session)))
                           (s_plans session) = Some plan
                       \<and> verification = fallbackResult world plan)
                 \<and> reliability verification = Some (if passed verification then 0.9 else 0.75)
            else verification = toolResult result
                 \<and> passed verification = (status result = StatusPass)
                 \<and> reliability verification = mcp_reliability result)
     \<and> effectiveReliability verification =
         (case reliability verification of
            Some r \<Rightarrow> r | None \<Rightarrow> (if passed verification then 0.9 else 0.75))
     \<and> (\<exists>e \<in> set (s_evidenceLedger session).
           ev_id e = ''evidence-verification''
         \<and> ev_reliability e = effectiveReliability verification)"
proof -
  from runDebate_executed [OF run executed] obtain verification warnings3 warnings4 where
    plans: "s_plans session = plansFromProposals (s_proposals session)" and
    stage: "verificationStage world (now world) (s_codeScenario session) (s_proposals session)
       (s_plans session) warnings3 = Inr (verification, warnings4)" and
    out: "s_daytonaOutput session = Some (vr_output verification)" and
    ledger: "s_evidenceLedger session =
       buildEvidence (now world) verification (s_finalPlanId session) True
         (s_generationWarnings session) (s_plans session) True"
    by blast
  let ?args = "verifyPlanArgs world (now world) (s_codeScenario session) (s_proposals session)
                 (s_plans session)"
  have target: "arg_planId ?args
                = verificationTargetPlanId (s_proposals session) (s_plans session)"
    by (simp add: verifyPlanArgs_def)
  have rel: "(case callMcpTool world ?args of
          Inl message \<Rightarrow>
            (\<exists>plan. elemAt (s_plans session) 1 = Some plan \<and> plan_id plan = ''plan-b''
                  \<and> verification = fallbackResult world plan)
            \<and> passed verification \<and> reliability verification = Some 0.9
        | Inr result \<Rightarrow>
            if status result = StatusError
            then (\<exists>plan. find (\<lambda>plan. plan_id plan = arg_planId ?args) (s_plans session)
                           = Some plan
                       \<and> verification = fallbackResult world plan)
                 \<and> reliability verification = Some (if passed verification then 0.9 else 0.75)
            else verification = toolResult result
                 \<and> passed verification = (status result = StatusPass)
                 \<and> reliability verification = mcp_reliability result)"
  proof (cases "callMcpTool world ?args")
    case (Inl message)
    with verificationStage_answer [OF stage [unfolded plans]] obtain plan where
      p: "elemAt (s_plans session) 1 = Some plan" "plan_id plan = ''plan-b''"
         "verification = fallbackResult world plan"
      unfolding plans by auto
    from fallbackResult_plan_b [OF p(2), of world] fallbackResult_reliability [of world plan] p Inl
    show ?thesis by auto
  next
    case (Inr result)
    show ?thesis
    proof (cases "status result = StatusError")
      case True
      from Inr True verificationStage_answer [OF stage [unfolded plans]]
      have "\<exists>plan. find (\<lambda>plan. plan_id plan
                  = verificationTargetPlanId (s_proposals session)
                      (plansFromProposals (s_proposals session)))
               (plansFromProposals (s_proposals session)) = Some plan
             \<and> verification = fallbackResult world plan"
        unfolding plans by simp
      then obtain plan where
        p: "find (\<lambda>plan. plan_id plan = arg_planId ?args) (s_plans session) = Some plan"
           "verification = fallbackResult world plan"
        by (auto simp: verifyPlanArgs_def plans)
      from fallbackResult_reliability [of world plan] p Inr True show ?thesis by auto
    next
      case False
      with Inr verificationStage_answer [OF stage [unfolded plans]]
      have "verification = toolResult result" unfolding plans by simp
      with Inr False show ?thesis by (simp add: toolResult_def)
    qed
  qed
  have entry: "\<exists>e \<in> set (s_evidenceLedger session).
           ev_id e = ''evidence-verification''
         \<and> ev_reliability e = effectiveReliability verification"
    unfolding ledger using buildEvidence_verification_entry by blast
  have eff: "effectiveReliability verification =
         (case reliability verification of
            Some r \<Rightarrow> r | None \<Rightarrow> (if passed verification then 0.9 else 0.75))"
    by (simp add: effectiveReliability_def)
  from stage out rel eff entry show ?thesis by blast
qed

lemma find_plan_a:
  "find (\<lambda>plan. plan_id plan = ''plan-a'') (plansFromProposals ps)
   = Some (plansFromProposals ps ! 0)"
proof -
  have "map plan_id (plansFromProposals ps) = [''plan-a'', ''plan-b'', ''plan-c'', ''plan-d'']"
    by (rule plan_ids)
  then obtain p rest where "plansFromProposals ps = p # rest" "plan_id p = ''plan-a''"
    by (cases "plansFromProposals ps") auto
  then show ?thesis by simp
qed

lemma first_plan_id: "plan_id (plansFromProposals ps ! 0) = ''plan-a''"
  using arg_cong [OF plan_ids [of ps], of "\<lambda>ids. ids ! 0"] by simp

lemma unreachable_run: "\<exists>s. runDebate unreachableWorld None None = Inr s"
  by (simp add: runDebate_def Let_def stage_defs isCodeScenario_default unreachableWorld_def
      sample_eval elemAt_def)

lemma errorStatus_run: "\<exists>s. runDebate errorStatusWorld None None = Inr s"
  by (simp add: runDebate_def Let_def stage_defs isCodeScenario_default errorStatusWorld_def
      sample_eval elemAt_def verificationTargetPlanId_def rankedProposals_def proposalPlanMap_def
      plansFromProposals_def char_of_letters)

theorem verification_reliability_witness:
  "(\<exists>s e. runDebate unreachableWorld None None = Inr s \<and> s_runVerification s
      \<and> s_daytonaOutput s = Some (vr_output (selectOutput 3500 (s_plans s ! 1)))
      \<and> e \<in> set (s_evidenceLedger s) \<and> ev_id e = ''evidence-verification''
      \<and> ev_reliability e = 0.9)
   \<and> (\<exists>s e. runDebate errorStatusWorld None None = Inr s \<and> s_runVerification s
      \<and> s_daytonaOutput s = Some (vr_output (selectOutput 3500 (s_plans s ! 0)))
      \<and> e \<in> set (s_evidenceLedger s) \<and> ev_id e = ''evidence-verification''
      \<and> ev_reliability e = 0.75)"
proof -
  from unreachable_run obtain s where run: "runDebate unreachableWorld None None = Inr s"
    by blast
  from runDebate_session [OF run] have rv: "s_runVerification s"
    by (simp add: scenarioTextOf_def isCodeScenario_default)
  have call: "callMcpTool unreachableWorld a = Inl ''fetch failed''" for a
    by (simp add: unreachableWorld_def sample_eval)
  have d: "mockDurationMs unreachableWorld = 3500"
    by (simp add: unreachableWorld_def sample_eval)
  from verification_reliability [OF run rv] obtain verification plan e where
    "elemAt (s_plans s) 1 = Some plan" "verification = fallbackResult unreachableWorld plan"
    "reliability verification = Some 0.9" "s_daytonaOutput s = Some (vr_output verification)"
    "e \<in> set (s_evidenceLedger s)"
    "ev_id e = ''evidence-verification''" "ev_reliability e = effectiveReliability verification"
    by (auto simp: call)
  then have first: "s_daytonaOutput s = Some (vr_output (selectOutput 3500 (s_plans s ! 1)))
     \<and> e \<in> set (s_evidenceLedger s) \<and> ev_id e = ''evidence-verification''
     \<and> ev_reliability e = 0.9"
    by (auto simp: effectiveReliability_def elemAt_def fallbackResult_def d split: if_splits)
  from errorStatus_run obtain t where run': "runDebate errorStatusWorld None None = Inr t"
    by blast
  from runDebate_session [OF run'] have rv': "s_runVerification t"
    and plans: "s_plans t = plansFromProposals (s_proposals t)"
    by (simp_all add: scenarioTextOf_def isCodeScenario_default)
  from runDebate_Inr [OF run'] have props: "s_proposals t = sampleProposals"
    by (auto simp: stage_defs errorStatusWorld_def sample_eval sampleProposals_def)
  have call': "callMcpTool errorStatusWorld a
               = Inr (sampleMcpResult\<lparr>status := StatusError, mcp_reliability := Some 0.2\<rparr>)" for a
    by (simp add: errorStatusWorld_def sample_eval)
  have d': "mockDurationMs errorStatusWorld = 3500"
    by (simp add: errorStatusWorld_def sample_eval)
  have target: "find (\<lambda>plan. plan_id plan
                   = arg_planId (verifyPlanArgs errorStatusWorld (now errorStatusWorld)
                       (s_codeScenario t) (s_proposals t) (s_plans t))) (s_plans t)
                = Some (s_plans t ! 0)"
    unfolding plans props
    by (simp add: verifyPlanArgs_def sample_target find_plan_a)
  have failed: "\<not> passed (fallbackResult errorStatusWorld (s_plans t ! 0))"
    unfolding plans props
    by (simp add: fallbackResult_def selectOutput_def outputs_def first_plan_id)
  from verification_reliability [OF run' rv'] obtain verification e where
    "verification = fallbackResult errorStatusWorld (s_plans t ! 0)"
    "reliability verification = Some (if passed verification then 0.9 else 0.75)"
    "s_daytonaOutput t = Some (vr_output verification)"
    "e \<in> set (s_evidenceLedger t)"
    "ev_id e = ''evidence-verification''" "ev_reliability e = effectiveReliability verification"
    by (auto simp: call' target)
  with failed have second: "s_daytonaOutput t = Some (vr_output (selectOutput 3500 (s_plans t ! 0)))
     \<and> e \<in> set (s_evidenceLedger t) \<and> ev_id e = ''evidence-verification''
     \<and> ev_reliability e = 0.75"
    by (auto simp: effectiveReliability_def fallbackResult_def d')
  from run rv first run' rv' second show ?thesis by blast
qed

text \<open>
  Claim C6 as it is written attaches 0.2 on every fallback path. With an unreachable
  endpoint the result passes with reliability 0.9; with an error status from the tool
  (which itself reports 0.2) the result is the mock's for \<open>plan-a\<close>, failed with 0.75.
\<close>

theorem fallback_reliability_counterexample:
  "map_sum id (\<lambda>p. (passed (fst p), reliability (fst p), warning (fst p)))
     (verificationStage unreachableWorld 0 True sampleProposals
        (plansFromProposals sampleProposals) [])
   = Inr (True, Some 0.9, Some ''MCP verification failed; fell back to mock.'')
   \<and> map_sum id (\<lambda>p. (passed (fst p), reliability (fst p), warning (fst p)))
     (verificationStage errorStatusWorld 0 True sampleProposals
        (plansFromProposals sampleProposals) [])
   = Inr (False, Some 0.75, Some ''MCP verification failed; fell back to mock.'')"
  by (simp add: verificationStage_def verificationCatch_def verifyPlanArgs_def Let_def
      unreachableWorld_def errorStatusWorld_def sample_eval sampleProposals_def elemAt_def
      plansFromProposals_def char_of_letters verificationTargetPlanId_def rankedProposals_def
      proposalPlanMap_def selectOutput_def outputs_def)

section \<open>Evaluation without local bindings\<close>

text \<open>
  The definitions with their \<open>let\<close> bindings substituted, for the evaluation of concrete
  runs by rewriting.
\<close>


lemma reviseFromAgent_single:
  "reviseFromAgent previous a [(pid, p, r)] baseTime offset w =
     dampAndNormalize (map (\<lambda>entry. entry\<lparr>timestamp := toTimestamp baseTime offset\<rparr>)
       (applyWeightedUpdate previous
          \<lparr>upd_planId = pid, upd_probability = p, upd_updatedBy = a, upd_rationale = r\<rparr>
          (toTimestamp baseTime offset) w))"
  by (simp add: reviseFromAgent_def Let_def)

lemma dampAndNormalize_unfold:
  "dampAndNormalize es =
     map (\<lambda>entry. entry\<lparr>probability := (1 - DAMPING_FACTOR) * probability entry
                                        + DAMPING_FACTOR * (1 / real (length es))\<rparr>)
       (normalizeEntries es)"
  by (simp add: dampAndNormalize_def Let_def)

lemma normalizeEntries_unfold:
  "normalizeEntries es =
     (if total_probability es = 0
      then map (\<lambda>entry. entry\<lparr>probability := 1 / real (length es)\<rparr>) es
      else map (\<lambda>entry. entry\<lparr>probability := probability entry / total_probability es\<rparr>) es)"
  by (simp add: normalizeEntries_def foldl_probability Let_def)

lemma applyWeightedUpdate_unfold:
  "applyWeightedUpdate previous update ts weight =
     map (\<lambda>entry. if planId entry \<noteq> upd_planId update then entry
                   else entry\<lparr>probability := clampUnit (probability entry * (1 - weight)
                                                  + upd_probability update * weight),
                              updatedBy := upd_updatedBy update,
                              rationale := upd_rationale update, timestamp := ts\<rparr>) previous"
  by (simp add: applyWeightedUpdate_def Let_def)

lemma agentRevisionStep_unfold:
  "agentRevisionStep baseTime weights proposals (current, probabilities) (index, role) =
     (case find (\<lambda>item. agent item = role) proposals of
        None \<Rightarrow> (current, probabilities)
      | Some p \<Rightarrow>
          (reviseFromAgent current role
             [(case proposalPlanMap role of Some i \<Rightarrow> i | None \<Rightarrow> ''plan-a'', confidence p,
               case prop_rationale p of r # _ \<Rightarrow> r | [] \<Rightarrow> ''Agent proposal applied.'')]
             baseTime (2 + int index * 2) (weights role),
           probabilities @ [recordSnapshot (toTimestamp baseTime (2 + int index * 2))
              (roleName role @ '' proposal applied.'')
              (reviseFromAgent current role
                 [(case proposalPlanMap role of Some i \<Rightarrow> i | None \<Rightarrow> ''plan-a'', confidence p,
                   case prop_rationale p of r # _ \<Rightarrow> r | [] \<Rightarrow> ''Agent proposal applied.'')]
                 baseTime (2 + int index * 2) (weights role))]))"
  by (simp add: agentRevisionStep_def Let_def split: option.splits)

lemma agentRevisions_unfold:
  "agentRevisions baseTime weights proposals plans =
     (if length proposals > 0
      then foldl (agentRevisionStep baseTime weights proposals)
             (dampAndNormalize (initialProbabilitiesForPlans baseTime plans),
              [recordSnapshot (toTimestamp baseTime 1) ''Initial priors.''
                 (dampAndNormalize (initialProbabilitiesForPlans baseTime plans))])
             (enumerate 0 proposalOrder)
      else (dampAndNormalize (initialProbabilitiesForPlans baseTime plans),
            [recordSnapshot (toTimestamp baseTime 1) ''Initial priors.''
               (dampAndNormalize (initialProbabilitiesForPlans baseTime plans))]))"
  by (simp add: agentRevisions_def Let_def)

lemma initialProbabilitiesForPlans_unfold:
  "initialProbabilitiesForPlans baseTime plans =
      map (\<lambda>plan. \<lparr>planId = plan_id plan, probability = 0.25, updatedBy = Planner,
                    rationale = ''Initial prior assigned by Planner.'',
                    timestamp = toTimestamp baseTime 1\<rparr>) plans"
  by (simp add: initialProbabilitiesForPlans_def Let_def)

lemma plansFromProposals_unfold:
  "plansFromProposals proposals =
     map (\<lambda>(index, role).
            \<lparr>plan_id = ''plan-'' @ [char_of (97 + index)],
             plan_title = (case find (\<lambda>item. agent item = role) proposals of
                             Some p \<Rightarrow> roleName role @ '' proposal''
                           | None \<Rightarrow> ''Plan '' @ digitsOf (index + 1)),
             plan_summary = (case find (\<lambda>item. agent item = role) proposals of
                               Some p \<Rightarrow> proposal p | None \<Rightarrow> ''No proposal available.''),
             plan_steps = (case find (\<lambda>item. agent item = role) proposals of
                             Some p \<Rightarrow> if length (prop_rationale p) \<noteq> 0 then prop_rationale p
                                       else [''Gather details'', ''Draft approach'', ''Validate outcome'']
                           | None \<Rightarrow> [''Gather details'', ''Draft approach'', ''Validate outcome'']),
             plan_risks = [''Requires validation against real-world constraints.'']\<rparr>)
         (enumerate 0 [Planner, Skeptic, Security, Cost])"
  by (simp add: plansFromProposals_def Let_def)

lemmas belief_unfold =
  agentRevisions_unfold agentRevisionStep_unfold reviseFromAgent_single dampAndNormalize_unfold
  normalizeEntries_unfold applyWeightedUpdate_unfold initialProbabilitiesForPlans_unfold
  plansFromProposals_unfold total_probability_def proposalOrder_def recordSnapshot_def
  char_of_letters pickFinalPlanId_def resolveWeights_def defaultWeights_def clampWeight_def
  clampUnit_def DAMPING_FACTOR_def toTimestamp_def proposalPlanMap_def roleName_def

lemma sample_leader:
  "pickFinalPlanId (fst (agentRevisions 0 (weightsOf None) sampleProposals
                           (plansFromProposals sampleProposals))) = ''plan-d''"
  by (simp add: belief_unfold weightsOf_def sampleProposals_def)

section \<open>The plan that is verified\<close>


lemma proposalStep_agents:
  assumes "list_all (\<lambda>p. agent p \<noteq> Synthesizer) (fst state)"
  shows "list_all (\<lambda>p. agent p \<noteq> Synthesizer) (fst (proposalStep world sc w c state role))"
  using assms by (cases state) (simp add: proposalStep_def split: sum.splits)

lemma proposalStep_fold_agents:
  assumes "list_all (\<lambda>p. agent p \<noteq> Synthesizer) (fst state)"
  shows "list_all (\<lambda>p. agent p \<noteq> Synthesizer)
           (fst (foldl (proposalStep world sc w c) state roles))"
  using assms
proof (induction roles arbitrary: state)
  case Nil
  then show ?case by simp
next
  case (Cons r roles)
  from Cons.IH [OF proposalStep_agents [OF Cons.prems]] show ?case by simp
qed

lemma collectProposals_agents:
  "list_all (\<lambda>p. agent p \<noteq> Synthesizer) (fst (collectProposals world sc w c warnings))"
  unfolding collectProposals_def by (rule proposalStep_fold_agents) simp

lemma runDebate_proposal_agents:
  assumes "runDebate world scenario options = Inr session"
  shows "list_all (\<lambda>p. agent p \<noteq> Synthesizer) (s_proposals session)"
proof -
  from runDebate_Inr [OF assms] obtain promptCategory proposals warnings3 verification warnings4
    where ps: "proposalStage world (scenarioTextOf scenario) (weightsOf options)
          (isCodeScenario (scenarioTextOf scenario)) (runVerificationRequestedOf options)
         = (promptCategory, proposals, warnings3)"
      and session: "session = assembleSession world (now world) (weightsOf options)
          (scenarioTextOf scenario) (isCodeScenario (scenarioTextOf scenario))
          (isCodeScenario (scenarioTextOf scenario)) promptCategory proposals
          (plansFromProposals proposals) verification warnings4"
    by blast
  from ps have "\<exists>ws. proposals = fst (collectProposals world (scenarioTextOf scenario)
      (weightsOf options) (fst (classifyStage world (scenarioTextOf scenario) [])) ws)"
    by (auto simp: proposalStage_def Let_def intro: exI eq_fst_iff [THEN iffD2])
  with collectProposals_agents show ?thesis unfolding session by auto
qed

lemma proposalPlanMap_defined:
  "agent p \<noteq> Synthesizer \<Longrightarrow>
     proposalPlanMap (agent p)
     = Some (case proposalPlanMap (agent p) of Some pid \<Rightarrow> pid | None \<Rightarrow> ''plan-a'')"
  by (cases "agent p") (simp_all add: proposalPlanMap_def)

lemma verificationStage_reads_one_answer:
  assumes "f (verifyPlanArgs world baseTime cs proposals plans)
           = callMcpTool world (verifyPlanArgs world baseTime cs proposals plans)"
  shows "verificationStage (world\<lparr>callMcpTool := f\<rparr>) baseTime cs proposals plans warnings
         = verificationStage world baseTime cs proposals plans warnings"
proof -
  have args: "verifyPlanArgs (world\<lparr>callMcpTool := f\<rparr>) baseTime cs proposals plans
              = verifyPlanArgs world baseTime cs proposals plans"
    by (simp add: verifyPlanArgs_def verificationMode_def)
  have catch: "verificationCatch (world\<lparr>callMcpTool := f\<rparr>) plans ws m
               = verificationCatch world plans ws m" for ws m
    by (simp add: verificationCatch_def Let_def split: option.splits)
  show ?thesis
    unfolding verificationStage_def args catch using assms
    by (auto simp: Let_def split: sum.splits option.splits)
qed

lemma verification_snapshot:
  "snd (beliefRevision baseTime weights proposals plans True v)
   = snd (agentRevisions baseTime weights proposals plans)
     @ [recordSnapshot (toTimestamp baseTime 16) ''Verification results applied.''
          (evaluateVerification (fst (agentRevisions baseTime weights proposals plans)) v
             (pickFinalPlanId (fst (agentRevisions baseTime weights proposals plans)))
             baseTime (weights Synthesizer))]"
  by (simp add: beliefRevision_def Let_def)

lemma sample_proposals_of_run:
  "fst (snd (proposalStage sampleWorld (scenarioTextOf None) (weightsOf None)
               (isCodeScenario (scenarioTextOf None)) (runVerificationRequestedOf None)))
   = sampleProposals"
  by (simp add: stage_defs sample_eval sampleProposals_def)

text \<open>
  Claim C9. In every run in which verification executes, the plan id sent to the
  verification tool is the plan of the first proposal of highest confidence, in the
  order in which the proposals were collected: the result of the verification is built
  from the answer that the tool gives to the request with this plan id, and the session
  shows the logs of this answer; the verification asks the tool for nothing but its
  answer to this one request. The weighted update of the result targets the first plan
  of highest probability after the revisions of the roles. In some runs the two plans
  differ: in the sample world the tool is asked about \<open>plan-a\<close> and the update targets
  \<open>plan-d\<close>.
\<close>

theorem verification_target_is_most_confident:
  "(runDebate world scenario options = Inr session \<and> s_runVerification session \<longrightarrow>
      (\<exists>verification warnings3 warnings4 i.
          verificationStage world (now world) (s_codeScenario session) (s_proposals session)
            (s_plans session) warnings3 = Inr (verification, warnings4)
        \<and> i < length (s_proposals session)
        \<and> proposalPlanMap (agent (s_proposals session ! i))
            = Some (arg_planId (verifyPlanArgs world (now world) (s_codeScenario session)
                                  (s_proposals session) (s_plans session)))
        \<and> (\<forall>j < length (s_proposals session).
              confidence (s_proposals session ! j) \<le> confidence (s_proposals session ! i))
        \<and> (\<forall>j < i. confidence (s_proposals session ! j) < confidence (s_proposals session ! i))
        \<and> s_probabilities session
            = snd (agentRevisions (now world) (s_weights session) (s_proposals session)
                     (s_plans session))
              @ [recordSnapshot (toTimestamp (now world) 16) ''Verification results applied.''
                   (evaluateVerification
                      (fst (agentRevisions (now world) (s_weights session) (s_proposals session)
                              (s_plans session)))
                      verification
                      (pickFinalPlanId
                         (fst (agentRevisions (now world) (s_weights session)
                                 (s_proposals session) (s_plans session))))
                      (now world) (s_weights session Synthesizer))]
        \<and> (\<forall>result.
              callMcpTool world
                (verifyPlanArgs world (now world) (s_codeScenario session) (s_proposals session)
                   (s_plans session)) = Inr result
              \<and> status result \<noteq> StatusError \<longrightarrow>
              verification = toolResult result
              \<and> s_daytonaOutput session = Some (joinWith ''\<newline>'' (logs result))
              \<and> s_adapter session = ''mcp'')))
   \<and> (f (verifyPlanArgs world baseTime codeScenario proposals plans)
        = callMcpTool world (verifyPlanArgs world baseTime codeScenario proposals plans) \<longrightarrow>
      verificationStage (world\<lparr>callMcpTool := f\<rparr>) baseTime codeScenario proposals plans warnings
      = verificationStage world baseTime codeScenario proposals plans warnings)
   \<and> (\<exists>world' scenario' options' session'.
         runDebate world' scenario' options' = Inr session' \<and> s_runVerification session'
       \<and> arg_planId (verifyPlanArgs world' (now world') (s_codeScenario session')
                        (s_proposals session') (s_plans session'))
         \<noteq> pickFinalPlanId
             (fst (agentRevisions (now world') (s_weights session') (s_proposals session')
                     (s_plans session'))))"
proof (intro conjI impI)
  assume a: "runDebate world scenario options = Inr session \<and> s_runVerification session"
  then have run: "runDebate world scenario options = Inr session"
    and executed: "s_runVerification session" by simp_all
  from runDebate_session [OF run] have ne: "s_proposals session \<noteq> []" by blast
  from runDebate_executed [OF run executed] obtain verification warnings3 warnings4 where
    plans: "s_plans session = plansFromProposals (s_proposals session)" and
    stage: "verificationStage world (now world) (s_codeScenario session) (s_proposals session)
       (s_plans session) warnings3 = Inr (verification, warnings4)" and
    out: "s_daytonaOutput session = Some (vr_output verification)" and
    adapter: "s_adapter session
              = (case adapterName verification of Some n \<Rightarrow> n | None \<Rightarrow> mockAdapter_name)" and
    probs: "s_probabilities session =
       snd (beliefRevision (now world) (s_weights session) (s_proposals session)
              (s_plans session) True verification)"
    by blast
  have answer: "\<forall>result.
              callMcpTool world
                (verifyPlanArgs world (now world) (s_codeScenario session) (s_proposals session)
                   (s_plans session)) = Inr result
              \<and> status result \<noteq> StatusError \<longrightarrow>
              verification = toolResult result
              \<and> s_daytonaOutput session = Some (joinWith ''\<newline>'' (logs result))
              \<and> s_adapter session = ''mcp''"
  proof (intro allI impI)
    fix result
    assume r: "callMcpTool world
                (verifyPlanArgs world (now world) (s_codeScenario session) (s_proposals session)
                   (s_plans session)) = Inr result
              \<and> status result \<noteq> StatusError"
    with verificationStage_answer [OF stage [unfolded plans]]
    have "verification = toolResult result" unfolding plans by simp
    with out adapter
    show "verification = toolResult result
              \<and> s_daytonaOutput session = Some (joinWith ''\<newline>'' (logs result))
              \<and> s_adapter session = ''mcp''"
      by (simp add: toolResult_def)
  qed
  from verificationTargetPlanId_leader [OF ne, of "s_plans session"] obtain i where
    i: "i < length (s_proposals session)"
       "verificationTargetPlanId (s_proposals session) (s_plans session) =
          (case proposalPlanMap (agent (s_proposals session ! i)) of
             Some pid \<Rightarrow> pid | None \<Rightarrow> ''plan-a'')"
       "\<forall>j < length (s_proposals session).
           confidence (s_proposals session ! j) \<le> confidence (s_proposals session ! i)"
       "\<forall>j < i. confidence (s_proposals session ! j) < confidence (s_proposals session ! i)"
    by blast
  from runDebate_proposal_agents [OF run] i(1)
  have "agent (s_proposals session ! i) \<noteq> Synthesizer"
    by (simp add: list_all_length)
  from proposalPlanMap_defined [OF this] i(2)
  have plan: "proposalPlanMap (agent (s_proposals session ! i))
            = Some (arg_planId (verifyPlanArgs world (now world) (s_codeScenario session)
                                  (s_proposals session) (s_plans session)))"
    by (simp add: verifyPlanArgs_def)
  have snaps: "s_probabilities session
            = snd (agentRevisions (now world) (s_weights session) (s_proposals session)
                     (s_plans session))
              @ [recordSnapshot (toTimestamp (now world) 16) ''Verification results applied.''
                   (evaluateVerification
                      (fst (agentRevisions (now world) (s_weights session) (s_proposals session)
                              (s_plans session)))
                      verification
                      (pickFinalPlanId
                         (fst (agentRevisions (now world) (s_weights session)
                                 (s_proposals session) (s_plans session))))
                      (now world) (s_weights session Synthesizer))]"
    using probs by (simp add: verification_snapshot)
  from stage i(1) plan i(3,4) snaps answer
  show "\<exists>verification warnings3 warnings4 i.
          verificationStage world (now world) (s_codeScenario session) (s_proposals session)
            (s_plans session) warnings3 = Inr (verification, warnings4)
        \<and> i < length (s_proposals session)
        \<and> proposalPlanMap (agent (s_proposals session ! i))
            = Some (arg_planId (verifyPlanArgs world (now world) (s_codeScenario session)
                                  (s_proposals session) (s_plans session)))
        \<and> (\<forall>j < length (s_proposals session).
              confidence (s_proposals session ! j) \<le> confidence (s_proposals session ! i))
        \<and> (\<forall>j < i. confidence (s_proposals session ! j) < confidence (s_proposals session ! i))
        \<and> s_probabilities session
            = snd (agentRevisions (now world) (s_weights session) (s_proposals session)
                     (s_plans session))
              @ [recordSnapshot (toTimestamp (now world) 16) ''Verification results applied.''
                   (evaluateVerification
                      (fst (agentRevisions (now world) (s_weights session) (s_proposals session)
                              (s_plans session)))
                      verification
                      (pickFinalPlanId
                         (fst (agentRevisions (now world) (s_weights session)
                                 (s_proposals session) (s_plans session))))
                      (now world) (s_weights session Synthesizer))]
        \<and> (\<forall>result.
              callMcpTool world
                (verifyPlanArgs world (now world) (s_codeScenario session) (s_proposals session)
                   (s_plans session)) = Inr result
              \<and> status result \<noteq> StatusError \<longrightarrow>
              verification = toolResult result
              \<and> s_daytonaOutput session = Some (joinWith ''\<newline>'' (logs result))
              \<and> s_adapter session = ''mcp'')"
    by blast
next
  assume "f (verifyPlanArgs world baseTime codeScenario proposals plans)
        = callMcpTool world (verifyPlanArgs world baseTime codeScenario proposals plans)"
  then show "verificationStage (world\<lparr>callMcpTool := f\<rparr>) baseTime codeScenario proposals plans
        warnings = verificationStage world baseTime codeScenario proposals plans warnings"
    by (rule verificationStage_reads_one_answer)
next
  from sample_run obtain s where run: "runDebate sampleWorld None None = Inr s" by blast
  from runDebate_Inr [OF run] sample_proposals_of_run
  obtain promptCategory warnings3 verification warnings4 where
    session: "s = assembleSession sampleWorld (now sampleWorld) (weightsOf None)
          (scenarioTextOf None) (isCodeScenario (scenarioTextOf None))
          (isCodeScenario (scenarioTextOf None)) promptCategory sampleProposals
          (plansFromProposals sampleProposals) verification warnings4"
    by auto
  have now: "now sampleWorld = 0" by (simp add: sample_eval)
  have rv: "s_runVerification s"
    unfolding session by (simp add: scenarioTextOf_def isCodeScenario_default)
  have target: "arg_planId (verifyPlanArgs sampleWorld (now sampleWorld) (s_codeScenario s)
                        (s_proposals s) (s_plans s)) = ''plan-a''"
    unfolding session by (simp add: verifyPlanArgs_def sample_target)
  have leader: "pickFinalPlanId
             (fst (agentRevisions (now sampleWorld) (s_weights s) (s_proposals s) (s_plans s)))
         = ''plan-d''"
    unfolding session now by (simp add: sample_leader)
  from run rv target leader
  show "\<exists>world' scenario' options' session'.
         runDebate world' scenario' options' = Inr session' \<and> s_runVerification session'
       \<and> arg_planId (verifyPlanArgs world' (now world') (s_codeScenario session')
                        (s_proposals session') (s_plans session'))
         \<noteq> pickFinalPlanId
             (fst (agentRevisions (now world') (s_weights session') (s_proposals session')
                     (s_plans session')))"
    by (intro exI [of _ sampleWorld] exI [of _ None] exI [of _ s]) simp
qed


lemma echo_run: "\<exists>s. runDebate echoWorld None None = Inr s"
  by (simp add: runDebate_def Let_def stage_defs isCodeScenario_default echoWorld_def
      sample_eval)

lemma echo_proposals:
  assumes "runDebate echoWorld None None = Inr s"
  shows "s_proposals s = sampleProposals"
  using runDebate_Inr [OF assms]
  by (auto simp: stage_defs echoWorld_def sample_eval sampleProposals_def)

theorem verification_target_is_most_confident_witness:
  "\<exists>s. runDebate echoWorld None None = Inr s \<and> s_runVerification s
     \<and> proposalPlanMap (agent (s_proposals s ! 0)) = Some ''plan-a''
     \<and> callMcpTool echoWorld
           (verifyPlanArgs echoWorld (now echoWorld) (s_codeScenario s) (s_proposals s) (s_plans s))
         = Inr (sampleMcpResult\<lparr>logs := [''plan-a'']\<rparr>)
     \<and> status (sampleMcpResult\<lparr>logs := [''plan-a'']\<rparr>) \<noteq> StatusError
     \<and> s_daytonaOutput s = Some ''plan-a''
     \<and> s_adapter s = ''mcp''
     \<and> pickFinalPlanId (fst (agentRevisions (now echoWorld) (s_weights s) (s_proposals s)
                                (s_plans s))) = ''plan-d''
     \<and> verificationStage (echoWorld\<lparr>callMcpTool := (\<lambda>a. if arg_planId a = ''plan-a''
                               then Inr (sampleMcpResult\<lparr>logs := [''plan-a'']\<rparr>)
                               else Inl ''unused'')\<rparr>)
          0 True sampleProposals [] []
        = verificationStage echoWorld 0 True sampleProposals [] []"
proof -
  from echo_run obtain s where run: "runDebate echoWorld None None = Inr s" by blast
  from runDebate_session [OF run] have rv: "s_runVerification s"
    and plans: "s_plans s = plansFromProposals (s_proposals s)"
    and weights: "s_weights s = weightsOf None"
    by (simp_all add: scenarioTextOf_def isCodeScenario_default)
  have props: "s_proposals s = sampleProposals" using run by (rule echo_proposals)
  have now: "now echoWorld = 0" by (simp add: echoWorld_def sample_eval)
  have first: "proposalPlanMap (agent (s_proposals s ! 0)) = Some ''plan-a''"
    unfolding props by (simp add: sampleProposals_def proposalPlanMap_def)
  have call: "callMcpTool echoWorld
           (verifyPlanArgs echoWorld (now echoWorld) (s_codeScenario s) (s_proposals s) (s_plans s))
         = Inr (sampleMcpResult\<lparr>logs := [''plan-a'']\<rparr>)"
    unfolding props by (simp add: echoWorld_def sample_eval verifyPlanArgs_def sample_target)
  have ok: "status (sampleMcpResult\<lparr>logs := [''plan-a'']\<rparr>) \<noteq> StatusError"
    by (simp add: sample_eval)
  have leader: "pickFinalPlanId (fst (agentRevisions (now echoWorld) (s_weights s) (s_proposals s)
                                (s_plans s))) = ''plan-d''"
    unfolding props plans weights now by (rule sample_leader)
  have hyp: "(\<lambda>a. if arg_planId a = ''plan-a''
                  then Inr (sampleMcpResult\<lparr>logs := [''plan-a'']\<rparr>) else Inl ''unused'')
               (verifyPlanArgs echoWorld 0 True sampleProposals [])
             = callMcpTool echoWorld (verifyPlanArgs echoWorld 0 True sampleProposals [])"
    by (simp add: verifyPlanArgs_def sample_target echoWorld_def sample_eval)
  from verification_target_is_most_confident [where world = echoWorld and scenario = None
      and options = None and session = s and baseTime = 0 and codeScenario = True
      and proposals = sampleProposals and plans = "[]" and warnings = "[]"
      and f = "\<lambda>a. if arg_planId a = ''plan-a''
                  then Inr (sampleMcpResult\<lparr>logs := [''plan-a'']\<rparr>) else Inl ''unused''"]
    run rv hyp call ok
  have "s_daytonaOutput s = Some ''plan-a''" "s_adapter s = ''mcp''"
    "verificationStage (echoWorld\<lparr>callMcpTool := (\<lambda>a. if arg_planId a = ''plan-a''
                               then Inr (sampleMcpResult\<lparr>logs := [''plan-a'']\<rparr>)
                               else Inl ''unused'')\<rparr>)
          0 True sampleProposals [] []
        = verificationStage echoWorld 0 True sampleProposals [] []"
    by (auto simp: sample_eval)
  with run rv first call ok leader show ?thesis by blast
qed

section \<open>The persisted session list\<close>


lemma storedSessions_Stored [simp]: "storedSessions (Stored l) = l"
  by (simp add: storedSessions_def readSessions_def ensureDataFile_def)

lemma handleRun_response:
  "fst (handleRun world store raw) = fst (handleRun world store' raw)"
  by (cases raw)
     (simp_all add: handleRun_def split: sum.splits prod.splits)

lemma handleRun_completed:
  assumes "fst (handleRun world store raw) = Json200 session"
  shows "snd (handleRun world store raw)
         = Stored (take 25 (trimSession session # storedSessions store))"
  using assms
  by (cases raw)
     (auto simp: handleRun_def storedSessions_def writeSessions_def
        split: sum.splits prod.splits)

lemma handleRun_failed:
  assumes "fst (handleRun world store raw) = Error400 message"
  shows "snd (handleRun world store raw) = store"
  using assms
  by (cases raw) (auto simp: handleRun_def split: sum.splits prod.splits)

lemma serve_without_completed:
  "completedSessions requests = [] \<Longrightarrow> serve store requests = store"
proof (induction requests arbitrary: store)
  case Nil
  then show ?case by simp
next
  case (Cons request requests)
  obtain world raw where r: "request = (world, raw)" by (cases request)
  from Cons.prems r obtain message where
    m: "fst (handleRun world NoFile raw) = Error400 message" and
    rest: "completedSessions requests = []"
    by (cases "fst (handleRun world NoFile raw)") simp_all
  from m handleRun_response [of world store raw NoFile]
  have "fst (handleRun world store raw) = Error400 message" by simp
  from handleRun_failed [OF this] Cons.IH [OF rest] r show ?case by simp
qed

lemma take_append_take: "take n (xs @ take n ys) = take n (xs @ ys)"
  by (induction xs arbitrary: n) (simp_all add: take_Cons split: nat.splits)

lemma serve_completed:
  "completedSessions requests \<noteq> [] \<Longrightarrow>
     serve store requests
     = Stored (take 25 (map trimSession (rev (completedSessions requests)) @ storedSessions store))"
proof (induction requests arbitrary: store)
  case Nil
  then show ?case by simp
next
  case (Cons request requests)
  obtain world raw where r: "request = (world, raw)" by (cases request)
  show ?case
  proof (cases "fst (handleRun world NoFile raw)")
    case (Error400 message)
    with handleRun_response [of world store raw NoFile]
    have "fst (handleRun world store raw) = Error400 message" by simp
    from handleRun_failed [OF this] have same: "snd (handleRun world store raw) = store" .
    from Error400 Cons.prems r have "completedSessions requests \<noteq> []" by simp
    from Cons.IH [OF this, of store] Error400 same r show ?thesis by simp
  next
    case (Json200 session)
    with handleRun_response [of world store raw NoFile]
    have "fst (handleRun world store raw) = Json200 session" by simp
    from handleRun_completed [OF this]
    have next_store: "snd (handleRun world store raw)
         = Stored (take 25 (trimSession session # storedSessions store))" .
    show ?thesis
    proof (cases "completedSessions requests = []")
      case True
      from serve_without_completed [OF True] next_store True Json200 r
      show ?thesis by simp
    next
      case False
      have cs: "completedSessions (request # requests) = session # completedSessions requests"
        using Json200 r by simp
      have "serve store (request # requests) = serve (snd (handleRun world store raw)) requests"
        using r by simp
      also have "\<dots> = Stored (take 25 (map trimSession (rev (completedSessions requests))
                                       @ storedSessions (snd (handleRun world store raw))))"
        by (rule Cons.IH [OF False])
      also have "storedSessions (snd (handleRun world store raw))
                 = take 25 (trimSession session # storedSessions store)"
        by (simp only: next_store storedSessions_Stored)
      also have "take 25 (map trimSession (rev (completedSessions requests))
                          @ take 25 (trimSession session # storedSessions store))
                 = take 25 (map trimSession (rev (completedSessions requests))
                            @ trimSession session # storedSessions store)"
        by (rule take_append_take)
      also have "map trimSession (rev (completedSessions requests))
                   @ trimSession session # storedSessions store
                 = map trimSession (rev (completedSessions (request # requests)))
                   @ storedSessions store"
        unfolding cs by simp
      finally show ?thesis .
    qed
  qed
qed

text \<open>
  Claim C8. Every completed run prepends its session, trimmed by \<open>trimSession\<close>, to
  the list it reads from the file and writes back the first 25 elements. So after the
  requests have been served one after the other, the file holds the first 25 elements of
  the completed sessions, most recent first, followed by what the file held before; after
  more than 25 completed runs it holds exactly the 25 most recent sessions, most recent
  first.
\<close>

theorem session_list_capped:
  "(fst (handleRun world store raw) = Json200 session \<longrightarrow>
      snd (handleRun world store raw)
      = Stored (take 25 (trimSession session # storedSessions store)))
   \<and> (completedSessions requests \<noteq> [] \<longrightarrow>
        serve store requests
        = Stored (take 25 (map trimSession (rev (completedSessions requests))
                           @ storedSessions store)))
   \<and> (25 < length (completedSessions requests) \<longrightarrow>
        serve store requests
        = Stored (map trimSession (take 25 (rev (completedSessions requests))))
        \<and> length (storedSessions (serve store requests)) = 25)"
proof (intro conjI impI)
  assume "fst (handleRun world store raw) = Json200 session"
  then show "snd (handleRun world store raw)
      = Stored (take 25 (trimSession session # storedSessions store))"
    by (rule handleRun_completed)
next
  assume "completedSessions requests \<noteq> []"
  then show "serve store requests
        = Stored (take 25 (map trimSession (rev (completedSessions requests))
                           @ storedSessions store))"
    by (rule serve_completed)
next
  assume many: "25 < length (completedSessions requests)"
  then have "completedSessions requests \<noteq> []" by auto
  from serve_completed [OF this, of store] many
  show served: "serve store requests
        = Stored (map trimSession (take 25 (rev (completedSessions requests))))"
    by (simp add: take_map)
  from many show "length (storedSessions (serve store requests)) = 25"
    unfolding served by simp
qed

lemma sample_request_run:
  "\<exists>s. runOfRequest (sampleWorld\<lparr>now := k\<rparr>) emptyRequest = Inr s"
  by (simp add: runOfRequest_def emptyRequest_def withLlmProvider_def requestOptions_def
      runDebate_def Let_def stage_defs isCodeScenario_default sample_eval)

lemma sample_request_completed:
  "\<exists>s. fst (handleRun (sampleWorld\<lparr>now := k\<rparr>) store EmptyBody) = Json200 s
       \<and> s_createdAt s = k"
proof -
  from sample_request_run [of k] obtain s where
    run: "runOfRequest (sampleWorld\<lparr>now := k\<rparr>) emptyRequest = Inr s" by blast
  then have "runDebate (sampleWorld\<lparr>now := k\<rparr>) None (Some (requestOptions emptyRequest)) = Inr s"
    by (simp add: runOfRequest_def emptyRequest_def withLlmProvider_def)
  from runDebate_session [OF this] have "s_createdAt s = k" by simp
  moreover have "fst (handleRun (sampleWorld\<lparr>now := k\<rparr>) store EmptyBody) = Json200 s"
    using run by (simp add: handleRun_def parsedBody_def split: prod.splits)
  ultimately show ?thesis by blast
qed

lemma sample_requests_completed:
  "map s_createdAt
     (completedSessions (map (\<lambda>k. (sampleWorld\<lparr>now := int k\<rparr>, EmptyBody)) ks))
   = map int ks"
proof (induction ks)
  case Nil
  then show ?case by simp
next
  case (Cons k ks)
  from sample_request_completed [of "int k" NoFile] obtain s where
    "fst (handleRun (sampleWorld\<lparr>now := int k\<rparr>) NoFile EmptyBody) = Json200 s"
    "s_createdAt s = int k" by blast
  with Cons.IH show ?case by simp
qed

lemma createdAt_trimSession [simp]: "s_createdAt (trimSession s) = s_createdAt s"
  by (simp add: trimSession_def)

theorem session_list_capped_witness:
  "(\<exists>s. fst (handleRun (sampleWorld\<lparr>now := 1\<rparr>) NoFile EmptyBody) = Json200 s
        \<and> snd (handleRun (sampleWorld\<lparr>now := 1\<rparr>) NoFile EmptyBody) = Stored [trimSession s])
   \<and> completedSessions sampleRequests \<noteq> []
   \<and> 25 < length (completedSessions sampleRequests)
   \<and> length (storedSessions (serve NoFile sampleRequests)) = 25
   \<and> map s_createdAt (storedSessions (serve NoFile sampleRequests)) = map int (rev [2..<27])"
proof -
  from sample_request_completed [of 1 NoFile] obtain s where
    completed: "fst (handleRun (sampleWorld\<lparr>now := 1\<rparr>) NoFile EmptyBody) = Json200 s" by blast
  from session_list_capped [where world = "sampleWorld\<lparr>now := 1\<rparr>" and store = NoFile
      and raw = EmptyBody and session = s] completed
  have "snd (handleRun (sampleWorld\<lparr>now := 1\<rparr>) NoFile EmptyBody) = Stored [trimSession s]"
    by (simp add: storedSessions_def readSessions_def ensureDataFile_def)
  with completed have one: "\<exists>s. fst (handleRun (sampleWorld\<lparr>now := 1\<rparr>) NoFile EmptyBody) = Json200 s
        \<and> snd (handleRun (sampleWorld\<lparr>now := 1\<rparr>) NoFile EmptyBody) = Stored [trimSession s]"
    by blast
  have created: "map s_createdAt (completedSessions sampleRequests) = map int [1..<27]"
    unfolding sampleRequests_def by (rule sample_requests_completed)
  from arg_cong [OF created, of length]
  have many: "25 < length (completedSessions sampleRequests)" by simp
  then have some: "completedSessions sampleRequests \<noteq> []" by auto
  from session_list_capped [where requests = sampleRequests and store = NoFile] many
  have served: "serve NoFile sampleRequests
        = Stored (map trimSession (take 25 (rev (completedSessions sampleRequests))))"
    and len: "length (storedSessions (serve NoFile sampleRequests)) = 25"
    by simp_all
  have "map s_createdAt (storedSessions (serve NoFile sampleRequests))
        = take 25 (rev (map s_createdAt (completedSessions sampleRequests)))"
    unfolding served by (simp add: comp_def take_map rev_map)
  also have "\<dots> = take 25 (rev (map int [1..<27]))" by (simp only: created)
  also have "[1..<27] = 1 # [2..<27]" by (simp add: upt_conv_Cons)
  also have "take 25 (rev (map int (1 # [2..<27]))) = map int (rev [2..<27])"
    by (simp add: rev_map)
  finally show ?thesis using one some many len by simp
qed

end
